theory Spec2Isabelle
  imports Main "HOL-Library.Word"
begin

section \<open>JavaScript values\<close>

text \<open>
  A JavaScript string is a sequence of UTF-16 code units; \<open>trim\<close>, \<open>indexOf\<close>,
  \<open>slice\<close>, \<open>split('')\<close> and \<open>===\<close> all work on code units. String literals of the
  source are ASCII and are written \<open>lit ''...''\<close>.
\<close>

type_synonym jschar = "16 word"
type_synonym jsstring = "jschar list"

definition lit :: "string \<Rightarrow> jsstring" where
  "lit s = map of_char s"

text \<open>
  \<open>String.prototype.trim\<close> strips WhiteSpace and LineTerminator code units (ECMA-262):
  TAB, VT, FF, SP, NBSP, ZWNBSP, the Unicode space separators, LF, CR, LS and PS.
\<close>

definition isWhiteSpace :: "jschar \<Rightarrow> bool" where
  "isWhiteSpace c = (c \<in> set [0x09, 0x0A, 0x0B, 0x0C, 0x0D, 0x20, 0xA0, 0x1680,
     0x2000, 0x2001, 0x2002, 0x2003, 0x2004, 0x2005, 0x2006, 0x2007, 0x2008, 0x2009, 0x200A,
     0x2028, 0x2029, 0x202F, 0x205F, 0x3000, 0xFEFF])"

definition trim :: "jsstring \<Rightarrow> jsstring" where
  "trim s = rev (dropWhile isWhiteSpace (rev (dropWhile isWhiteSpace s)))"

text \<open>\<open>s.indexOf(c)\<close> for a one-unit search string: the first index, or -1.\<close>

fun indexOf :: "jsstring \<Rightarrow> jschar \<Rightarrow> int" where
  "indexOf [] c = -1"
| "indexOf (x # xs) c =
     (if x = c then 0 else (let i = indexOf xs c in if i = -1 then -1 else i + 1))"

text \<open>
  \<open>slice(start, stop)\<close> and \<open>slice(start)\<close> of strings and arrays: a negative index
  counts from the end, and every index is clamped to the length.
\<close>

definition relativeIndex :: "nat \<Rightarrow> int \<Rightarrow> nat" where
  "relativeIndex len k = nat (if k < 0 then max (int len + k) 0 else min k (int len))"

definition slice :: "'a list \<Rightarrow> int \<Rightarrow> int \<Rightarrow> 'a list" where
  "slice xs start stop =
     drop (relativeIndex (length xs) start) (take (relativeIndex (length xs) stop) xs)"

definition sliceFrom :: "'a list \<Rightarrow> int \<Rightarrow> 'a list" where
  "sliceFrom xs start = drop (relativeIndex (length xs) start) xs"

text \<open>\<open>x || d\<close> for an \<open>x\<close> that is a string or undefined: the empty string is falsy.\<close>

definition orElse :: "jsstring option \<Rightarrow> jsstring \<Rightarrow> jsstring" where
  "orElse x d = (case x of None \<Rightarrow> d | Some s \<Rightarrow> if s = [] then d else s)"

text \<open>
  Numbers: the code only asks whether a number is an integer and compares integers. A
  number that is not an integer (a fraction, NaN, an infinity) is given by its string
  conversion.
\<close>

datatype jsnumber = Integer int | NonInteger jsstring

datatype jsvalue = Undefined | Null | Boolean bool | Number jsnumber | String jsstring

fun digits :: "nat \<Rightarrow> jsstring" where
  "digits n = (if n < 10 then [of_nat (48 + n)] else digits (n div 10) @ [of_nat (48 + n mod 10)])"

declare digits.simps [simp del]

text \<open>
  \<open>Number::toString\<close> (ECMA-262) prints an integer below 10^21 as its decimal digits.
  From 10^21 on it prints the shortest decimal that reads back as the same double, in
  exponent notation: \<open>1e+21\<close>, \<open>1.2345678901234568e+29\<close>. \<open>roundDouble\<close> is the double
  nearest to a natural number (53 bits, ties to even; every number of the program is
  far below the overflow threshold); an integer of the model that is not itself a double
  prints as the double nearest to it.
\<close>

fun bitLength :: "nat \<Rightarrow> nat" where
  "bitLength n = (if n = 0 then 0 else Suc (bitLength (n div 2)))"

declare bitLength.simps [simp del]

definition roundDouble :: "nat \<Rightarrow> nat" where
  "roundDouble m =
     (if bitLength m \<le> 53 then m
      else (let sh = bitLength m - 53; q = m div 2 ^ sh; r = m mod 2 ^ sh in
            (if 2 ^ sh < 2 * r \<or> (2 * r = 2 ^ sh \<and> odd q) then q + 1 else q) * 2 ^ sh))"

text \<open>
  The shortest digit string: with \<open>k\<close> digits, the candidates are \<open>x\<close> cut to \<open>k\<close>
  digits and the next one up; the first \<open>k\<close> for which one of them rounds to \<open>x\<close> is
  taken, the nearer one if both do. The result is the digits and the power of ten.
\<close>

fun shortest :: "nat \<Rightarrow> nat \<Rightarrow> nat \<Rightarrow> nat \<times> nat" where
  "shortest x k fuel =
     (if fuel = 0 then (x, 0)
      else
        (let p = length (digits x) - k; lo = x div 10 ^ p;
             below = (roundDouble (lo * 10 ^ p) = x);
             above = (roundDouble ((lo + 1) * 10 ^ p) = x)
         in if below \<and> above then
              (if x - lo * 10 ^ p < (lo + 1) * 10 ^ p - x then (lo, p)
               else if (lo + 1) * 10 ^ p - x < x - lo * 10 ^ p then (lo + 1, p)
               else if even lo then (lo, p) else (lo + 1, p))
            else if below then (lo, p)
            else if above then (lo + 1, p)
            else shortest x (Suc k) (fuel - 1)))"

declare shortest.simps [simp del]

text \<open>Trailing zeros of the digits go into the power of ten.\<close>

fun stripZeros :: "nat \<times> nat \<Rightarrow> nat \<Rightarrow> nat \<times> nat" where
  "stripZeros (s, p) fuel =
     (if 0 < fuel \<and> 0 < s \<and> s mod 10 = 0 then stripZeros (s div 10, Suc p) (fuel - 1)
      else (s, p))"

declare stripZeros.simps [simp del]

definition exponentNotation :: "nat \<Rightarrow> jsstring" where
  "exponentNotation n =
     (let x = roundDouble n;
          (s, p) = stripZeros (shortest x 1 (length (digits x) - 1)) (length (digits x));
          ds = digits s
      in take 1 ds @ (if 1 < length ds then lit ''.'' @ drop 1 ds else [])
         @ lit ''e+'' @ digits (length ds + p - 1))"

definition natToString :: "nat \<Rightarrow> jsstring" where
  "natToString n = (if n < 10 ^ 21 then digits n else exponentNotation n)"

definition intToString :: "int \<Rightarrow> jsstring" where
  "intToString k = (if k < 0 then lit ''-'' @ natToString (nat (- k)) else natToString (nat k))"

text \<open>The string conversion a template literal applies to an interpolated value.\<close>

fun toString :: "jsvalue \<Rightarrow> jsstring" where
  "toString Undefined = lit ''undefined''"
| "toString Null = lit ''null''"
| "toString (Boolean b) = (if b then lit ''true'' else lit ''false'')"
| "toString (Number (Integer k)) = intToString k"
| "toString (Number (NonInteger s)) = s"
| "toString (String s) = s"

text \<open>
  What a throw or a rejected promise carries: an \<open>Error\<close> object, with its name and its
  message (\<open>new Error(m)\<close> has the name \<open>Error\<close>), or a value that is not an object, which
  has no \<open>message\<close> property (\<open>Promise.reject(null)\<close>, \<open>throw 'text'\<close>). Thrown objects
  that are not \<open>Error\<close> objects are left out. \<open>errorToString\<close> is \<open>String(error)\<close>.
\<close>

datatype fault = Thrown jsstring jsstring | ThrownValue jsvalue

definition Error :: "jsstring \<Rightarrow> fault" where
  "Error m = Thrown (lit ''Error'') m"

definition errorToString :: "fault \<Rightarrow> jsstring" where
  "errorToString x =
     (case x of
        Thrown name m \<Rightarrow>
          (if name = [] then m else if m = [] then name else name @ lit '': '' @ m)
      | ThrownValue v \<Rightarrow> toString v)"

text \<open>
  Reading \<open>x.message\<close> of a caught value \<open>x\<close>: the message of an \<open>Error\<close> object;
  \<open>undefined\<close> for a value that is neither \<open>null\<close> nor \<open>undefined\<close>; and for \<open>null\<close>
  and \<open>undefined\<close> themselves the read throws a \<open>TypeError\<close>. \<open>messageText\<close> is the read
  inside a template literal.
\<close>

definition typeError :: "jsvalue \<Rightarrow> fault" where
  "typeError v =
     Thrown (lit ''TypeError'')
       (lit ''Cannot read properties of '' @ toString v @ lit '' (reading 'message')'')"

definition messageOf :: "fault \<Rightarrow> fault + jsstring option" where
  "messageOf x =
     (case x of
        Thrown name m \<Rightarrow> Inr (Some m)
      | ThrownValue v \<Rightarrow> (if v = Undefined \<or> v = Null then Inl (typeError v) else Inr None))"

definition messageText :: "fault \<Rightarrow> fault + jsstring" where
  "messageText x =
     (case messageOf x of
        Inl f \<Rightarrow> Inl f
      | Inr None \<Rightarrow> Inr (lit ''undefined'')
      | Inr (Some m) \<Rightarrow> Inr m)"

section \<open>Effects\<close>

text \<open>
  The program acts on three things outside itself: the browser (pages and tabs), the
  spreadsheet, and the modules \<open>nameExtractor\<close>, \<open>dmFlowController\<close> and
  \<open>conversationDetector\<close>, which are not among the sources. Every call that leaves the
  program is recorded in a log, in order, and its outcome (a value, or a thrown fault) is
  a parameter of the model. \<open>DraftMessage\<close> in the log marks the entry of \<open>draftMessage\<close>
  (its first line prints to the console). \<open>humanDelay\<close> (from \<open>utils\<close>, not among the
  sources) and the logger only wait and print; they are left out, except where the text
  to print reads the \<open>message\<close> of a caught value.
\<close>

datatype action =
    Click jsstring
  | KeyDown jsstring
  | KeyPress jsstring
  | KeyUp jsstring
  | TypeChar jschar
  | InsertText jsstring
  | DispatchEvents jsstring

text \<open>A cell of a spreadsheet: spreadsheet id, sheet name, 1-based row, column (A is 0).\<close>

type_synonym cell = "jsstring \<times> jsstring \<times> int \<times> nat"

datatype call =
    Goto jsstring
  | Query jsstring
  | OpenDMController
  | DetectExistingConversation
  | DraftMessage
  | ExtractFirstName
  | Act action
  | ReadText jsstring
  | NewPage nat
  | ClosePage nat
  | ValuesUpdate jsstring jsstring "jsstring list"

record state =
  cells :: "cell \<Rightarrow> jsstring option"
  tabs :: "nat list"
  log :: "call list"

type_synonym 'a io = "state \<Rightarrow> (fault + 'a) \<times> state"

definition ret :: "'a \<Rightarrow> 'a io" where
  "ret a s = (Inr a, s)"

definition throw :: "fault \<Rightarrow> 'a io" where
  "throw f s = (Inl f, s)"

definition andThen :: "'a io \<Rightarrow> ('a \<Rightarrow> 'b io) \<Rightarrow> 'b io" where
  "andThen m k s = (case m s of (Inl f, s') \<Rightarrow> (Inl f, s') | (Inr a, s') \<Rightarrow> k a s')"

definition tryCatch :: "'a io \<Rightarrow> (fault \<Rightarrow> 'a io) \<Rightarrow> 'a io" where
  "tryCatch m h s = (case m s of (Inl f, s') \<Rightarrow> h f s' | (Inr a, s') \<Rightarrow> (Inr a, s'))"

text \<open>A call that leaves the program: logged, then its outcome.\<close>

definition extern :: "call \<Rightarrow> fault + 'a \<Rightarrow> 'a io" where
  "extern c outcome s = (outcome, s\<lparr>log := log s @ [c]\<rparr>)"

text \<open>
  An expression evaluated inside the program, which may throw; and a line of the logger
  whose text reads \<open>x.message\<close>: it prints, unless the read throws.
\<close>

definition evaluate :: "fault + 'a \<Rightarrow> 'a io" where
  "evaluate outcome s = (outcome, s)"

definition logMessage :: "fault \<Rightarrow> unit io" where
  "logMessage x = andThen (evaluate (messageText x)) (\<lambda>_. ret ())"

section \<open>messageDrafter.js\<close>

text \<open>
  What a page answers while one account is processed: navigation, element queries
  (\<open>page.$\<close>: is there a match), the three absent modules, each keyboard or pointer action
  (by its position in the sequence), and the text read back from the input element
  (\<open>el.innerText || el.textContent\<close>, a string, possibly empty). The results of the absent
  modules have the fields the callers read: \<open>firstName\<close> (a string) and \<open>success\<close>;
  \<open>success\<close>, \<open>error\<close> and \<open>used\<close>; \<open>hasConversation\<close> and \<open>messageCount\<close>. An element
  is named by the selector that found it.
\<close>

record nameResult =
  name_firstName :: jsstring
  name_success :: bool

record dmResult =
  dm_success :: bool
  dm_error :: "jsstring option"
  dm_used :: jsstring

record conversationResult =
  hasConversation :: bool
  messageCount :: jsvalue

record page =
  on_goto :: "jsstring \<Rightarrow> fault + unit"
  on_query :: "jsstring \<Rightarrow> fault + bool"
  on_openDMController :: "fault + dmResult"
  on_detectExistingConversation :: "fault + conversationResult"
  on_extractFirstName :: "fault + nameResult"
  on_action :: "nat \<Rightarrow> action \<Rightarrow> fault + unit"
  on_readText :: "jsstring \<Rightarrow> fault + jsstring"

text \<open>\<open>process.env\<close>, with \<open>JSON.parse\<close> and the file system as far as the code reads them.\<close>

datatype credentials = Credentials (client_email: "jsstring option") (private_key: "jsstring option")

record env =
  DRAFT_MESSAGE :: "jsstring option"
  GOOGLE_SHEET_ID :: "jsstring option"
  GOOGLE_SHEET_NAME :: "jsstring option"
  GOOGLE_CREDENTIALS :: "jsstring option"
  GOOGLE_CREDENTIALS_PATH :: "jsstring option"
  jsonParse :: "jsstring \<Rightarrow> fault + credentials option"
  existsSync :: "jsstring \<Rightarrow> bool"
  readFileSync :: "jsstring \<Rightarrow> fault + jsstring"

record options =
  opt_firstName :: "jsstring option"
  opt_nameFound :: "bool option"

record draftResult =
  draft_success :: bool
  draft_firstName :: "jsstring option"
  draft_message :: "jsstring option"
  draft_typedText :: "jsstring option"

text \<open>Step 1 of \<open>draftMessage\<close>: the first name and whether it is validated.\<close>

definition resolveName :: "page \<Rightarrow> options \<Rightarrow> (jsstring \<times> bool) io" where
  "resolveName dmPage opts =
     (let firstName = orElse (opt_firstName opts) [] in
      if firstName = [] then
        andThen (extern ExtractFirstName (on_extractFirstName dmPage)) (\<lambda>nameResult.
        ret (name_firstName nameResult, name_success nameResult))
      else
        ret (firstName,
             (case opt_nameFound opts of Some b \<Rightarrow> b | None \<Rightarrow> length (trim firstName) > 0)))"

text \<open>Step 2: the base message from the environment, and the personalized message.\<close>

definition defaultMessage :: jsstring where
  "defaultMessage = lit ''What's up! Great seeing you here. Are you here for the free content or are you interested in buying hotels?''"

definition baseMessage :: "env \<Rightarrow> jsstring" where
  "baseMessage e = orElse (DRAFT_MESSAGE e) defaultMessage"

definition buildMessage :: "jsstring \<Rightarrow> jsstring \<Rightarrow> bool \<Rightarrow> jsstring" where
  "buildMessage base firstName nameFound =
     (if nameFound \<and> trim firstName \<noteq> [] then
        (let idx = indexOf base 0x21 in
         if idx = -1 then lit ''What's up '' @ trim firstName @ lit ''! '' @ base
         else slice base 0 idx @ (lit '' '' @ trim firstName) @ sliceFrom base idx)
      else base)"

text \<open>Step 3: the first selector, in order, that matches an element.\<close>

definition selectors :: "jsstring list" where
  "selectors =
     [lit ''p[contenteditable=\"true\"]'',
      lit ''div[contenteditable=\"true\"]'',
      lit ''p[dir=\"auto\"][contenteditable]'',
      lit ''textarea'',
      lit ''div[role=\"textbox\"]'']"

fun locateInput :: "page \<Rightarrow> jsstring list \<Rightarrow> jsstring option io" where
  "locateInput dmPage [] = ret None"
| "locateInput dmPage (sel # sels) =
     andThen (extern (Query sel) (on_query dmPage sel)) (\<lambda>found.
     if found then ret (Some sel) else locateInput dmPage sels)"

text \<open>
  Steps 4 and 5: focus, select all and delete, type the first ten code units one by one,
  insert the remainder in one operation, dispatch the input and change events.
\<close>

definition keystrokes :: "jsstring \<Rightarrow> jsstring \<Rightarrow> action list" where
  "keystrokes input message =
     (let firstTen = slice message 0 10; remainder = sliceFrom message 10 in
      [Click input, KeyDown (lit ''Control''), KeyPress (lit ''A''), KeyUp (lit ''Control''),
       KeyPress (lit ''Backspace'')]
      @ map TypeChar firstTen
      @ (if length remainder > 0 then [InsertText remainder] else [])
      @ [DispatchEvents input])"

fun performAll :: "page \<Rightarrow> nat \<Rightarrow> action list \<Rightarrow> unit io" where
  "performAll dmPage n [] = ret ()"
| "performAll dmPage n (a # as) =
     andThen (extern (Act a) (on_action dmPage n a)) (\<lambda>_. performAll dmPage (Suc n) as)"

text \<open>
  The try block of \<open>draftMessage\<close>. Step 6 compares the trimmed texts; an empty read-back
  is falsy.
\<close>

definition draftMessageTry :: "env \<Rightarrow> page \<Rightarrow> options \<Rightarrow> draftResult io" where
  "draftMessageTry e dmPage opts =
     andThen (resolveName dmPage opts) (\<lambda>(firstName, nameFound).
     let message = buildMessage (baseMessage e) firstName nameFound in
     andThen (locateInput dmPage selectors) (\<lambda>input.
     case input of
       None \<Rightarrow>
         ret \<lparr>draft_success = False, draft_firstName = Some firstName,
              draft_message = Some message, draft_typedText = None\<rparr>
     | Some sel \<Rightarrow>
         andThen (performAll dmPage 0 (keystrokes sel message)) (\<lambda>_.
         andThen (extern (ReadText sel) (on_readText dmPage sel)) (\<lambda>typedText.
         if typedText \<noteq> [] \<and> trim typedText = trim message then
           ret \<lparr>draft_success = True, draft_firstName = Some firstName,
                draft_message = Some message, draft_typedText = Some typedText\<rparr>
         else
           ret \<lparr>draft_success = False, draft_firstName = Some firstName,
                draft_message = Some message, draft_typedText = Some typedText\<rparr>))))"

text \<open>
  A fault inside the try block is caught; the catch prints \<open>err.message\<close> and returns
  \<open>{ success: false }\<close>.
\<close>

definition draftMessage :: "env \<Rightarrow> page \<Rightarrow> options \<Rightarrow> draftResult io" where
  "draftMessage e dmPage opts =
     andThen (extern DraftMessage (Inr ())) (\<lambda>_.
     tryCatch (draftMessageTry e dmPage opts)
       (\<lambda>err.
          andThen (logMessage err) (\<lambda>_.
          ret \<lparr>draft_success = False, draft_firstName = None, draft_message = None,
               draft_typedText = None\<rparr>)))"

text \<open>
  \<open>validateEnv\<close> of envValidator.js, which \<open>run\<close> calls before anything else, on the
  template: \<open>DRAFT_MESSAGE\<close> is required and must not be empty after trimming.
\<close>

definition draftMessageAccepted :: "env \<Rightarrow> bool" where
  "draftMessageAccepted e =
     (case DRAFT_MESSAGE e of
        None \<Rightarrow> False
      | Some template \<Rightarrow> \<not> (template = [] \<or> trim template = []))"

section \<open>sheetsManager.js\<close>

definition validateEnvironment :: "env \<Rightarrow> fault + unit" where
  "validateEnvironment e =
     (if orElse (GOOGLE_SHEET_ID e) [] = [] then
        Inl (Error (lit ''Missing required environment variable: GOOGLE_SHEET_ID''))
      else if orElse (GOOGLE_SHEET_NAME e) [] = [] then
        Inl (Error (lit ''Missing required environment variable: GOOGLE_SHEET_NAME''))
      else Inr ())"

text \<open>
  \<open>jsonParse\<close> answers \<open>None\<close> for a JSON text that is not an object; a field of the
  object is \<open>None\<close> when it is missing or not a string.
\<close>

definition loadCredentials :: "env \<Rightarrow> fault + credentials" where
  "loadCredentials e =
     (let inline = orElse (GOOGLE_CREDENTIALS e) [];
          path = orElse (GOOGLE_CREDENTIALS_PATH e) [];
          parsed =
            (if inline \<noteq> [] then
               (case jsonParse e inline of
                  Inl parseError \<Rightarrow>
                    (case messageText parseError of
                       Inl f \<Rightarrow> Inl f
                     | Inr m \<Rightarrow>
                         Inl (Error (lit ''Failed to parse GOOGLE_CREDENTIALS as JSON: ''
                           @ m @ lit ''. Ensure the value is a valid JSON string.'')))
                | Inr c \<Rightarrow> Inr c)
             else if path \<noteq> [] then
               (if \<not> existsSync e path then
                  Inl (Error (lit ''GOOGLE_CREDENTIALS_PATH file not found: '' @ path))
                else
                  (case (case readFileSync e path of Inl f \<Rightarrow> Inl f | Inr fileData \<Rightarrow> jsonParse e fileData) of
                     Inl fileError \<Rightarrow>
                       (case messageText fileError of
                          Inl f \<Rightarrow> Inl f
                        | Inr m \<Rightarrow>
                            Inl (Error (lit ''Failed to read or parse credentials file at '' @ path
                              @ lit '': '' @ m)))
                   | Inr c \<Rightarrow> Inr c))
             else
               Inl (Error (lit ''Missing Google credentials. Provide either GOOGLE_CREDENTIALS (JSON string) or GOOGLE_CREDENTIALS_PATH (file path) in environment variables.'')))
      in case parsed of
           Inl f \<Rightarrow> Inl f
         | Inr None \<Rightarrow> Inl (Error (lit ''Invalid credentials: must be a JSON object''))
         | Inr (Some c) \<Rightarrow>
             if orElse (client_email c) [] = [] then
               Inl (Error (lit ''Invalid credentials: missing or invalid client_email field''))
             else if orElse (private_key c) [] = [] then
               Inl (Error (lit ''Invalid credentials: missing or invalid private_key field''))
             else Inr c)"

text \<open>
  \<open>sheets.spreadsheets.values.update\<close> with \<open>valueInputOption: 'RAW'\<close>: the service
  either rejects the request and writes nothing, or stores the given row of values, as
  they are, left to right from the first cell of the range. The A1 range
  \<open>Sheet!D{row}:F{row}\<close> names the sheet and, in decimal digits, the row; the service is
  handed the range with these two parts of it, and rejects a range whose row is not a
  positive number in digits. Columns D, E, F are 3, 4, 5.
\<close>

fun writeRow ::
  "(cell \<Rightarrow> jsstring option) \<Rightarrow> jsstring \<Rightarrow> jsstring \<Rightarrow> int \<Rightarrow> nat \<Rightarrow> jsstring list
     \<Rightarrow> (cell \<Rightarrow> jsstring option)" where
  "writeRow cs sheetId sheetName r c [] = cs"
| "writeRow cs sheetId sheetName r c (v # vs) =
     writeRow (cs((sheetId, sheetName, r, c) \<mapsto> v)) sheetId sheetName r (Suc c) vs"

definition isDigit :: "jschar \<Rightarrow> bool" where
  "isDigit c = (0x30 \<le> c \<and> c \<le> 0x39)"

definition rowNumber :: "jsstring \<Rightarrow> int option" where
  "rowNumber rowText =
     (let r = foldl (\<lambda>a c. 10 * a + (unat c - 48)) 0 rowText in
      if rowText \<noteq> [] \<and> list_all isDigit rowText \<and> 0 < r then Some (int r) else None)"

definition valuesUpdate ::
  "fault + unit \<Rightarrow> jsstring \<Rightarrow> jsstring \<Rightarrow> jsstring \<Rightarrow> jsstring \<Rightarrow> jsstring list \<Rightarrow> unit io" where
  "valuesUpdate api sheetId a1 sheetName rowText vs s =
     (let s' = s\<lparr>log := log s @ [ValuesUpdate sheetId a1 vs]\<rparr> in
      case api of
        Inl apiError \<Rightarrow> (Inl apiError, s')
      | Inr _ \<Rightarrow>
          (case rowNumber rowText of
             None \<Rightarrow> (Inl (Error (lit ''Unable to parse range: '' @ a1)), s')
           | Some r \<Rightarrow> (Inr (), s'\<lparr>cells := writeRow (cells s) sheetId sheetName r 3 vs\<rparr>)))"

definition isInteger :: "jsvalue \<Rightarrow> bool" where
  "isInteger v = (case v of Number (Integer k) \<Rightarrow> True | _ \<Rightarrow> False)"

definition integerOf :: "jsvalue \<Rightarrow> int" where
  "integerOf v = (case v of Number (Integer k) \<Rightarrow> k | _ \<Rightarrow> 0)"

definition isString :: "jsvalue \<Rightarrow> bool" where
  "isString v = (case v of String s \<Rightarrow> True | _ \<Rightarrow> False)"

definition stringOf :: "jsvalue \<Rightarrow> jsstring" where
  "stringOf v = (case v of String s \<Rightarrow> s | _ \<Rightarrow> [])"

text \<open>
  \<open>updateDraftData(rowIndex, dateSent, message, status = 'Drafted')\<close>; \<open>api\<close> is the
  service's answer to the request.
\<close>

definition updateDraftData ::
  "env \<Rightarrow> fault + unit \<Rightarrow> jsvalue \<Rightarrow> jsvalue \<Rightarrow> jsvalue \<Rightarrow> jsvalue \<Rightarrow> unit io" where
  "updateDraftData e api rowIndex dateSent message statusArg =
     (let status = (if statusArg = Undefined then String (lit ''Drafted'') else statusArg) in
      if \<not> isInteger rowIndex \<or> integerOf rowIndex < 2 then
        throw (Error (lit ''Invalid rowIndex: '' @ toString rowIndex
          @ lit ''. Must be an integer >= 2 (row 1 is header)''))
      else if \<not> isString dateSent \<or> trim (stringOf dateSent) = [] then
        throw (Error (lit ''dateSent must be a non-empty string''))
      else if \<not> isString message then
        throw (Error (lit ''message must be a string''))
      else if \<not> isString status \<or> trim (stringOf status) = [] then
        throw (Error (lit ''status must be a non-empty string''))
      else
        (case validateEnvironment e of
           Inl f \<Rightarrow> throw f
         | Inr _ \<Rightarrow>
        (case loadCredentials e of
           Inl f \<Rightarrow> throw f
         | Inr credentials \<Rightarrow>
             let sheetId = orElse (GOOGLE_SHEET_ID e) [];
                 sheetName = orElse (GOOGLE_SHEET_NAME e) [];
                 a1 = sheetName @ lit ''!D'' @ toString rowIndex @ lit '':F'' @ toString rowIndex
             in tryCatch
                  (valuesUpdate api sheetId a1 sheetName (toString rowIndex)
                     [stringOf dateSent, stringOf message, stringOf status])
                  (\<lambda>apiError.
                     andThen (evaluate (messageText apiError)) (\<lambda>m.
                     throw (Error (lit ''Failed to update row '' @ toString rowIndex
                       @ lit '' in sheet: '' @ m
                       @ lit ''. Verify rowIndex is valid and the service account has write access.'')))))))"

section \<open>main\_messageDrafter.js\<close>

text \<open>
  A row of the filtered list (its \<open>rawRow\<close> is not read here), the result of
  \<open>processUser\<close>, and the configuration as far as \<open>run\<close> reads it: \<open>config.draftMessage\<close>
  (here \<open>draftMessageText\<close>), \<open>maxDraft\<close> and \<open>maxProcess\<close>, both integers.
\<close>

record row =
  username :: jsstring
  rowIndex :: int
  source :: jsstring
  status :: jsstring

record result =
  res_username :: jsstring
  res_rowIndex :: int
  success :: bool
  skipped :: bool
  error :: "jsstring option"
  message :: "jsstring option"

record config =
  draftMessageText :: jsstring
  maxDraft :: int
  maxProcess :: int

definition profileUrl :: "jsstring \<Rightarrow> jsstring" where
  "profileUrl user = lit ''https://www.instagram.com/'' @ user @ lit ''/''"

definition loginSelector :: jsstring where
  "loginSelector = lit ''input[name=\"username\"]''"

definition navigateToProfile :: "page \<Rightarrow> jsstring \<Rightarrow> unit io" where
  "navigateToProfile pg user =
     andThen (extern (Goto (profileUrl user)) (on_goto pg (profileUrl user))) (\<lambda>_.
     andThen (extern (Query loginSelector) (on_query pg loginSelector)) (\<lambda>loginInput.
     if loginInput then
       throw (Error (lit ''Not logged in - redirected to login page. Run loginSeeder.js first.''))
     else ret ()))"

text \<open>
  \<open>processUser\<close>: the whole body is one try block (\<open>processUserTry\<close>), and \<open>result\<close>
  is only changed right before it is returned, so the catch sees it as initialized.
  \<open>draftMessage\<close> is called with no options and reads the template from the environment;
  the third parameter is not used. A draft result has no \<open>error\<close> field, so
  \<open>draftResult.error || 'Unknown error'\<close> is \<open>'Unknown error'\<close>.
\<close>

definition processUserTry :: "env \<Rightarrow> page \<Rightarrow> row \<Rightarrow> result \<Rightarrow> result io" where
  "processUserTry e pg rw result =
     andThen (navigateToProfile pg (username rw)) (\<lambda>_.
     andThen (extern OpenDMController (on_openDMController pg)) (\<lambda>dmResult.
     if \<not> dm_success dmResult then
       ret (result\<lparr>error := Some (lit ''Failed to open DM: ''
              @ orElse (dm_error dmResult) (lit ''Unknown error''))\<rparr>)
     else
       andThen (extern DetectExistingConversation (on_detectExistingConversation pg))
         (\<lambda>conversationResult.
       if hasConversation conversationResult then
         ret (result\<lparr>skipped := True,
                error := Some (lit ''Existing conversation detected (''
                  @ toString (messageCount conversationResult) @ lit '' messages)'')\<rparr>)
       else
         andThen (draftMessage e pg \<lparr>opt_firstName = None, opt_nameFound = None\<rparr>)
           (\<lambda>draftResult.
         if \<not> draft_success draftResult then
           ret (result\<lparr>error := Some (lit ''Failed to draft message: ''
                  @ orElse None (lit ''Unknown error''))\<rparr>)
         else
           ret (result\<lparr>success := True, message := draft_message draftResult\<rparr>)))))"

text \<open>\<open>error.message || String(error)\<close>: the read of \<open>message\<close> may throw.\<close>

definition faultDescription :: "fault \<Rightarrow> fault + jsstring" where
  "faultDescription err =
     (case messageOf err of
        Inl f \<Rightarrow> Inl f
      | Inr m \<Rightarrow> Inr (orElse m (errorToString err)))"

definition processUser :: "env \<Rightarrow> page \<Rightarrow> row \<Rightarrow> jsstring \<Rightarrow> result io" where
  "processUser e pg rw template =
     (let result = \<lparr>res_username = username rw, res_rowIndex = rowIndex rw, success = False,
                     skipped = False, error = None, message = None\<rparr> in
      tryCatch (processUserTry e pg rw result)
        (\<lambda>err.
           andThen (evaluate (faultDescription err)) (\<lambda>description.
           ret (result\<lparr>error := Some description\<rparr>))))"

text \<open>
  What the browser and the spreadsheet service answer during one iteration of the loop:
  the new tab (with its page), the one update request of the iteration, closing the tab,
  and the clock (\<open>new Date().toISOString()\<close>).
\<close>

record tabWorld =
  on_newPage :: "fault + page"
  on_valuesUpdate :: "fault + unit"
  on_close :: "fault + unit"
  now :: jsstring

text \<open>
  \<open>tabs\<close> holds the tabs the program has opened and not closed; a tab leaves it when
  \<open>close()\<close> is called on it, whatever the call answers.
\<close>

definition newPage :: "tabWorld \<Rightarrow> nat \<Rightarrow> page io" where
  "newPage w i s =
     (case on_newPage w of
        Inl f \<Rightarrow> (Inl f, s\<lparr>log := log s @ [NewPage i]\<rparr>)
      | Inr pg \<Rightarrow> (Inr pg, s\<lparr>tabs := tabs s @ [i], log := log s @ [NewPage i]\<rparr>))"

definition closePage :: "tabWorld \<Rightarrow> nat \<Rightarrow> unit io" where
  "closePage w i s = (on_close w, s\<lparr>tabs := removeAll i (tabs s), log := log s @ [ClosePage i]\<rparr>)"

record counters =
  draftedCount :: nat
  skippedCount :: nat
  errorCount :: nat

text \<open>The outcome the three branches of the loop give a result, in their order.\<close>

datatype outcome = Drafted | Skipped | Failed

definition outcomeOf :: "result \<Rightarrow> outcome" where
  "outcomeOf r = (if skipped r then Skipped else if success r then Drafted else Failed)"

text \<open>A property that may be missing, as an argument: undefined or a string.\<close>

definition argOf :: "jsstring option \<Rightarrow> jsvalue" where
  "argOf x = (case x of None \<Rightarrow> Undefined | Some s \<Rightarrow> String s)"

text \<open>
  The branches on the result of \<open>processUser\<close>: the new counters and
  \<open>draftingSucceeded\<close>. Each catch around \<open>updateDraftData\<close> prints
  \<open>updateError.message\<close> first.
\<close>

definition handleResult :: "env \<Rightarrow> tabWorld \<Rightarrow> counters \<Rightarrow> result \<Rightarrow> (counters \<times> bool) io" where
  "handleResult e w c result =
     (if skipped result then
        andThen
          (tryCatch
             (updateDraftData e (on_valuesUpdate w) (Number (Integer (res_rowIndex result)))
                (String (now w)) (String []) (String (lit ''Convo Exists'')))
             (\<lambda>updateError. logMessage updateError)) (\<lambda>_.
        ret (c\<lparr>skippedCount := skippedCount c + 1\<rparr>, False))
      else if success result then
        tryCatch
          (andThen
             (updateDraftData e (on_valuesUpdate w) (Number (Integer (res_rowIndex result)))
                (String (now w)) (argOf (message result)) (String (lit ''Drafted''))) (\<lambda>_.
           ret (c\<lparr>draftedCount := draftedCount c + 1\<rparr>, True)))
          (\<lambda>updateError.
             andThen (logMessage updateError) (\<lambda>_.
             ret (c\<lparr>errorCount := errorCount c + 1\<rparr>, True)))
      else
        andThen
          (tryCatch
             (updateDraftData e (on_valuesUpdate w) (Number (Integer (res_rowIndex result)))
                (String (now w)) (String (orElse (error result) (lit ''Unknown error'')))
                (String (lit ''Failed'')))
             (\<lambda>updateError. logMessage updateError)) (\<lambda>_.
        ret (c\<lparr>errorCount := errorCount c + 1\<rparr>, False)))"

text \<open>
  The catch around \<open>processUser\<close> and the branches: inside its own try it reads
  \<open>userError.message || 'Unexpected error'\<close> and writes Failed; after it, it counts an
  error and prints \<open>userError.message\<close>.
\<close>

definition handleUserError ::
  "env \<Rightarrow> tabWorld \<Rightarrow> row \<Rightarrow> counters \<Rightarrow> fault \<Rightarrow> (counters \<times> bool) io" where
  "handleUserError e w rw c userError =
     andThen
       (tryCatch
          (andThen (evaluate (messageOf userError)) (\<lambda>m.
           updateDraftData e (on_valuesUpdate w) (Number (Integer (rowIndex rw)))
             (String (now w)) (String (orElse m (lit ''Unexpected error'')))
             (String (lit ''Failed''))))
          (\<lambda>updateError. logMessage updateError)) (\<lambda>_.
     andThen (logMessage userError) (\<lambda>_.
     ret (c\<lparr>errorCount := errorCount c + 1\<rparr>, False)))"

text \<open>
  One iteration for \<open>filteredRows[i]\<close>: a new tab (a fault here is outside the inner try
  and ends the loop), the account, the sheet, and the tab kept or closed. The catch
  around \<open>close\<close> prints \<open>closeError.message\<close>.
\<close>

definition loopBody ::
  "env \<Rightarrow> config \<Rightarrow> (nat \<Rightarrow> tabWorld) \<Rightarrow> row list \<Rightarrow> nat \<Rightarrow> counters \<Rightarrow> counters io" where
  "loopBody e cfg world filteredRows i c =
     (let rw = filteredRows ! i in
      andThen (newPage (world i) i) (\<lambda>userPage.
      andThen
        (tryCatch
           (andThen (processUser e userPage rw (draftMessageText cfg)) (handleResult e (world i) c))
           (handleUserError e (world i) rw c)) (\<lambda>(c', draftingSucceeded).
      andThen
        (if draftingSucceeded then ret ()
         else tryCatch (closePage (world i) i) (\<lambda>closeError. logMessage closeError)) (\<lambda>_.
      ret c'))))"

text \<open>
  The loop \<open>for (i = 0; i < filteredRows.length && draftedCount < maxDraft; i++)\<close>, with
  the break at the end of its body.
\<close>

function draftLoop ::
  "env \<Rightarrow> config \<Rightarrow> (nat \<Rightarrow> tabWorld) \<Rightarrow> row list \<Rightarrow> nat \<Rightarrow> counters \<Rightarrow> counters io" where
  "draftLoop e cfg world filteredRows i c s =
     (if i < length filteredRows \<and> int (draftedCount c) < maxDraft cfg then
        (case loopBody e cfg world filteredRows i c s of
           (Inl f, s') \<Rightarrow> (Inl f, s')
         | (Inr c', s') \<Rightarrow>
             if int (draftedCount c') \<ge> maxDraft cfg then (Inr c', s')
             else draftLoop e cfg world filteredRows (i + 1) c' s')
      else (Inr c, s))"
  by pat_completeness auto
termination
  by (relation "measure (\<lambda>(e, cfg, world, filteredRows, i, c, s). length filteredRows - i)") auto

declare draftLoop.simps [simp del]

text \<open>
  \<open>run\<close> from step 4 on: \<open>cfg\<close> and \<open>filteredRows\<close> are what the validation, loading
  and filtering steps have produced (\<open>maxDraft\<close> is an integer of at least 1 there). The
  browser is launched and the session checked on a temporary page; \<open>on_session\<close> tells
  whether the login form was found.
\<close>

record browserWorld =
  on_launch :: "fault + unit"
  on_session :: "fault + bool"

datatype report =
    NoRows
  | WouldProcess "row list"
  | Summary nat counters
  | FatalError fault

definition initializeBrowser :: "browserWorld \<Rightarrow> unit io" where
  "initializeBrowser b s =
     (case on_launch b of
        Inl f \<Rightarrow> (Inl f, s)
      | Inr _ \<Rightarrow>
          (case on_session b of
             Inl f \<Rightarrow> (Inl f, s)
           | Inr loginInput \<Rightarrow>
               if loginInput then
                 (Inl (Error (lit ''Not logged in. Please run loginSeeder.js first to establish session.'')), s)
               else (Inr (), s)))"

definition run ::
  "env \<Rightarrow> bool \<Rightarrow> config \<Rightarrow> browserWorld \<Rightarrow> (nat \<Rightarrow> tabWorld) \<Rightarrow> row list \<Rightarrow> report io" where
  "run e dryRun cfg b world filteredRows =
     tryCatch
       (if length filteredRows = 0 then ret NoRows
        else if dryRun then ret (WouldProcess (slice filteredRows 0 (maxDraft cfg)))
        else
          tryCatch
            (andThen (initializeBrowser b) (\<lambda>_.
             andThen
               (draftLoop e cfg world filteredRows 0
                  \<lparr>draftedCount = 0, skippedCount = 0, errorCount = 0\<rparr>) (\<lambda>c.
             ret (Summary (length filteredRows) c))))
            (\<lambda>browserError. andThen (logMessage browserError) (\<lambda>_. throw browserError)))
       (\<lambda>fatalError. andThen (logMessage fatalError) (\<lambda>_. ret (FatalError fatalError)))"

section \<open>Reading the log, and example worlds\<close>

text \<open>The calls made between two states.\<close>

definition calls :: "state \<Rightarrow> state \<Rightarrow> call list" where
  "calls s s' = drop (length (log s)) (log s')"

text \<open>
  An io computation is confined to \<open>P\<close> when it leaves the tabs alone and only adds calls
  that satisfy \<open>P\<close> to the log.
\<close>

definition confined :: "(call \<Rightarrow> bool) \<Rightarrow> 'a io \<Rightarrow> bool" where
  "confined P m =
     (\<forall>s. tabs (snd (m s)) = tabs s \<and> (\<exists>new. log (snd (m s)) = log s @ new \<and> list_all P new))"

fun isPageCall :: "call \<Rightarrow> bool" where
  "isPageCall (NewPage i) = False"
| "isPageCall (ClosePage i) = False"
| "isPageCall (ValuesUpdate sheetId a1 vs) = False"
| "isPageCall other = True"

fun isSheetCall :: "call \<Rightarrow> bool" where
  "isSheetCall (ValuesUpdate sheetId a1 vs) = True"
| "isSheetCall other = False"

fun isNewPage :: "call \<Rightarrow> bool" where
  "isNewPage (NewPage i) = True"
| "isNewPage other = False"

fun isNavigation :: "call \<Rightarrow> bool" where
  "isNavigation (Goto url) = True"
| "isNavigation (Query sel) = True"
| "isNavigation other = False"

text \<open>
  The fault with which the catch around \<open>close()\<close> fails itself, if it does: the read of
  \<open>closeError.message\<close> when \<open>close()\<close> rejected with \<open>null\<close> or \<open>undefined\<close>.
\<close>

definition closeFault :: "tabWorld \<Rightarrow> fault option" where
  "closeFault w =
     (case on_close w of
        Inr _ \<Rightarrow> None
      | Inl closeError \<Rightarrow>
          (case messageText closeError of Inl f \<Rightarrow> Some f | Inr _ \<Rightarrow> None))"

text \<open>
  Account \<open>j\<close> of the list yields Drafted with a successful write, in whatever state its
  iteration starts: the tab opens, \<open>processUser\<close> reports success, and the update of the
  sheet goes through.
\<close>

definition yieldsDrafted :: "env \<Rightarrow> config \<Rightarrow> (nat \<Rightarrow> tabWorld) \<Rightarrow> row list \<Rightarrow> nat \<Rightarrow> bool" where
  "yieldsDrafted e cfg world filteredRows j =
     (\<forall>s. \<exists>pg s0 res s1 s2.
        newPage (world j) j s = (Inr pg, s0)
        \<and> processUser e pg (filteredRows ! j) (draftMessageText cfg) s0 = (Inr res, s1)
        \<and> outcomeOf res = Drafted
        \<and> updateDraftData e (on_valuesUpdate (world j)) (Number (Integer (res_rowIndex res)))
             (String (now (world j))) (argOf (message res)) (String (lit ''Drafted'')) s1
           = (Inr (), s2))"

definition emptyState :: state where
  "emptyState = \<lparr>cells = (\<lambda>_. None), tabs = [], log = []\<rparr>"

definition exampleEnv :: env where
  "exampleEnv =
     \<lparr>DRAFT_MESSAGE = Some (lit ''Hi! Welcome''),
      GOOGLE_SHEET_ID = Some (lit ''sheet-1''),
      GOOGLE_SHEET_NAME = Some (lit ''Leads''),
      GOOGLE_CREDENTIALS = Some (lit ''{}''),
      GOOGLE_CREDENTIALS_PATH = None,
      jsonParse = (\<lambda>_. Inr (Some (Credentials (Some (lit ''bot@example.com'')) (Some (lit ''key''))))),
      existsSync = (\<lambda>_. False),
      readFileSync = (\<lambda>_. Inl (Error (lit ''ENOENT'')))\<rparr>"

text \<open>
  A page on which everything works: no login form, the thread opens, no conversation,
  the name is Alex, the first input selector matches, and the element shows the message.
\<close>

definition draftedPage :: page where
  "draftedPage =
     \<lparr>on_goto = (\<lambda>_. Inr ()),
      on_query = (\<lambda>sel. Inr (sel \<noteq> loginSelector)),
      on_openDMController = Inr \<lparr>dm_success = True, dm_error = None, dm_used = lit ''button''\<rparr>,
      on_detectExistingConversation = Inr \<lparr>hasConversation = False, messageCount = Number (Integer 0)\<rparr>,
      on_extractFirstName = Inr \<lparr>name_firstName = lit ''Alex'', name_success = True\<rparr>,
      on_action = (\<lambda>_ _. Inr ()),
      on_readText = (\<lambda>_. Inr (lit ''Hi Alex! Welcome''))\<rparr>"

text \<open>The same page with three earlier messages in the thread.\<close>

definition conversationPage :: page where
  "conversationPage =
     draftedPage\<lparr>on_detectExistingConversation :=
       Inr \<lparr>hasConversation = True, messageCount = Number (Integer 3)\<rparr>\<rparr>"

text \<open>The same page when the navigation times out, and when the keyboard fails.\<close>

definition timeoutPage :: page where
  "timeoutPage =
     draftedPage\<lparr>on_goto := (\<lambda>_. Inl (Thrown (lit ''TimeoutError'') (lit ''Timeout 30000ms exceeded'')))\<rparr>"

definition keyboardFaultPage :: page where
  "keyboardFaultPage =
     draftedPage\<lparr>on_action := (\<lambda>_ _. Inl (Error (lit ''Target closed'')))\<rparr>"

text \<open>The same page when the element shows the message with spaces around it, or cut short.\<close>

definition paddedPage :: page where
  "paddedPage = draftedPage\<lparr>on_readText := (\<lambda>_. Inr (lit '' Hi Alex! Welcome  ''))\<rparr>"

definition truncatedPage :: page where
  "truncatedPage = draftedPage\<lparr>on_readText := (\<lambda>_. Inr (lit ''Hi Alex! Welc''))\<rparr>"

text \<open>The same page when the navigation rejects with \<open>null\<close>, and with a string.\<close>

definition nullRejectPage :: page where
  "nullRejectPage = draftedPage\<lparr>on_goto := (\<lambda>_. Inl (ThrownValue Null))\<rparr>"

definition textRejectPage :: page where
  "textRejectPage =
     draftedPage\<lparr>on_goto := (\<lambda>_. Inl (ThrownValue (String (lit ''net::ERR_ABORTED''))))\<rparr>"

definition goodTab :: "page \<Rightarrow> tabWorld" where
  "goodTab pg =
     \<lparr>on_newPage = Inr pg, on_valuesUpdate = Inr (), on_close = Inr (),
      now = lit ''2025-01-01T00:00:00.000Z''\<rparr>"

definition failedWriteTab :: "page \<Rightarrow> tabWorld" where
  "failedWriteTab pg = (goodTab pg)\<lparr>on_valuesUpdate := Inl (Error (lit ''quota exceeded''))\<rparr>"

text \<open>A tab that cannot be created, and a tab whose \<open>close\<close> rejects with \<open>null\<close>.\<close>

definition noTab :: tabWorld where
  "noTab = (goodTab draftedPage)\<lparr>on_newPage := Inl (Error (lit ''Target closed''))\<rparr>"

definition stuckTab :: "page \<Rightarrow> tabWorld" where
  "stuckTab pg = (goodTab pg)\<lparr>on_close := Inl (ThrownValue Null)\<rparr>"

definition goodBrowser :: browserWorld where
  "goodBrowser = \<lparr>on_launch = Inr (), on_session = Inr False\<rparr>"

definition exampleRows :: "nat \<Rightarrow> row list" where
  "exampleRows n =
     map (\<lambda>k. \<lparr>username = lit ''user'' @ digits k, rowIndex = int k + 2,
               source = lit ''likes'', status = lit ''Active''\<rparr>) [0..<n]"

definition exampleConfig :: "int \<Rightarrow> config" where
  "exampleConfig cap = \<lparr>draftMessageText = lit ''Hi! Welcome'', maxDraft = cap, maxProcess = 50\<rparr>"

definition noCounts :: counters where
  "noCounts = \<lparr>draftedCount = 0, skippedCount = 0, errorCount = 0\<rparr>"

section \<open>Strings\<close>

lemma indexOf_nonneg_or_minus1: "indexOf s c = -1 \<or> 0 \<le> indexOf s c"
  by (induction s) (auto simp: Let_def)

lemma indexOf_absent: "(indexOf s c = -1) = (c \<notin> set s)"
proof (induction s)
  case Nil
  then show ?case by simp
next
  case (Cons x xs)
  have "0 \<le> indexOf xs c \<or> indexOf xs c = -1" using indexOf_nonneg_or_minus1 by blast
  then show ?case using Cons by (auto simp: Let_def)
qed

lemma indexOf_first:
  "i < length s \<Longrightarrow> s ! i = c \<Longrightarrow> (\<forall>j<i. s ! j \<noteq> c) \<Longrightarrow> indexOf s c = int i"
proof (induction s arbitrary: i)
  case Nil
  then show ?case by simp
next
  case (Cons x xs)
  show ?case
  proof (cases i)
    case 0
    then show ?thesis using Cons.prems by simp
  next
    case (Suc k)
    have "x \<noteq> c" using Cons.prems(3) Suc by auto
    moreover have "\<forall>j<k. xs ! j \<noteq> c"
    proof (intro allI impI)
      fix j assume "j < k"
      then have "Suc j < i" using Suc by simp
      then have "(x # xs) ! Suc j \<noteq> c" using Cons.prems(3) by blast
      then show "xs ! j \<noteq> c" by simp
    qed
    then have "indexOf xs c = int k"
      using Cons.IH[of k] Cons.prems(1,2) Suc by simp
    ultimately show ?thesis using Suc by (simp add: Let_def)
  qed
qed

lemma slice_prefix: "slice xs 0 (int i) = take i xs"
  by (simp add: slice_def relativeIndex_def min_def take_all)

lemma sliceFrom_suffix: "sliceFrom xs (int i) = drop i xs"
  by (simp add: sliceFrom_def relativeIndex_def min_def)

lemma slice_take: "0 \<le> k \<Longrightarrow> slice xs 0 k = take (nat k) xs"
  by (simp add: slice_def relativeIndex_def min_def take_all)

lemma dropWhile_all: "list_all P a \<Longrightarrow> dropWhile P (a @ m) = dropWhile P m"
  by (induction a) auto

lemma dropWhile_keep: "\<not> list_all P m \<Longrightarrow> dropWhile P (m @ b) = dropWhile P m @ b"
  by (induction m) auto

text \<open>
  Whitespace around a text does not change what \<open>trim\<close> makes of it.
\<close>

lemma trim_padding:
  assumes "list_all isWhiteSpace a" and "list_all isWhiteSpace b"
  shows "trim (a @ m @ b) = trim m"
proof (cases "list_all isWhiteSpace m")
  case True
  have padded: "dropWhile isWhiteSpace (a @ m @ b) = []"
    using assms True by (auto simp: list_all_iff dropWhile_eq_Nil_conv)
  have bare: "dropWhile isWhiteSpace m = []"
    using True by (auto simp: list_all_iff dropWhile_eq_Nil_conv)
  show ?thesis unfolding trim_def padded bare by simp
next
  case False
  have front: "dropWhile isWhiteSpace (a @ m @ b) = dropWhile isWhiteSpace m @ b"
    using assms(1) False by (simp add: dropWhile_all dropWhile_keep)
  have tail_ws: "list_all isWhiteSpace (rev b)" using assms(2) by (simp add: list_all_iff)
  show ?thesis unfolding trim_def front rev_append using tail_ws by (simp only: dropWhile_all)
qed

lemma trim_empty: "trim [] = []"
  by (simp add: trim_def)

text \<open>A text trims to the empty string exactly when it is whitespace only.\<close>

lemma trim_blank: "(trim x = []) = list_all isWhiteSpace x"
proof
  let ?y = "dropWhile isWhiteSpace x"
  assume "trim x = []"
  then have a: "\<forall>c\<in>set ?y. isWhiteSpace c"
    by (simp add: trim_def dropWhile_eq_Nil_conv)
  have "?y = []"
  proof (rule ccontr)
    assume ne: "?y \<noteq> []"
    then have "\<not> isWhiteSpace (hd ?y)" by (rule hd_dropWhile)
    moreover have "hd ?y \<in> set ?y" using ne by simp
    ultimately show False using a by blast
  qed
  then show "list_all isWhiteSpace x"
    by (simp add: dropWhile_eq_Nil_conv list_all_iff)
next
  assume "list_all isWhiteSpace x"
  then have "dropWhile isWhiteSpace x = []"
    by (simp add: dropWhile_eq_Nil_conv list_all_iff)
  then show "trim x = []" unfolding trim_def by (simp only: dropWhile.simps rev.simps)
qed

lemma trim_nonblank:
  assumes "trim x \<noteq> []"
  shows "\<not> list_all isWhiteSpace (trim x)"
proof -
  let ?y = "dropWhile isWhiteSpace (rev (dropWhile isWhiteSpace x))"
  have ne: "?y \<noteq> []" using assms by (simp add: trim_def)
  then have "\<not> isWhiteSpace (hd ?y)" by (rule hd_dropWhile)
  moreover have "hd ?y \<in> set (trim x)" using ne by (simp add: trim_def)
  ultimately show ?thesis by (auto simp: list_all_iff)
qed

text \<open>
  A row number of at least 2 and below 10^21 is read back from its text; the exponent
  notation is not a row number.
\<close>

lemma digit_unit: "d < 10 \<Longrightarrow> unat (of_nat (48 + d) :: jschar) = 48 + d"
  by (subst unat_of_nat) simp

lemma digit_isDigit: "d < 10 \<Longrightarrow> isDigit (of_nat (48 + d))"
  using digit_unit[of d] by (simp add: isDigit_def word_le_nat_alt)

lemma digits_read:
  "list_all isDigit (digits n) \<and> digits n \<noteq> []
   \<and> foldl (\<lambda>a c. 10 * a + (unat c - 48)) 0 (digits n) = n"
proof (induction n rule: digits.induct)
  case (1 n)
  show ?case
  proof (cases "n < 10")
    case True
    then show ?thesis
      using digit_unit[of n] digit_isDigit[of n] by (subst (1 2 3) digits.simps) simp
  next
    case False
    have d: "n mod 10 < 10" by simp
    show ?thesis
      using 1[OF False] False digit_unit[OF d] digit_isDigit[OF d]
      by (subst (1 2 3) digits.simps) simp
  qed
qed

lemma rowNumber_digits: "0 < n \<Longrightarrow> rowNumber (digits n) = Some (int n)"
  using digits_read[of n] by (simp add: rowNumber_def)

lemma rowNumber_exponentNotation: "rowNumber (exponentNotation n) = None"
  by (simp add: rowNumber_def exponentNotation_def Let_def lit_def isDigit_def split: prod.splits)

lemma toString_integers:
  "toString (Number (Integer 42)) = lit ''42''"
  "toString (Number (Integer (- 7))) = lit ''-7''"
  "toString (Number (Integer 999999999999999999999)) = lit ''999999999999999999999''"
  "toString (Number (Integer (10 ^ 21))) = lit ''1e+21''"
  "toString (Number (Integer 1500000000000000000000)) = lit ''1.5e+21''"
  by (simp_all add: intToString_def natToString_def exponentNotation_def roundDouble_def
      bitLength.simps shortest.simps stripZeros.simps digits.simps Let_def lit_def)

lemma rowNumber_toString:
  "2 \<le> k \<Longrightarrow> rowNumber (toString (Number (Integer k))) = (if k < 10 ^ 21 then Some k else None)"
  using rowNumber_digits[of "nat k"] rowNumber_exponentNotation[of "nat k"]
  by (auto simp: intToString_def natToString_def)

lemmas io_defs = andThen_def tryCatch_def extern_def evaluate_def logMessage_def ret_def
  throw_def Let_def

lemmas fault_defs = messageText_def messageOf_def faultDescription_def errorToString_def

lemmas string_defs = lit_def trim_def isWhiteSpace_def slice_def sliceFrom_def relativeIndex_def
  orElse_def

section \<open>The personalized message\<close>

lemma buildMessage_at:
  assumes "trim firstName \<noteq> []" "i < length t" "t ! i = 0x21" "\<forall>j<i. t ! j \<noteq> 0x21"
  shows "buildMessage t firstName True = take i t @ lit '' '' @ trim firstName @ drop i t"
  using indexOf_first[OF assms(2,3,4)] assms(1)
  by (simp add: buildMessage_def slice_prefix sliceFrom_suffix)

lemma buildMessage_none:
  assumes "trim firstName \<noteq> []" "0x21 \<notin> set t"
  shows "buildMessage t firstName True = lit ''What's up '' @ trim firstName @ lit ''! '' @ t"
  using assms indexOf_absent[of t "0x21"]
  by (simp add: buildMessage_def)

lemma buildMessage_Hi_Alex:
  "buildMessage (lit ''Hi! Welcome'') (lit ''Alex'') True = lit ''Hi Alex! Welcome''"
  by (simp add: buildMessage_def lit_def trim_def isWhiteSpace_def slice_def sliceFrom_def
      relativeIndex_def)

lemma buildMessage_Hello_Sam:
  "buildMessage (lit ''Hello there'') (lit ''Sam'') True = lit ''What's up Sam! Hello there''"
  by (simp add: buildMessage_def lit_def trim_def isWhiteSpace_def slice_def sliceFrom_def
      relativeIndex_def)

lemma baseMessage_template: "DRAFT_MESSAGE e = Some t \<Longrightarrow> t \<noteq> [] \<Longrightarrow> baseMessage e = t"
  by (simp add: baseMessage_def orElse_def)

text \<open>A template that is not blank gives a message that is not blank.\<close>

lemma buildMessage_nonblank:
  assumes "trim base \<noteq> []"
  shows "trim (buildMessage base firstName nameFound) \<noteq> []"
proof (cases "nameFound \<and> trim firstName \<noteq> []")
  case True
  then have "\<not> list_all isWhiteSpace (trim firstName)" using trim_nonblank by blast
  then have "\<not> list_all isWhiteSpace (buildMessage base firstName nameFound)"
    using True by (simp add: buildMessage_def Let_def)
  then show ?thesis by (simp add: trim_blank)
next
  case False
  then have "buildMessage base firstName nameFound = base" by (auto simp: buildMessage_def)
  then show ?thesis using assms by simp
qed

text \<open>
  C5. The template \<open>t\<close> is the non-empty \<open>DRAFT_MESSAGE\<close>, the name is validated and its
  trimmed form \<open>n\<close> is not empty. If the first exclamation mark (code unit 0x21) of \<open>t\<close> is
  at index \<open>i\<close>, the message is \<open>t[0:i] + " " + n + t[i:]\<close>; if \<open>t\<close> has none, it is
  \<open>"What's up " + n + "! " + t\<close>. "Hi! Welcome" with "Alex" gives "Hi Alex! Welcome", and
  "Hello there" with "Sam" gives "What's up Sam! Hello there".
\<close>

theorem personalization_insertion_point:
  assumes "DRAFT_MESSAGE e = Some t" and "t \<noteq> []" and "trim firstName = n" and "n \<noteq> []"
  shows "(\<forall>i. i < length t \<and> t ! i = 0x21 \<and> (\<forall>j<i. t ! j \<noteq> 0x21) \<longrightarrow>
            buildMessage (baseMessage e) firstName True = take i t @ lit '' '' @ n @ drop i t)
       \<and> (0x21 \<notin> set t \<longrightarrow>
            buildMessage (baseMessage e) firstName True = lit ''What's up '' @ n @ lit ''! '' @ t)
       \<and> buildMessage (lit ''Hi! Welcome'') (lit ''Alex'') True = lit ''Hi Alex! Welcome''
       \<and> buildMessage (lit ''Hello there'') (lit ''Sam'') True = lit ''What's up Sam! Hello there''"
proof -
  have base: "baseMessage e = t" using assms(1,2) by (rule baseMessage_template)
  have n: "trim firstName \<noteq> []" using assms(3,4) by simp
  show ?thesis
    using buildMessage_at[OF n] buildMessage_none[OF n] buildMessage_Hi_Alex
      buildMessage_Hello_Sam base assms(3)
    by auto
qed

theorem personalization_insertion_point_witness:
  "DRAFT_MESSAGE exampleEnv = Some (lit ''Hi! Welcome'')
   \<and> trim (lit '' Alex '') = lit ''Alex''
   \<and> lit ''Hi! Welcome'' ! 2 = 0x21
   \<and> buildMessage (baseMessage exampleEnv) (lit '' Alex '') True = lit ''Hi Alex! Welcome''
   \<and> DRAFT_MESSAGE (exampleEnv\<lparr>DRAFT_MESSAGE := Some (lit ''Hello there'')\<rparr>) = Some (lit ''Hello there'')
   \<and> 0x21 \<notin> set (lit ''Hello there'')
   \<and> buildMessage (baseMessage (exampleEnv\<lparr>DRAFT_MESSAGE := Some (lit ''Hello there'')\<rparr>))
        (lit '' Alex '') True = lit ''What's up Alex! Hello there''"
proof -
  have tmpl: "DRAFT_MESSAGE exampleEnv = Some (lit ''Hi! Welcome'')"
    by (simp add: exampleEnv_def)
  have tmpl': "DRAFT_MESSAGE (exampleEnv\<lparr>DRAFT_MESSAGE := Some (lit ''Hello there'')\<rparr>)
      = Some (lit ''Hello there'')"
    by simp
  have ne: "lit ''Hi! Welcome'' \<noteq> []" "lit ''Hello there'' \<noteq> []" "lit ''Alex'' \<noteq> []"
    by (simp_all add: lit_def)
  have name: "trim (lit '' Alex '') = lit ''Alex''"
    by (simp add: trim_def lit_def isWhiteSpace_def)
  have first: "2 < length (lit ''Hi! Welcome'') \<and> lit ''Hi! Welcome'' ! 2 = 0x21
      \<and> (\<forall>j<2. lit ''Hi! Welcome'' ! j \<noteq> 0x21)"
    by (auto simp: lit_def less_2_cases_iff)
  have absent: "0x21 \<notin> set (lit ''Hello there'')"
    by (simp add: lit_def)
  have "buildMessage (baseMessage exampleEnv) (lit '' Alex '') True
      = take 2 (lit ''Hi! Welcome'') @ lit '' '' @ lit ''Alex'' @ drop 2 (lit ''Hi! Welcome'')"
    using personalization_insertion_point[OF tmpl ne(1) name ne(3)] first by blast
  moreover have "buildMessage (baseMessage (exampleEnv\<lparr>DRAFT_MESSAGE := Some (lit ''Hello there'')\<rparr>))
      (lit '' Alex '') True = lit ''What's up '' @ lit ''Alex'' @ lit ''! '' @ lit ''Hello there''"
    using personalization_insertion_point[OF tmpl' ne(2) name ne(3)] absent by blast
  ultimately show ?thesis
    using tmpl tmpl' name first absent by (simp add: lit_def)
qed

text \<open>
  C6. When the name is not validated, or trims to the empty string, the message is the
  base template itself, code unit for code unit.
\<close>

theorem personalization_identity_without_name:
  "\<not> nameFound \<or> trim firstName = [] \<Longrightarrow> buildMessage base firstName nameFound = base"
  by (auto simp: buildMessage_def)

theorem personalization_identity_without_name_witness:
  "trim (lit ''  '') = []
   \<and> buildMessage (lit ''Hi! Welcome'') (lit ''  '') True = lit ''Hi! Welcome''
   \<and> buildMessage (lit ''Hi! Welcome'') (lit ''Alex'') False = lit ''Hi! Welcome''"
proof -
  have blank: "trim (lit ''  '') = []"
    by (simp add: trim_def lit_def isWhiteSpace_def)
  show ?thesis
    using blank personalization_identity_without_name[of True "lit ''  ''" "lit ''Hi! Welcome''"]
      personalization_identity_without_name[of False "lit ''Alex''" "lit ''Hi! Welcome''"]
    by simp
qed

section \<open>What a computation may touch\<close>

lemma confined_ret: "confined P (ret a)"
  by (simp add: confined_def ret_def)

lemma confined_throw: "confined P (throw f)"
  by (simp add: confined_def throw_def)

lemma confined_extern: "P c \<Longrightarrow> confined P (extern c outcome)"
  by (simp add: confined_def extern_def)

lemma confined_evaluate: "confined P (evaluate outcome)"
  by (simp add: confined_def evaluate_def)

lemma confined_andThen:
  assumes "confined P m" and "\<And>a. confined P (k a)"
  shows "confined P (andThen m k)"
  unfolding confined_def
proof
  fix s
  obtain r s1 where m: "m s = (r, s1)" by (cases "m s")
  from assms(1) m obtain new1 where a: "tabs s1 = tabs s" "log s1 = log s @ new1" "list_all P new1"
    unfolding confined_def by (metis snd_conv)
  show "tabs (snd (andThen m k s)) = tabs s
      \<and> (\<exists>new. log (snd (andThen m k s)) = log s @ new \<and> list_all P new)"
  proof (cases r)
    case (Inl f)
    then show ?thesis using m a by (auto simp: andThen_def)
  next
    case (Inr v)
    from assms(2)[of v] obtain new2 where
      b: "tabs (snd (k v s1)) = tabs s1" "log (snd (k v s1)) = log s1 @ new2" "list_all P new2"
      unfolding confined_def by blast
    have "andThen m k s = k v s1" using m Inr by (simp add: andThen_def)
    then show ?thesis using a b by auto
  qed
qed

lemma confined_tryCatch:
  assumes "confined P m" and "\<And>f. confined P (h f)"
  shows "confined P (tryCatch m h)"
  unfolding confined_def
proof
  fix s
  obtain r s1 where m: "m s = (r, s1)" by (cases "m s")
  from assms(1) m obtain new1 where a: "tabs s1 = tabs s" "log s1 = log s @ new1" "list_all P new1"
    unfolding confined_def by (metis snd_conv)
  show "tabs (snd (tryCatch m h s)) = tabs s
      \<and> (\<exists>new. log (snd (tryCatch m h s)) = log s @ new \<and> list_all P new)"
  proof (cases r)
    case (Inr v)
    then show ?thesis using m a by (auto simp: tryCatch_def)
  next
    case (Inl f)
    from assms(2)[of f] obtain new2 where
      b: "tabs (snd (h f s1)) = tabs s1" "log (snd (h f s1)) = log s1 @ new2" "list_all P new2"
      unfolding confined_def by blast
    have "tryCatch m h s = h f s1" using m Inl by (simp add: tryCatch_def)
    then show ?thesis using a b by auto
  qed
qed

lemma confinedD:
  assumes "confined P m" and "m s = (r, s')"
  obtains new where "tabs s' = tabs s" and "log s' = log s @ new" and "list_all P new"
  using assms unfolding confined_def by (metis snd_conv)

lemma calls_append [simp]: "log s' = log s @ new \<Longrightarrow> calls s s' = new"
  by (simp add: calls_def)

lemma confined_logMessage: "confined P (logMessage x)"
  unfolding logMessage_def by (intro confined_andThen confined_evaluate confined_ret)

lemma confined_locateInput: "confined isPageCall (locateInput dmPage sels)"
  by (induction sels) (auto intro!: confined_ret confined_andThen confined_extern)

lemma confined_performAll: "confined isPageCall (performAll dmPage n as)"
  by (induction as arbitrary: n) (auto intro!: confined_ret confined_andThen confined_extern)

lemma confined_resolveName: "confined isPageCall (resolveName dmPage opts)"
  unfolding resolveName_def Let_def
  by (auto intro!: confined_ret confined_andThen confined_extern)

lemma confined_draftMessageTry: "confined isPageCall (draftMessageTry e dmPage opts)"
  unfolding draftMessageTry_def Let_def
  by (auto intro!: confined_ret confined_andThen confined_extern
      confined_resolveName confined_locateInput confined_performAll split: option.splits)

lemma confined_draftMessage: "confined isPageCall (draftMessage e dmPage opts)"
  unfolding draftMessage_def
  by (auto intro!: confined_ret confined_andThen confined_tryCatch confined_extern
      confined_logMessage confined_draftMessageTry)

lemma confined_navigateToProfile: "confined isPageCall (navigateToProfile pg user)"
  unfolding navigateToProfile_def
  by (auto intro!: confined_ret confined_throw confined_andThen confined_extern)

lemma confined_navigation: "confined isNavigation (navigateToProfile pg user)"
  unfolding navigateToProfile_def
  by (auto intro!: confined_ret confined_throw confined_andThen confined_extern)

lemma confined_processUserTry: "confined isPageCall (processUserTry e pg rw r0)"
  unfolding processUserTry_def
  by (auto intro!: confined_ret confined_andThen confined_extern confined_navigateToProfile
      confined_draftMessage)

lemma confined_processUser: "confined isPageCall (processUser e pg rw template)"
  unfolding processUser_def Let_def
  by (auto intro!: confined_ret confined_andThen confined_evaluate confined_tryCatch
      confined_processUserTry)

lemma confined_valuesUpdate:
  "confined isSheetCall (valuesUpdate api sheetId a1 sheetName rowText vs)"
  by (auto simp: confined_def valuesUpdate_def Let_def split: sum.splits option.splits)

lemma confined_updateDraftData:
  "confined isSheetCall (updateDraftData e api rowArg dateSent msg statusArg)"
  unfolding updateDraftData_def Let_def
  by (auto intro!: confined_throw confined_andThen confined_evaluate confined_tryCatch
      confined_valuesUpdate split: sum.splits)

lemma confined_handleResult: "confined isSheetCall (handleResult e w c res)"
  unfolding handleResult_def
  by (auto intro!: confined_ret confined_andThen confined_tryCatch confined_logMessage
      confined_updateDraftData)

lemma confined_handleUserError: "confined isSheetCall (handleUserError e w rw c f)"
  unfolding handleUserError_def
  by (auto intro!: confined_ret confined_andThen confined_evaluate confined_tryCatch
      confined_logMessage confined_updateDraftData)

lemma no_close_in_page_calls: "list_all isPageCall new \<Longrightarrow> ClosePage i \<notin> set new"
  by (auto simp: list_all_iff)

lemma no_close_in_sheet_calls: "list_all isSheetCall new \<Longrightarrow> ClosePage i \<notin> set new"
  by (auto simp: list_all_iff)

lemma filter_page_calls: "list_all isPageCall new \<Longrightarrow> filter isNewPage new = []"
  by (induction new) (auto elim: isPageCall.elims)

lemma filter_sheet_calls: "list_all isSheetCall new \<Longrightarrow> filter isNewPage new = []"
  by (induction new) (auto elim: isSheetCall.elims)

section \<open>The example worlds\<close>

lemma exampleRows_nth:
  "j < n \<Longrightarrow> exampleRows n ! j =
     \<lparr>username = lit ''user'' @ digits j, rowIndex = int j + 2,
      source = lit ''likes'', status = lit ''Active''\<rparr>"
  by (simp add: exampleRows_def)

lemma goodTab_newPage:
  "newPage (goodTab pg) i s = (Inr pg, s\<lparr>tabs := tabs s @ [i], log := log s @ [NewPage i]\<rparr>)"
  by (simp add: newPage_def goodTab_def)

lemma failedWriteTab_newPage:
  "newPage (failedWriteTab pg) i s = (Inr pg, s\<lparr>tabs := tabs s @ [i], log := log s @ [NewPage i]\<rparr>)"
  by (simp add: newPage_def failedWriteTab_def goodTab_def)

lemma draftedPage_draft:
  "fst (draftMessage exampleEnv draftedPage \<lparr>opt_firstName = None, opt_nameFound = None\<rparr> s)
   = Inr \<lparr>draft_success = True, draft_firstName = Some (lit ''Alex''),
          draft_message = Some (lit ''Hi Alex! Welcome''),
          draft_typedText = Some (lit ''Hi Alex! Welcome'')\<rparr>"
  by (simp add: draftMessage_def draftMessageTry_def resolveName_def baseMessage_def buildMessage_def selectors_def
      keystrokes_def exampleEnv_def draftedPage_def loginSelector_def io_defs string_defs)

lemma paddedPage_draft:
  "fst (draftMessage exampleEnv paddedPage \<lparr>opt_firstName = None, opt_nameFound = None\<rparr> s)
   = Inr \<lparr>draft_success = True, draft_firstName = Some (lit ''Alex''),
          draft_message = Some (lit ''Hi Alex! Welcome''),
          draft_typedText = Some (lit '' Hi Alex! Welcome  '')\<rparr>"
  by (simp add: draftMessage_def draftMessageTry_def resolveName_def baseMessage_def buildMessage_def selectors_def
      keystrokes_def exampleEnv_def paddedPage_def draftedPage_def loginSelector_def io_defs
      string_defs)

lemma truncatedPage_draft:
  "fst (draftMessage exampleEnv truncatedPage \<lparr>opt_firstName = None, opt_nameFound = None\<rparr> s)
   = Inr \<lparr>draft_success = False, draft_firstName = Some (lit ''Alex''),
          draft_message = Some (lit ''Hi Alex! Welcome''),
          draft_typedText = Some (lit ''Hi Alex! Welc'')\<rparr>"
  by (simp add: draftMessage_def draftMessageTry_def resolveName_def baseMessage_def buildMessage_def selectors_def
      keystrokes_def exampleEnv_def truncatedPage_def draftedPage_def loginSelector_def io_defs
      string_defs)

lemma draftedPage_user:
  "fst (processUser exampleEnv draftedPage rw template s)
   = Inr \<lparr>res_username = username rw, res_rowIndex = rowIndex rw, success = True,
          skipped = False, error = None, message = Some (lit ''Hi Alex! Welcome'')\<rparr>"
proof -
  have nav: "navigateToProfile draftedPage (username rw) s
      = (Inr (), s\<lparr>log := log s @ [Goto (profileUrl (username rw)), Query loginSelector]\<rparr>)"
    by (simp add: navigateToProfile_def draftedPage_def io_defs)
  obtain dr sd where d: "draftMessage exampleEnv draftedPage \<lparr>opt_firstName = None, opt_nameFound = None\<rparr>
      (s\<lparr>log := log s @ [Goto (profileUrl (username rw)), Query loginSelector, OpenDMController,
          DetectExistingConversation]\<rparr>) = (dr, sd)"
    by (cases "draftMessage exampleEnv draftedPage \<lparr>opt_firstName = None, opt_nameFound = None\<rparr>
      (s\<lparr>log := log s @ [Goto (profileUrl (username rw)), Query loginSelector, OpenDMController,
          DetectExistingConversation]\<rparr>)")
  have dr: "dr = Inr \<lparr>draft_success = True, draft_firstName = Some (lit ''Alex''),
          draft_message = Some (lit ''Hi Alex! Welcome''),
          draft_typedText = Some (lit ''Hi Alex! Welcome'')\<rparr>"
    using draftedPage_draft[of "s\<lparr>log := log s @ [Goto (profileUrl (username rw)), Query loginSelector, OpenDMController,
          DetectExistingConversation]\<rparr>"] d by simp
  show ?thesis
    unfolding processUser_def processUserTry_def
    using nav d dr
    by (simp add: io_defs draftedPage_def)
qed

lemma conversationPage_user:
  "processUser e conversationPage rw template s =
     (Inr \<lparr>res_username = username rw, res_rowIndex = rowIndex rw, success = False,
           skipped = True,
           error = Some (lit ''Existing conversation detected ('' @ toString (Number (Integer 3))
                     @ lit '' messages)''),
           message = None\<rparr>,
      s\<lparr>log := log s @ [Goto (profileUrl (username rw)), Query loginSelector, OpenDMController,
            DetectExistingConversation]\<rparr>)"
  by (simp add: processUser_def processUserTry_def navigateToProfile_def conversationPage_def
      draftedPage_def io_defs)

lemma timeoutPage_try:
  "processUserTry e timeoutPage rw r0 s =
     (Inl (Thrown (lit ''TimeoutError'') (lit ''Timeout 30000ms exceeded'')),
      s\<lparr>log := log s @ [Goto (profileUrl (username rw))]\<rparr>)"
  by (simp add: processUserTry_def navigateToProfile_def timeoutPage_def draftedPage_def io_defs)

lemma exampleEnv_written:
  assumes "2 \<le> r" and "r < 10 ^ 21"
  shows "\<exists>s2. updateDraftData exampleEnv (Inr ()) (Number (Integer r))
       (String (lit ''2025-01-01T00:00:00.000Z'')) (String m) (String (lit ''Drafted'')) s
     = (Inr (), s2)"
  using assms rowNumber_toString[of r]
  by (simp add: updateDraftData_def validateEnvironment_def loadCredentials_def valuesUpdate_def
      exampleEnv_def isInteger_def integerOf_def isString_def stringOf_def io_defs string_defs)

lemma exampleEnv_rejected:
  assumes "2 \<le> r"
  shows "\<exists>f. fst (updateDraftData exampleEnv (Inl (Error (lit ''quota exceeded''))) (Number (Integer r))
       (String (lit ''2025-01-01T00:00:00.000Z'')) (String m) (String (lit ''Drafted'')) s)
     = Inl f"
  using assms
  by (simp add: updateDraftData_def validateEnvironment_def loadCredentials_def valuesUpdate_def
      exampleEnv_def isInteger_def integerOf_def isString_def stringOf_def io_defs string_defs
      fault_defs Error_def)

section \<open>Verification of the draft\<close>

text \<open>
  Whenever a draft result carries a message, it is the personalized message of step 2
  for the name resolved in step 1.
\<close>

lemma draftMessage_message:
  assumes "draftMessage e dmPage opts s = (Inr r, s')" and "draft_message r = Some m"
  shows "\<exists>firstName nameFound s1.
      resolveName dmPage opts (s\<lparr>log := log s @ [DraftMessage]\<rparr>) = (Inr (firstName, nameFound), s1)
      \<and> draft_firstName r = Some firstName
      \<and> m = buildMessage (baseMessage e) firstName nameFound"
  using assms
  unfolding draftMessage_def draftMessageTry_def andThen_def tryCatch_def extern_def ret_def
    logMessage_def evaluate_def Let_def
  by (auto split: sum.splits prod.splits option.splits if_splits)

text \<open>
  The test of step 6, \<open>typedText && typedText.trim() === message.trim()\<close>, as it stands:
  the draft succeeded exactly when the read-back is not empty and the trimmed texts are
  equal.
\<close>

lemma draftMessage_verified:
  assumes "draftMessage e dmPage opts s = (Inr r, s')"
    and "draft_typedText r = Some observed" and "draft_message r = Some m"
  shows "draft_success r = (observed \<noteq> [] \<and> trim observed = trim m)"
  using assms
  unfolding draftMessage_def draftMessageTry_def andThen_def tryCatch_def extern_def ret_def
    logMessage_def evaluate_def Let_def
  by (auto split: sum.splits prod.splits option.splits if_splits)

text \<open>
  Under a template that \<open>validateEnv\<close> accepts, every composed message has a code unit
  that is not whitespace.
\<close>

lemma accepted_message_nonblank:
  assumes "draftMessageAccepted e"
  shows "trim (buildMessage (baseMessage e) firstName nameFound) \<noteq> []"
proof -
  from assms obtain t where t: "DRAFT_MESSAGE e = Some t" "t \<noteq> []" "trim t \<noteq> []"
    by (auto simp: draftMessageAccepted_def split: option.splits)
  then have "baseMessage e = t" by (simp add: baseMessage_template)
  then show ?thesis using t(3) by (simp add: buildMessage_nonblank)
qed

text \<open>
  C1. The template is one that \<open>validateEnv\<close> accepts, as in every run that reaches an
  account. When an input element was located and the read-back gave the text \<open>observed\<close>
  for the composed message \<open>m\<close>, the draft succeeded exactly when
  \<open>trim(observed) = trim(m)\<close>; whitespace before and after the message never makes it
  fail; and trimmed texts that differ always fail.
\<close>

theorem draft_verification:
  assumes "draftMessageAccepted e"
    and "draftMessage e dmPage opts s = (Inr r, s')"
    and "draft_typedText r = Some observed" and "draft_message r = Some m"
  shows "draft_success r = (trim observed = trim m)
       \<and> (\<forall>a b. list_all isWhiteSpace a \<and> list_all isWhiteSpace b \<and> observed = a @ m @ b
              \<longrightarrow> draft_success r)
       \<and> (trim observed \<noteq> trim m \<longrightarrow> \<not> draft_success r)"
proof -
  have main: "draft_success r = (observed \<noteq> [] \<and> trim observed = trim m)"
    using assms(2-4) by (rule draftMessage_verified)
  obtain firstName nameFound where "m = buildMessage (baseMessage e) firstName nameFound"
    using draftMessage_message[OF assms(2,4)] by blast
  then have "trim m \<noteq> []"
    using accepted_message_nonblank[OF assms(1)] by simp
  then have iff: "draft_success r = (trim observed = trim m)"
    using main trim_empty by metis
  show ?thesis
    using iff trim_padding by metis
qed

theorem draft_verification_witness:
  "draftMessageAccepted exampleEnv
   \<and> fst (draftMessage exampleEnv paddedPage \<lparr>opt_firstName = None, opt_nameFound = None\<rparr> emptyState)
     = Inr \<lparr>draft_success = True, draft_firstName = Some (lit ''Alex''),
            draft_message = Some (lit ''Hi Alex! Welcome''),
            draft_typedText = Some (lit '' Hi Alex! Welcome  '')\<rparr>
   \<and> list_all isWhiteSpace (lit '' '') \<and> list_all isWhiteSpace (lit ''  '')
   \<and> lit '' Hi Alex! Welcome  '' = lit '' '' @ lit ''Hi Alex! Welcome'' @ lit ''  ''
   \<and> trim (lit '' Hi Alex! Welcome  '') = trim (lit ''Hi Alex! Welcome'')
   \<and> fst (draftMessage exampleEnv truncatedPage \<lparr>opt_firstName = None, opt_nameFound = None\<rparr> emptyState)
     = Inr \<lparr>draft_success = False, draft_firstName = Some (lit ''Alex''),
            draft_message = Some (lit ''Hi Alex! Welcome''),
            draft_typedText = Some (lit ''Hi Alex! Welc'')\<rparr>
   \<and> trim (lit ''Hi Alex! Welc'') \<noteq> trim (lit ''Hi Alex! Welcome'')"
proof -
  let ?opts = "\<lparr>opt_firstName = None, opt_nameFound = None\<rparr>"
  let ?p = "\<lparr>draft_success = True, draft_firstName = Some (lit ''Alex''),
            draft_message = Some (lit ''Hi Alex! Welcome''),
            draft_typedText = Some (lit '' Hi Alex! Welcome  '')\<rparr>"
  let ?t = "\<lparr>draft_success = False, draft_firstName = Some (lit ''Alex''),
            draft_message = Some (lit ''Hi Alex! Welcome''),
            draft_typedText = Some (lit ''Hi Alex! Welc'')\<rparr>"
  have accepted: "draftMessageAccepted exampleEnv"
    by (simp add: draftMessageAccepted_def exampleEnv_def string_defs)
  obtain sp where padded: "draftMessage exampleEnv paddedPage ?opts emptyState = (Inr ?p, sp)"
    using paddedPage_draft[of emptyState]
    by (cases "draftMessage exampleEnv paddedPage ?opts emptyState") auto
  obtain st where cut: "draftMessage exampleEnv truncatedPage ?opts emptyState = (Inr ?t, st)"
    using truncatedPage_draft[of emptyState]
    by (cases "draftMessage exampleEnv truncatedPage ?opts emptyState") auto
  have ws: "list_all isWhiteSpace (lit '' '')" "list_all isWhiteSpace (lit ''  '')"
    by (simp_all add: lit_def isWhiteSpace_def)
  have split: "lit '' Hi Alex! Welcome  '' = lit '' '' @ lit ''Hi Alex! Welcome'' @ lit ''  ''"
    by (simp add: lit_def)
  have "draft_success ?p = (trim (lit '' Hi Alex! Welcome  '') = trim (lit ''Hi Alex! Welcome''))"
    using draft_verification[OF accepted padded, of "lit '' Hi Alex! Welcome  ''" "lit ''Hi Alex! Welcome''"]
    by simp
  then have same: "trim (lit '' Hi Alex! Welcome  '') = trim (lit ''Hi Alex! Welcome'')"
    by simp
  have "draft_success ?t = (trim (lit ''Hi Alex! Welc'') = trim (lit ''Hi Alex! Welcome''))"
    using draft_verification[OF accepted cut, of "lit ''Hi Alex! Welc''" "lit ''Hi Alex! Welcome''"]
    by simp
  then have differ: "trim (lit ''Hi Alex! Welc'') \<noteq> trim (lit ''Hi Alex! Welcome'')"
    by simp
  show ?thesis
    using accepted padded cut ws split same differ by simp
qed

section \<open>One account\<close>

text \<open>
  C3. When the conversation probe was called while an account was processed, and it
  reports an existing conversation, the result is Skipped and \<open>draftMessage\<close> was not
  called, whatever the template and the name.
\<close>

theorem conversation_short_circuit:
  assumes run: "processUser e pg rw template s = (r, s')"
    and probed: "DetectExistingConversation \<in> set (calls s s')"
    and answer: "on_detectExistingConversation pg = Inr conv" and yes: "hasConversation conv"
  shows "(\<exists>res. r = Inr res \<and> outcomeOf res = Skipped) \<and> DraftMessage \<notin> set (calls s s')"
proof -
  obtain rn sn where nav: "navigateToProfile pg (username rw) s = (rn, sn)"
    by (cases "navigateToProfile pg (username rw) s")
  from confinedD[OF confined_navigation nav] obtain new where
    sn: "log sn = log s @ new" "list_all isNavigation new" by blast
  have quiet: "DetectExistingConversation \<notin> set new" "DraftMessage \<notin> set new"
    using sn(2) by (auto simp: list_all_iff)
  show ?thesis
  proof (cases rn)
    case (Inl f)
    then have "s' = sn"
      using run nav
      by (auto simp: processUser_def processUserTry_def io_defs split: sum.splits)
    then show ?thesis using probed sn(1) quiet by simp
  next
    case (Inr u)
    show ?thesis
    proof (cases "on_openDMController pg")
      case (Inl f)
      then have "log s' = log sn @ [OpenDMController]"
        using run nav Inr
        by (auto simp: processUser_def processUserTry_def io_defs split: sum.splits)
      then show ?thesis using probed sn(1) quiet by simp
    next
      case opened: (Inr dmResult)
      show ?thesis
      proof (cases "dm_success dmResult")
        case False
        then have "log s' = log sn @ [OpenDMController]"
          using run nav Inr opened by (auto simp: processUser_def processUserTry_def io_defs)
        then show ?thesis using probed sn(1) quiet by simp
      next
        case True
        then have "skipped (projr r) \<and> r = Inr (projr r)
            \<and> log s' = log sn @ [OpenDMController, DetectExistingConversation]"
          using run nav Inr opened answer yes
          by (auto simp: processUser_def processUserTry_def io_defs)
        then show ?thesis using sn(1) quiet by (auto simp: outcomeOf_def)
      qed
    qed
  qed
qed

theorem conversation_short_circuit_witness:
  "DetectExistingConversation \<in> set (calls emptyState
       (snd (processUser exampleEnv conversationPage (exampleRows 1 ! 0) [] emptyState)))
   \<and> on_detectExistingConversation conversationPage
       = Inr \<lparr>hasConversation = True, messageCount = Number (Integer 3)\<rparr>
   \<and> (\<exists>res. fst (processUser exampleEnv conversationPage (exampleRows 1 ! 0) [] emptyState) = Inr res
         \<and> outcomeOf res = Skipped)
   \<and> DraftMessage \<notin> set (calls emptyState
       (snd (processUser exampleEnv conversationPage (exampleRows 1 ! 0) [] emptyState)))"
proof -
  let ?run = "processUser exampleEnv conversationPage (exampleRows 1 ! 0) [] emptyState"
  have run: "?run = (fst ?run, snd ?run)" by simp
  have probed: "DetectExistingConversation \<in> set (calls emptyState (snd ?run))"
    by (simp add: conversationPage_user calls_def emptyState_def)
  have answer: "on_detectExistingConversation conversationPage
       = Inr \<lparr>hasConversation = True, messageCount = Number (Integer 3)\<rparr>"
    by (simp add: conversationPage_def draftedPage_def)
  have yes: "hasConversation \<lparr>hasConversation = True, messageCount = Number (Integer 3)\<rparr>"
    by simp
  show ?thesis
    using conversation_short_circuit[OF run probed answer yes] probed answer by blast
qed

text \<open>
  The catch of \<open>processUser\<close>: a caught value whose \<open>message\<close> can be read gives the
  Failed result with \<open>error.message || String(error)\<close>; on \<open>null\<close> and \<open>undefined\<close> the
  read throws inside the catch, and \<open>processUser\<close> rejects with that \<open>TypeError\<close>.
\<close>

lemma processUser_catches:
  assumes "processUserTry e pg rw
      \<lparr>res_username = username rw, res_rowIndex = rowIndex rw, success = False,
       skipped = False, error = None, message = None\<rparr> s = (Inl f, s1)"
    and "messageOf f = Inr m"
  shows "processUser e pg rw template s =
      (Inr \<lparr>res_username = username rw, res_rowIndex = rowIndex rw, success = False,
            skipped = False, error = Some (orElse m (errorToString f)), message = None\<rparr>, s1)"
  using assms by (simp add: processUser_def faultDescription_def io_defs)

lemma processUser_rejects:
  assumes "processUserTry e pg rw
      \<lparr>res_username = username rw, res_rowIndex = rowIndex rw, success = False,
       skipped = False, error = None, message = None\<rparr> s = (Inl f, s1)"
    and "messageOf f = Inl x"
  shows "processUser e pg rw template s = (Inl x, s1)"
  using assms by (simp add: processUser_def faultDescription_def io_defs)

lemma messageOf_fault: "messageOf f = Inl x \<Longrightarrow> \<exists>name m. x = Thrown name m"
  by (auto simp: messageOf_def typeError_def split: fault.splits if_splits)

lemma messageText_fault: "messageText f = Inl x \<Longrightarrow> \<exists>name m. x = Thrown name m"
  using messageOf_fault[of f x]
  by (auto simp: messageText_def split: sum.splits option.splits)

lemma processUser_fault:
  assumes "processUser e pg rw template s = (Inl x, s1)"
  shows "\<exists>name m. x = Thrown name m"
proof -
  let ?r0 = "\<lparr>res_username = username rw, res_rowIndex = rowIndex rw, success = False,
       skipped = False, error = None, message = None\<rparr>"
  obtain r s0 where body: "processUserTry e pg rw ?r0 s = (r, s0)"
    by (cases "processUserTry e pg rw ?r0 s")
  show ?thesis
  proof (cases r)
    case (Inr res)
    then show ?thesis using assms body by (simp add: processUser_def io_defs)
  next
    case (Inl f)
    show ?thesis
    proof (cases "messageOf f")
      case (Inl y)
      then have "x = y"
        using processUser_rejects[of e pg rw s f s0 y template] body \<open>r = Inl f\<close> assms by simp
      then show ?thesis using messageOf_fault[OF Inl] by simp
    next
      case (Inr m)
      then show ?thesis
        using processUser_catches[of e pg rw s f s0 m template] body \<open>r = Inl f\<close> assms by simp
    qed
  qed
qed

lemma logMessage_Thrown: "logMessage (Thrown name m) s = (Inr (), s)"
  by (simp add: io_defs messageText_def messageOf_def)

section \<open>The sheet\<close>

lemma updateDraftData_invalid_row:
  assumes "\<not> (isInteger rowArg \<and> 2 \<le> integerOf rowArg)"
  shows "updateDraftData e api rowArg dateSent msg statusArg s =
     (Inl (Error (lit ''Invalid rowIndex: '' @ toString rowArg
        @ lit ''. Must be an integer >= 2 (row 1 is header)'')), s)"
  using assms by (auto simp: updateDraftData_def throw_def Let_def)

text \<open>Whatever \<open>updateDraftData\<close> throws is an \<open>Error\<close> object.\<close>

lemma validateEnvironment_fault: "validateEnvironment e = Inl x \<Longrightarrow> \<exists>name m. x = Thrown name m"
  by (auto simp: validateEnvironment_def Error_def split: if_splits)

lemma loadCredentials_fault: "loadCredentials e = Inl x \<Longrightarrow> \<exists>name m. x = Thrown name m"
  unfolding loadCredentials_def Let_def
  by (auto simp: Error_def dest: messageText_fault split: if_splits sum.splits option.splits)

lemma updateDraftData_fault:
  assumes "updateDraftData e api rowArg dateSent msg statusArg s = (Inl x, s')"
  shows "\<exists>name m. x = Thrown name m"
  using assms
  unfolding updateDraftData_def Let_def
  by (auto simp: io_defs Error_def
      dest: messageText_fault validateEnvironment_fault loadCredentials_fault
      split: if_splits sum.splits prod.splits)

lemma updateDraftData_caught:
  "tryCatch (updateDraftData e api rowArg dateSent msg statusArg) logMessage s
     = (Inr (), snd (updateDraftData e api rowArg dateSent msg statusArg s))"
proof -
  obtain r s2 where u: "updateDraftData e api rowArg dateSent msg statusArg s = (r, s2)"
    by (cases "updateDraftData e api rowArg dateSent msg statusArg s")
  show ?thesis
  proof (cases r)
    case (Inr v)
    then show ?thesis using u by (simp add: tryCatch_def)
  next
    case (Inl x)
    then obtain name m where "x = Thrown name m"
      using u updateDraftData_fault by blast
    then show ?thesis using u Inl by (simp add: tryCatch_def logMessage_Thrown)
  qed
qed

lemma valuesUpdate_three:
  "valuesUpdate api sheetId a1 sheetName rowText [a, b, c] s = (res, s') \<Longrightarrow>
     (res = Inr () \<longrightarrow> (\<exists>r. rowNumber rowText = Some r
         \<and> cells s' = (cells s)((sheetId, sheetName, r, 3) \<mapsto> a,
             (sheetId, sheetName, r, 4) \<mapsto> b, (sheetId, sheetName, r, 5) \<mapsto> c)))
     \<and> (res \<noteq> Inr () \<longrightarrow> cells s' = cells s)"
  by (auto simp: valuesUpdate_def Let_def numeral_3_eq_3 eval_nat_numeral
      split: sum.splits option.splits)

lemma updateDraftData_cells:
  assumes "updateDraftData e api rowArg dateSent msg statusArg s = (res, s')"
  shows "(res = Inr () \<longrightarrow>
            isInteger rowArg \<and> 2 \<le> integerOf rowArg
            \<and> cells s' = (cells s)
                ((orElse (GOOGLE_SHEET_ID e) [], orElse (GOOGLE_SHEET_NAME e) [], integerOf rowArg, 3)
                   \<mapsto> stringOf dateSent,
                 (orElse (GOOGLE_SHEET_ID e) [], orElse (GOOGLE_SHEET_NAME e) [], integerOf rowArg, 4)
                   \<mapsto> stringOf msg,
                 (orElse (GOOGLE_SHEET_ID e) [], orElse (GOOGLE_SHEET_NAME e) [], integerOf rowArg, 5)
                   \<mapsto> (if statusArg = Undefined then lit ''Drafted'' else stringOf statusArg)))
       \<and> (res \<noteq> Inr () \<longrightarrow> cells s' = cells s)"
proof (cases "isInteger rowArg \<and> 2 \<le> integerOf rowArg")
  case False
  then show ?thesis using assms updateDraftData_invalid_row[OF False] by auto
next
  case True
  let ?id = "orElse (GOOGLE_SHEET_ID e) []"
  let ?name = "orElse (GOOGLE_SHEET_NAME e) []"
  let ?a1 = "?name @ lit ''!D'' @ toString rowArg @ lit '':F'' @ toString rowArg"
  let ?vs = "[stringOf dateSent, stringOf msg,
        (if statusArg = Undefined then lit ''Drafted'' else stringOf statusArg)]"
  from True obtain k where k: "rowArg = Number (Integer k)" "2 \<le> k" "integerOf rowArg = k"
    by (auto simp: isInteger_def integerOf_def split: jsvalue.splits jsnumber.splits)
  have row: "rowNumber (toString rowArg) = (if k < 10 ^ 21 then Some k else None)"
    using rowNumber_toString[OF k(2)] k(1) by simp
  obtain r2 s2 where v: "valuesUpdate api ?id ?a1 ?name (toString rowArg) ?vs s = (r2, s2)"
    by (cases "valuesUpdate api ?id ?a1 ?name (toString rowArg) ?vs s")
  from valuesUpdate_three[OF v] row k(3)
  have three: "(r2 = Inr () \<longrightarrow>
         cells s2 = (cells s)((?id, ?name, integerOf rowArg, 3) \<mapsto> stringOf dateSent,
             (?id, ?name, integerOf rowArg, 4) \<mapsto> stringOf msg,
             (?id, ?name, integerOf rowArg, 5)
               \<mapsto> (if statusArg = Undefined then lit ''Drafted'' else stringOf statusArg)))
     \<and> (r2 \<noteq> Inr () \<longrightarrow> cells s2 = cells s)"
    by (auto split: if_splits)
  have st: "stringOf (if statusArg = Undefined then String (lit ''Drafted'') else statusArg)
      = (if statusArg = Undefined then lit ''Drafted'' else stringOf statusArg)"
    by (simp add: stringOf_def)
  show ?thesis
    using assms True v three
    unfolding updateDraftData_def Let_def st
    by (auto simp: throw_def tryCatch_def andThen_def evaluate_def split: sum.splits if_splits)
qed

text \<open>
  C8. A successful \<open>updateDraftData\<close> has an integer row index of at least 2 and
  stores the date, the message and the status in columns D, E and F (3, 4, 5) of that row of
  the configured sheet; whether it succeeds or not, every other cell and the tabs keep
  their content, and a failed call changes no cell. When the row index is not an integer of
  at least 2, the call throws and the state is unchanged (no request is made).
\<close>

theorem updateDraftData_frame:
  assumes "updateDraftData e api rowArg dateSent msg statusArg s = (res, s')"
  shows "(res = Inr () \<longrightarrow>
            isInteger rowArg \<and> 2 \<le> integerOf rowArg
            \<and> cells s' = (cells s)
                ((orElse (GOOGLE_SHEET_ID e) [], orElse (GOOGLE_SHEET_NAME e) [], integerOf rowArg, 3)
                   \<mapsto> stringOf dateSent,
                 (orElse (GOOGLE_SHEET_ID e) [], orElse (GOOGLE_SHEET_NAME e) [], integerOf rowArg, 4)
                   \<mapsto> stringOf msg,
                 (orElse (GOOGLE_SHEET_ID e) [], orElse (GOOGLE_SHEET_NAME e) [], integerOf rowArg, 5)
                   \<mapsto> (if statusArg = Undefined then lit ''Drafted'' else stringOf statusArg)))
       \<and> (\<forall>sheetId sheetName r col.
             (sheetId, sheetName, r) \<noteq>
               (orElse (GOOGLE_SHEET_ID e) [], orElse (GOOGLE_SHEET_NAME e) [], integerOf rowArg)
             \<or> col \<notin> {3, 4, 5} \<longrightarrow>
             cells s' (sheetId, sheetName, r, col) = cells s (sheetId, sheetName, r, col))
       \<and> (res \<noteq> Inr () \<longrightarrow> cells s' = cells s)
       \<and> (\<not> (isInteger rowArg \<and> 2 \<le> integerOf rowArg) \<longrightarrow> (\<exists>f. res = Inl f) \<and> s' = s)
       \<and> tabs s' = tabs s"
proof -
  note cells = updateDraftData_cells[OF assms]
  have frame: "\<forall>sheetId sheetName r col.
             (sheetId, sheetName, r) \<noteq>
               (orElse (GOOGLE_SHEET_ID e) [], orElse (GOOGLE_SHEET_NAME e) [], integerOf rowArg)
             \<or> col \<notin> {3, 4, 5} \<longrightarrow>
             cells s' (sheetId, sheetName, r, col) = cells s (sheetId, sheetName, r, col)"
  proof (cases "res = Inr ()")
    case True
    then show ?thesis using cells by auto
  next
    case False
    then show ?thesis using cells by simp
  qed
  have invalid: "\<not> (isInteger rowArg \<and> 2 \<le> integerOf rowArg) \<longrightarrow> (\<exists>f. res = Inl f) \<and> s' = s"
    using assms updateDraftData_invalid_row[of rowArg e api dateSent msg statusArg s] by auto
  have tabs: "tabs s' = tabs s"
    using confinedD[OF confined_updateDraftData assms] by blast
  show ?thesis using cells frame invalid tabs by blast
qed

theorem updateDraftData_frame_witness:
  "(\<exists>s'. updateDraftData exampleEnv (Inr ()) (Number (Integer 2))
            (String (lit ''2025-01-01T00:00:00.000Z'')) (String (lit ''Hi Alex! Welcome''))
            (String (lit ''Drafted'')) emptyState = (Inr (), s')
          \<and> cells s' (lit ''sheet-1'', lit ''Leads'', 2, 3) = Some (lit ''2025-01-01T00:00:00.000Z'')
          \<and> cells s' (lit ''sheet-1'', lit ''Leads'', 2, 4) = Some (lit ''Hi Alex! Welcome'')
          \<and> cells s' (lit ''sheet-1'', lit ''Leads'', 2, 5) = Some (lit ''Drafted'')
          \<and> cells s' (lit ''sheet-1'', lit ''Leads'', 2, 2) = None
          \<and> cells s' (lit ''sheet-1'', lit ''Leads'', 3, 4) = None)
   \<and> (\<exists>f. updateDraftData exampleEnv (Inr ()) (Number (Integer 1))
            (String (lit ''2025-01-01T00:00:00.000Z'')) (String (lit ''Hi Alex! Welcome''))
            (String (lit ''Drafted'')) emptyState = (Inl f, emptyState))
   \<and> (\<exists>f. updateDraftData exampleEnv (Inr ()) (Number (NonInteger (lit ''2.5'')))
            (String (lit ''2025-01-01T00:00:00.000Z'')) (String (lit ''Hi Alex! Welcome''))
            (String (lit ''Drafted'')) emptyState = (Inl f, emptyState))"
proof -
  let ?ok = "updateDraftData exampleEnv (Inr ()) (Number (Integer 2))
            (String (lit ''2025-01-01T00:00:00.000Z'')) (String (lit ''Hi Alex! Welcome''))
            (String (lit ''Drafted'')) emptyState"
  let ?low = "updateDraftData exampleEnv (Inr ()) (Number (Integer 1))
            (String (lit ''2025-01-01T00:00:00.000Z'')) (String (lit ''Hi Alex! Welcome''))
            (String (lit ''Drafted'')) emptyState"
  let ?frac = "updateDraftData exampleEnv (Inr ()) (Number (NonInteger (lit ''2.5'')))
            (String (lit ''2025-01-01T00:00:00.000Z'')) (String (lit ''Hi Alex! Welcome''))
            (String (lit ''Drafted'')) emptyState"
  obtain s' where ok: "?ok = (Inr (), s')"
    using exampleEnv_written[of 2 "lit ''Hi Alex! Welcome''" emptyState] by auto
  have ids: "orElse (GOOGLE_SHEET_ID exampleEnv) [] = lit ''sheet-1''"
    "orElse (GOOGLE_SHEET_NAME exampleEnv) [] = lit ''Leads''"
    by (simp_all add: exampleEnv_def orElse_def lit_def)
  have args: "integerOf (Number (Integer 2)) = 2" "integerOf (Number (Integer 1)) = 1"
    "\<not> isInteger (Number (NonInteger (lit ''2.5'')))"
    "stringOf (String (lit ''2025-01-01T00:00:00.000Z'')) = lit ''2025-01-01T00:00:00.000Z''"
    "stringOf (String (lit ''Hi Alex! Welcome'')) = lit ''Hi Alex! Welcome''"
    "stringOf (String (lit ''Drafted'')) = lit ''Drafted''"
    by (simp_all add: integerOf_def isInteger_def stringOf_def)
  have written: "cells s' = (cells emptyState)
        ((lit ''sheet-1'', lit ''Leads'', 2, 3) \<mapsto> lit ''2025-01-01T00:00:00.000Z'',
         (lit ''sheet-1'', lit ''Leads'', 2, 4) \<mapsto> lit ''Hi Alex! Welcome'',
         (lit ''sheet-1'', lit ''Leads'', 2, 5) \<mapsto> lit ''Drafted'')"
    using updateDraftData_frame[OF ok] ids args by simp
  have nlow: "\<not> (isInteger (Number (Integer 1)) \<and> 2 \<le> integerOf (Number (Integer 1)))"
    by (simp add: integerOf_def)
  have plow: "?low = (fst ?low, snd ?low)" by simp
  have "(\<exists>f. fst ?low = Inl f) \<and> snd ?low = emptyState"
    using updateDraftData_frame[OF plow] nlow by blast
  then have low: "\<exists>f. ?low = (Inl f, emptyState)"
    by (metis prod.collapse)
  have nfrac: "\<not> (isInteger (Number (NonInteger (lit ''2.5'')))
      \<and> 2 \<le> integerOf (Number (NonInteger (lit ''2.5''))))"
    by (simp add: isInteger_def)
  have pfrac: "?frac = (fst ?frac, snd ?frac)" by simp
  have "(\<exists>f. fst ?frac = Inl f) \<and> snd ?frac = emptyState"
    using updateDraftData_frame[OF pfrac] nfrac by blast
  then have frac: "\<exists>f. ?frac = (Inl f, emptyState)"
    by (metis prod.collapse)
  show ?thesis
    using ok written low frac by (simp add: emptyState_def)
qed

section \<open>One iteration of the loop\<close>

lemma andThen_evaluate: "andThen (evaluate (Inr a)) k = k a"
  by (rule ext) (simp add: andThen_def evaluate_def)

lemma handleResult_returns:
  "\<exists>c' s2. handleResult e w c res s1 = (Inr (c', outcomeOf res = Drafted), s2)
     \<and> c' = (case outcomeOf res of
               Skipped \<Rightarrow> c\<lparr>skippedCount := skippedCount c + 1\<rparr>
             | Failed \<Rightarrow> c\<lparr>errorCount := errorCount c + 1\<rparr>
             | Drafted \<Rightarrow>
                 (case fst (updateDraftData e (on_valuesUpdate w) (Number (Integer (res_rowIndex res)))
                        (String (now w)) (argOf (message res)) (String (lit ''Drafted'')) s1) of
                    Inr _ \<Rightarrow> c\<lparr>draftedCount := draftedCount c + 1\<rparr>
                  | Inl _ \<Rightarrow> c\<lparr>errorCount := errorCount c + 1\<rparr>))"
proof (cases "outcomeOf res")
  case Skipped
  then have "skipped res" by (simp add: outcomeOf_def split: if_splits)
  then show ?thesis
    using Skipped by (simp add: handleResult_def andThen_def ret_def updateDraftData_caught)
next
  case Failed
  then have "\<not> skipped res" "\<not> success res" by (simp_all add: outcomeOf_def split: if_splits)
  then show ?thesis
    using Failed by (simp add: handleResult_def andThen_def ret_def updateDraftData_caught)
next
  case Drafted
  then have branch: "\<not> skipped res" "success res" by (simp_all add: outcomeOf_def split: if_splits)
  obtain r s2 where u: "updateDraftData e (on_valuesUpdate w) (Number (Integer (res_rowIndex res)))
      (String (now w)) (argOf (message res)) (String (lit ''Drafted'')) s1 = (r, s2)"
    by (cases "updateDraftData e (on_valuesUpdate w) (Number (Integer (res_rowIndex res)))
      (String (now w)) (argOf (message res)) (String (lit ''Drafted'')) s1")
  show ?thesis
  proof (cases r)
    case (Inr v)
    then show ?thesis
      using Drafted branch u by (simp add: handleResult_def andThen_def tryCatch_def ret_def)
  next
    case (Inl x)
    then obtain name m where "x = Thrown name m"
      using u updateDraftData_fault by blast
    then show ?thesis
      using Drafted branch u Inl
      by (simp add: handleResult_def andThen_def tryCatch_def ret_def logMessage_Thrown)
  qed
qed

text \<open>The Failed branch writes the description of the result, with the status Failed.\<close>

lemma handleResult_failed:
  assumes "outcomeOf res = Failed"
  shows "handleResult e w c res s1 =
     (Inr (c\<lparr>errorCount := errorCount c + 1\<rparr>, False),
      snd (updateDraftData e (on_valuesUpdate w) (Number (Integer (res_rowIndex res)))
             (String (now w)) (String (orElse (error res) (lit ''Unknown error'')))
             (String (lit ''Failed'')) s1))"
proof -
  from assms have "\<not> skipped res" "\<not> success res"
    by (simp_all add: outcomeOf_def split: if_splits)
  then show ?thesis
    by (simp add: handleResult_def andThen_def ret_def updateDraftData_caught)
qed

text \<open>
  The catch around \<open>processUser\<close>, for an \<open>Error\<close> object: it writes the message with
  the status Failed, counts an error, and has the tab closed.
\<close>

lemma handleUserError_Thrown:
  "handleUserError e w rw c (Thrown name m) s1 =
     (Inr (c\<lparr>errorCount := errorCount c + 1\<rparr>, False),
      snd (updateDraftData e (on_valuesUpdate w) (Number (Integer (rowIndex rw)))
             (String (now w)) (String (orElse (Some m) (lit ''Unexpected error'')))
             (String (lit ''Failed'')) s1))"
  by (simp add: handleUserError_def messageOf_def andThen_evaluate updateDraftData_caught
      andThen_def ret_def logMessage_Thrown)

lemma loopBody_steps:
  assumes tab: "newPage (world i) i s = (Inr pg, s0)"
    and handled: "tryCatch
        (andThen (processUser e pg (rows ! i) (draftMessageText cfg)) (handleResult e (world i) c))
        (handleUserError e (world i) (rows ! i) c) s0 = (Inr (c', kept), s2)"
  shows "loopBody e cfg world rows i c s =
     (if kept then (Inr c', s2)
      else (case closeFault (world i) of None \<Rightarrow> Inr c' | Some x \<Rightarrow> Inl x,
            s2\<lparr>tabs := removeAll i (tabs s2), log := log s2 @ [ClosePage i]\<rparr>))"
proof -
  have closing: "tryCatch (closePage (world i) i) logMessage s2 =
      (case closeFault (world i) of None \<Rightarrow> Inr () | Some x \<Rightarrow> Inl x,
       s2\<lparr>tabs := removeAll i (tabs s2), log := log s2 @ [ClosePage i]\<rparr>)"
    by (auto simp: closePage_def closeFault_def io_defs split: sum.splits)
  have "loopBody e cfg world rows i c s =
      andThen (if kept then ret () else tryCatch (closePage (world i) i) logMessage)
        (\<lambda>_. ret c') s2"
    using tab handled by (simp add: loopBody_def Let_def andThen_def)
  then show ?thesis
    using closing by (auto simp: andThen_def ret_def split: option.splits)
qed

lemma loopBody_returned:
  assumes user: "processUser e pg (rows ! i) (draftMessageText cfg) s0 = (Inr res, s1)"
    and handled: "handleResult e (world i) c res s1 = (Inr (c', kept), s2)"
  shows "tryCatch
        (andThen (processUser e pg (rows ! i) (draftMessageText cfg)) (handleResult e (world i) c))
        (handleUserError e (world i) (rows ! i) c) s0 = (Inr (c', kept), s2)"
  using assms by (simp add: tryCatch_def andThen_def)

lemma newPage_state:
  "newPage w i s = (Inr pg, s0) \<Longrightarrow> tabs s0 = tabs s @ [i] \<and> log s0 = log s @ [NewPage i]"
  by (auto simp: newPage_def split: sum.splits)

lemma loopBody_outcome:
  assumes tab: "newPage (world i) i s = (Inr pg, s0)"
    and user: "processUser e pg (rows ! i) (draftMessageText cfg) s0 = (Inr res, s1)"
  shows "\<exists>c' r s'. loopBody e cfg world rows i c s = (r, s')
      \<and> r = (if outcomeOf res = Drafted then Inr c'
             else case closeFault (world i) of None \<Rightarrow> Inr c' | Some x \<Rightarrow> Inl x)
      \<and> c' = (case outcomeOf res of
               Skipped \<Rightarrow> c\<lparr>skippedCount := skippedCount c + 1\<rparr>
             | Failed \<Rightarrow> c\<lparr>errorCount := errorCount c + 1\<rparr>
             | Drafted \<Rightarrow>
                 (case fst (updateDraftData e (on_valuesUpdate (world i))
                        (Number (Integer (res_rowIndex res))) (String (now (world i)))
                        (argOf (message res)) (String (lit ''Drafted'')) s1) of
                    Inr _ \<Rightarrow> c\<lparr>draftedCount := draftedCount c + 1\<rparr>
                  | Inl _ \<Rightarrow> c\<lparr>errorCount := errorCount c + 1\<rparr>))
      \<and> tabs s' = (if outcomeOf res = Drafted then tabs s @ [i] else removeAll i (tabs s @ [i]))
      \<and> filter isNewPage (log s') = filter isNewPage (log s) @ [NewPage i]"
proof -
  obtain c' s2 where handled:
    "handleResult e (world i) c res s1 = (Inr (c', outcomeOf res = Drafted), s2)"
    and c': "c' = (case outcomeOf res of
               Skipped \<Rightarrow> c\<lparr>skippedCount := skippedCount c + 1\<rparr>
             | Failed \<Rightarrow> c\<lparr>errorCount := errorCount c + 1\<rparr>
             | Drafted \<Rightarrow>
                 (case fst (updateDraftData e (on_valuesUpdate (world i))
                        (Number (Integer (res_rowIndex res))) (String (now (world i)))
                        (argOf (message res)) (String (lit ''Drafted'')) s1) of
                    Inr _ \<Rightarrow> c\<lparr>draftedCount := draftedCount c + 1\<rparr>
                  | Inl _ \<Rightarrow> c\<lparr>errorCount := errorCount c + 1\<rparr>))"
    using handleResult_returns[of e "world i" c res s1] by blast
  from newPage_state[OF tab] have s0: "tabs s0 = tabs s @ [i]" "log s0 = log s @ [NewPage i]"
    by auto
  from confinedD[OF confined_processUser user] obtain new1 where
    s1: "tabs s1 = tabs s0" "log s1 = log s0 @ new1" "list_all isPageCall new1" .
  from confinedD[OF confined_handleResult handled] obtain new2 where
    s2: "tabs s2 = tabs s1" "log s2 = log s1 @ new2" "list_all isSheetCall new2" .
  note body = loopBody_steps[where world=world and i=i, OF tab loopBody_returned[where world=world and i=i, OF user handled]]
  have quiet: "filter isNewPage new1 = []" "filter isNewPage new2 = []"
    using s1(3) s2(3) filter_page_calls filter_sheet_calls by auto
  show ?thesis
  proof (cases "outcomeOf res = Drafted")
    case True
    then show ?thesis using body c' s0 s1 s2 quiet by simp
  next
    case False
    then show ?thesis using body c' s0 s1 s2 quiet by (auto split: option.splits)
  qed
qed

text \<open>
  An iteration whose account ended Failed, and one whose \<open>processUser\<close> rejected: the
  sheet is written with the status Failed, the tab is closed, and one error is counted.
\<close>

lemma loopBody_failed:
  assumes tab: "newPage (world i) i s = (Inr pg, s0)"
    and user: "processUser e pg (rows ! i) (draftMessageText cfg) s0 = (Inr res, s1)"
    and failed: "outcomeOf res = Failed"
    and written: "s2 = snd (updateDraftData e (on_valuesUpdate (world i))
             (Number (Integer (res_rowIndex res))) (String (now (world i)))
             (String (orElse (error res) (lit ''Unknown error''))) (String (lit ''Failed'')) s1)"
  shows "loopBody e cfg world rows i c s =
      (case closeFault (world i) of
         None \<Rightarrow> Inr (c\<lparr>errorCount := errorCount c + 1\<rparr>) | Some x \<Rightarrow> Inl x,
       s2\<lparr>tabs := removeAll i (tabs s2), log := log s2 @ [ClosePage i]\<rparr>)"
proof -
  have handled: "handleResult e (world i) c res s1
      = (Inr (c\<lparr>errorCount := errorCount c + 1\<rparr>, False), s2)"
    using handleResult_failed[OF failed] written by simp
  show ?thesis
    using loopBody_steps[where world=world and i=i, OF tab loopBody_returned[where world=world and i=i, OF user handled]]
    by simp
qed

lemma loopBody_rejected:
  assumes tab: "newPage (world i) i s = (Inr pg, s0)"
    and user: "processUser e pg (rows ! i) (draftMessageText cfg) s0 = (Inl (Thrown name m), s1)"
    and written: "s2 = snd (updateDraftData e (on_valuesUpdate (world i))
             (Number (Integer (rowIndex (rows ! i)))) (String (now (world i)))
             (String (orElse (Some m) (lit ''Unexpected error''))) (String (lit ''Failed'')) s1)"
  shows "loopBody e cfg world rows i c s =
      (case closeFault (world i) of
         None \<Rightarrow> Inr (c\<lparr>errorCount := errorCount c + 1\<rparr>) | Some x \<Rightarrow> Inl x,
       s2\<lparr>tabs := removeAll i (tabs s2), log := log s2 @ [ClosePage i]\<rparr>)"
proof -
  have handled: "tryCatch
        (andThen (processUser e pg (rows ! i) (draftMessageText cfg)) (handleResult e (world i) c))
        (handleUserError e (world i) (rows ! i) c) s0
      = (Inr (c\<lparr>errorCount := errorCount c + 1\<rparr>, False), s2)"
    using user written by (simp add: tryCatch_def andThen_def handleUserError_Thrown)
  show ?thesis
    using loopBody_steps[where world=world and i=i, OF tab handled] by simp
qed

lemma loopBody_count:
  assumes "loopBody e cfg world rows i c s = (Inr c', s')"
  shows "draftedCount c' \<le> draftedCount c + 1"
proof (cases "on_newPage (world i)")
  case (Inl f)
  then have "fst (loopBody e cfg world rows i c s) = Inl f"
    by (simp add: loopBody_def newPage_def io_defs)
  then show ?thesis using assms by simp
next
  case (Inr pg)
  then obtain s0 where tab: "newPage (world i) i s = (Inr pg, s0)"
    by (simp add: newPage_def)
  obtain r s1 where user: "processUser e pg (rows ! i) (draftMessageText cfg) s0 = (r, s1)"
    by (cases "processUser e pg (rows ! i) (draftMessageText cfg) s0")
  show ?thesis
  proof (cases r)
    case returned: (Inr res)
    from loopBody_outcome[where world=world and i=i, OF tab user[unfolded returned], of c] assms
    show ?thesis by (auto split: outcome.splits sum.splits option.splits if_splits)
  next
    case (Inl x)
    then obtain name m where x: "x = Thrown name m"
      using processUser_fault user by blast
    from loopBody_rejected[where world=world and i=i, OF tab user[unfolded Inl x] refl, of c] assms
    show ?thesis by (auto split: option.splits)
  qed
qed

lemma loopBody_not_drafted:
  assumes tab: "newPage (world i) i s = (Inr pg, s0)"
    and user: "processUser e pg (rows ! i) (draftMessageText cfg) s0 = (Inr res, s1)"
    and other: "outcomeOf res \<noteq> Drafted"
    and body: "loopBody e cfg world rows i c s = (Inr c', s')"
  shows "draftedCount c' = draftedCount c"
  using loopBody_outcome[where world=world and i=i, OF tab user, of c] other body
  by (cases "outcomeOf res") (auto split: option.splits)

text \<open>
  C2. Once the tab of account \<open>i\<close> exists and \<open>processUser\<close> has returned its result,
  the tab is still open after the iteration exactly when the outcome is Drafted, and
  \<open>close()\<close> was called on it exactly when the outcome is Skipped or Failed. In particular
  the tab of a drafted account stays open when the spreadsheet service rejects the
  update.
\<close>

theorem tab_retention:
  assumes tab: "newPage (world i) i s = (Inr pg, s0)"
    and user: "processUser e pg (rows ! i) (draftMessageText cfg) s0 = (Inr res, s1)"
    and body: "loopBody e cfg world rows i c s = (r, s')"
    and fresh: "i \<notin> set (tabs s)"
  shows "(i \<in> set (tabs s')) = (outcomeOf res = Drafted)
       \<and> (ClosePage i \<in> set (calls s s')) = (outcomeOf res \<noteq> Drafted)
       \<and> (\<forall>f. outcomeOf res = Drafted \<and> on_valuesUpdate (world i) = Inl f \<longrightarrow>
             i \<in> set (tabs s') \<and> ClosePage i \<notin> set (calls s s'))"
proof -
  obtain c' s2 where handled:
    "handleResult e (world i) c res s1 = (Inr (c', outcomeOf res = Drafted), s2)"
    using handleResult_returns by blast
  from newPage_state[OF tab] have s0: "tabs s0 = tabs s @ [i]" "log s0 = log s @ [NewPage i]"
    by auto
  from confinedD[OF confined_processUser user] obtain new1 where
    s1: "tabs s1 = tabs s0" "log s1 = log s0 @ new1" "list_all isPageCall new1" .
  from confinedD[OF confined_handleResult handled] obtain new2 where
    s2: "tabs s2 = tabs s1" "log s2 = log s1 @ new2" "list_all isSheetCall new2" .
  have s': "s' = (if outcomeOf res = Drafted then s2
                 else s2\<lparr>tabs := removeAll i (tabs s2), log := log s2 @ [ClosePage i]\<rparr>)"
    using loopBody_steps[where world=world and i=i, OF tab loopBody_returned[where world=world and i=i, OF user handled]] body
    by (simp split: if_splits)
  have none: "ClosePage i \<notin> set new1" "ClosePage i \<notin> set new2"
    using s1(3) s2(3) no_close_in_page_calls no_close_in_sheet_calls by auto
  show ?thesis
  proof (cases "outcomeOf res = Drafted")
    case True
    then have "s' = s2" using s' by simp
    then have "tabs s' = tabs s @ [i]" "log s' = log s @ (NewPage i # new1 @ new2)"
      using s0 s1 s2 by auto
    then show ?thesis using True none by (simp add: calls_def)
  next
    case False
    then have "tabs s' = removeAll i (tabs s2)"
      "log s' = log s @ (NewPage i # new1 @ new2 @ [ClosePage i])"
      using s' s0 s1 s2 by auto
    then show ?thesis using False by (simp add: calls_def)
  qed
qed

theorem tab_retention_witness:
  "0 \<notin> set (tabs emptyState)
   \<and> fst (newPage (failedWriteTab draftedPage) 0 emptyState) = Inr draftedPage
   \<and> on_valuesUpdate (failedWriteTab draftedPage) = Inl (Error (lit ''quota exceeded''))
   \<and> 0 \<in> set (tabs (snd (loopBody exampleEnv (exampleConfig 2) (\<lambda>i. failedWriteTab draftedPage)
           (exampleRows 1) 0 noCounts emptyState)))
   \<and> ClosePage 0 \<notin> set (calls emptyState (snd (loopBody exampleEnv (exampleConfig 2)
           (\<lambda>i. failedWriteTab draftedPage) (exampleRows 1) 0 noCounts emptyState)))
   \<and> fst (newPage (goodTab conversationPage) 0 emptyState) = Inr conversationPage
   \<and> 0 \<notin> set (tabs (snd (loopBody exampleEnv (exampleConfig 2) (\<lambda>i. goodTab conversationPage)
           (exampleRows 1) 0 noCounts emptyState)))
   \<and> ClosePage 0 \<in> set (calls emptyState (snd (loopBody exampleEnv (exampleConfig 2)
           (\<lambda>i. goodTab conversationPage) (exampleRows 1) 0 noCounts emptyState)))"
proof -
  let ?rw = "exampleRows 1 ! 0"
  let ?s0 = "emptyState\<lparr>tabs := tabs emptyState @ [0], log := log emptyState @ [NewPage 0]\<rparr>"
  let ?kept = "loopBody exampleEnv (exampleConfig 2) (\<lambda>i. failedWriteTab draftedPage)
           (exampleRows 1) 0 noCounts emptyState"
  let ?closed = "loopBody exampleEnv (exampleConfig 2) (\<lambda>i. goodTab conversationPage)
           (exampleRows 1) 0 noCounts emptyState"
  let ?drafted = "\<lparr>res_username = username ?rw, res_rowIndex = rowIndex ?rw, success = True,
          skipped = False, error = None, message = Some (lit ''Hi Alex! Welcome'')\<rparr>"
  have fresh: "0 \<notin> set (tabs emptyState)" by (simp add: emptyState_def)
  have tab1: "newPage (failedWriteTab draftedPage) 0 emptyState = (Inr draftedPage, ?s0)"
    by (rule failedWriteTab_newPage)
  obtain s1 where user1: "processUser exampleEnv draftedPage ?rw
      (draftMessageText (exampleConfig 2)) ?s0 = (Inr ?drafted, s1)"
    using draftedPage_user[of ?rw "draftMessageText (exampleConfig 2)" ?s0]
    by (cases "processUser exampleEnv draftedPage ?rw (draftMessageText (exampleConfig 2)) ?s0") auto
  have drafted: "outcomeOf ?drafted = Drafted" by (simp add: outcomeOf_def)
  have rejected: "on_valuesUpdate (failedWriteTab draftedPage) = Inl (Error (lit ''quota exceeded''))"
    by (simp add: failedWriteTab_def goodTab_def)
  have body1: "?kept = (fst ?kept, snd ?kept)" by simp
  note kept = tab_retention[where world="\<lambda>i. failedWriteTab draftedPage" and i=0,
      OF tab1 user1 body1 fresh]
  have tab2: "newPage (goodTab conversationPage) 0 emptyState = (Inr conversationPage, ?s0)"
    by (rule goodTab_newPage)
  obtain res2 s2 where user2: "processUser exampleEnv conversationPage ?rw
      (draftMessageText (exampleConfig 2)) ?s0 = (Inr res2, s2)" and skipped: "skipped res2"
    by (simp add: conversationPage_user)
  have other: "outcomeOf res2 \<noteq> Drafted" using skipped by (simp add: outcomeOf_def)
  have body2: "?closed = (fst ?closed, snd ?closed)" by simp
  note closed = tab_retention[where world="\<lambda>i. goodTab conversationPage" and i=0,
      OF tab2 user2 body2 fresh]
  show ?thesis
    using fresh tab1 tab2 rejected kept closed drafted other by simp
qed

section \<open>The loop\<close>

lemma draftLoop_next:
  assumes "i < length rows" and "int (draftedCount c) < maxDraft cfg"
    and "loopBody e cfg world rows i c s = (Inr c', s')"
    and "int (draftedCount c') < maxDraft cfg"
  shows "draftLoop e cfg world rows i c s = draftLoop e cfg world rows (i + 1) c' s'"
  using assms by (subst draftLoop.simps) simp

lemma draftLoop_Suc:
  assumes "i < length rows" and "int (draftedCount c) < maxDraft cfg"
    and "loopBody e cfg world rows i c s = (Inr c', s')"
    and "int (draftedCount c') < maxDraft cfg"
  shows "draftLoop e cfg world rows i c s = draftLoop e cfg world rows (Suc i) c' s'"
  using draftLoop_next[OF assms] by simp

lemma draftLoop_capped:
  "maxDraft cfg \<le> int (draftedCount c) \<Longrightarrow> draftLoop e cfg world rows i c s = (Inr c, s)"
  by (subst draftLoop.simps) simp

lemma draftLoop_exhausted:
  "length rows \<le> i \<Longrightarrow> draftLoop e cfg world rows i c s = (Inr c, s)"
  by (subst draftLoop.simps) simp

lemma draftLoop_break:
  assumes "i < length rows" and "int (draftedCount c) < maxDraft cfg"
    and "loopBody e cfg world rows i c s = (Inr c', s')"
    and "maxDraft cfg \<le> int (draftedCount c')"
  shows "draftLoop e cfg world rows i c s = (Inr c', s')"
  using assms by (subst draftLoop.simps) simp

lemma draftLoop_bound:
  "draftLoop e cfg world rows i c s = (Inr c', s') \<Longrightarrow>
     int (draftedCount c') \<le> max (int (draftedCount c)) (maxDraft cfg)"
proof (induction e cfg world rows i c s rule: draftLoop.induct)
  case (1 e cfg world rows i c s)
  show ?case
  proof (cases "i < length rows \<and> int (draftedCount c) < maxDraft cfg")
    case False
    then have "draftLoop e cfg world rows i c s = (Inr c, s)"
      by (subst draftLoop.simps) auto
    then show ?thesis using "1.prems" by simp
  next
    case True
    obtain x y where body: "loopBody e cfg world rows i c s = (x, y)"
      by (cases "loopBody e cfg world rows i c s")
    show ?thesis
    proof (cases x)
      case (Inl f)
      then have "draftLoop e cfg world rows i c s = (Inl f, y)"
        using True body by (subst draftLoop.simps) simp
      then show ?thesis using "1.prems" by simp
    next
      case (Inr b)
      have step: "draftedCount b \<le> draftedCount c + 1"
        using loopBody_count body Inr by blast
      show ?thesis
      proof (cases "maxDraft cfg \<le> int (draftedCount b)")
        case capped: True
        then have "draftLoop e cfg world rows i c s = (Inr b, y)"
          using True body Inr by (intro draftLoop_break) auto
        then show ?thesis using "1.prems" step True by auto
      next
        case below: False
        then have "draftLoop e cfg world rows i c s = draftLoop e cfg world rows (i + 1) b y"
          using True body Inr by (intro draftLoop_next) auto
        then have "int (draftedCount c') \<le> max (int (draftedCount b)) (maxDraft cfg)"
          using "1.IH"[OF True body[symmetric] Inr below] "1.prems" by simp
        then show ?thesis using below by auto
      qed
    qed
  qed
qed

text \<open>
  A fault inside the try block of \<open>draftMessage\<close> is caught there. The result has no
  \<open>error\<close>, so \<open>processUser\<close> reports \<open>Unknown error\<close>; when the caught value is \<open>null\<close>
  or \<open>undefined\<close>, the catch of \<open>draftMessage\<close> throws a \<open>TypeError\<close>, which the catch of
  \<open>processUser\<close> reports.
\<close>

lemma draftMessage_catches:
  assumes "draftMessageTry e dmPage opts (s\<lparr>log := log s @ [DraftMessage]\<rparr>) = (Inl f, s1)"
  shows "draftMessage e dmPage opts s =
     (case messageOf f of
        Inl x \<Rightarrow> Inl x
      | Inr m \<Rightarrow> Inr \<lparr>draft_success = False, draft_firstName = None, draft_message = None,
                       draft_typedText = None\<rparr>, s1)"
  using assms
  by (auto simp: draftMessage_def io_defs messageText_def split: sum.splits option.splits)

lemma processUser_draft_fault:
  assumes nav: "navigateToProfile pg (username rw) s = (Inr (), sa)"
    and opened: "on_openDMController pg = Inr dm" "dm_success dm"
    and probed: "on_detectExistingConversation pg = Inr conv" "\<not> hasConversation conv"
    and thrown: "draftMessageTry e pg \<lparr>opt_firstName = None, opt_nameFound = None\<rparr>
        (sa\<lparr>log := log sa @ [OpenDMController, DetectExistingConversation, DraftMessage]\<rparr>)
      = (Inl f, s1)"
  shows "processUser e pg rw template s =
     (Inr \<lparr>res_username = username rw, res_rowIndex = rowIndex rw, success = False,
           skipped = False,
           error = Some (if f = ThrownValue Undefined \<or> f = ThrownValue Null
                         then lit ''Cannot read properties of '' @ errorToString f
                              @ lit '' (reading 'message')''
                         else lit ''Failed to draft message: Unknown error''),
           message = None\<rparr>, s1)"
proof -
  let ?opts = "\<lparr>opt_firstName = None, opt_nameFound = None\<rparr>"
  let ?sd = "sa\<lparr>log := log sa @ [OpenDMController, DetectExistingConversation]\<rparr>"
  have "draftMessageTry e pg ?opts (?sd\<lparr>log := log ?sd @ [DraftMessage]\<rparr>) = (Inl f, s1)"
    using thrown by simp
  note draft = draftMessage_catches[OF this]
  show ?thesis
  proof (cases "messageOf f")
    case (Inr m)
    then have "f \<noteq> ThrownValue Undefined" "f \<noteq> ThrownValue Null"
      by (auto simp: messageOf_def)
    then show ?thesis
      using nav opened probed draft Inr
      by (simp add: processUser_def processUserTry_def io_defs orElse_def lit_def)
  next
    case (Inl x)
    then have f: "f = ThrownValue Undefined \<or> f = ThrownValue Null"
      and x: "x = typeError (case f of ThrownValue v \<Rightarrow> v | _ \<Rightarrow> Undefined)"
      by (auto simp: messageOf_def split: fault.splits if_splits)
    have desc: "faultDescription x
        = Inr (lit ''Cannot read properties of '' @ errorToString f @ lit '' (reading 'message')'')"
      using f x by (auto simp: faultDescription_def messageOf_def typeError_def errorToString_def
          orElse_def lit_def)
    show ?thesis
      using nav opened probed draft Inl f desc
      by (auto simp: processUser_def processUserTry_def io_defs)
  qed
qed

text \<open>
  C7. A fault that leaves the try block of \<open>processUser\<close> (thrown by the navigation, the
  thread opener or the conversation probe) is caught at its boundary: an \<open>Error\<close> object,
  or any other value but \<open>null\<close> and \<open>undefined\<close>, gives the Failed result with
  \<open>error.message || String(error)\<close> as its description; on \<open>null\<close> and \<open>undefined\<close> the
  catch itself throws, and \<open>processUser\<close> rejects with a \<open>TypeError\<close>. A fault inside the
  try block of \<open>draftMessage\<close> is caught by \<open>draftMessage\<close> and ends in a Failed result
  that does not carry its description. Once the tab of the account exists, an account
  that ended Failed, and one whose \<open>processUser\<close> rejected, are written to the sheet as
  Failed, the tab is closed, and, unless \<open>close()\<close> rejected with \<open>null\<close> or \<open>undefined\<close>,
  one error is counted and the loop goes on with the next account.
\<close>

theorem fault_isolation:
  "(\<forall>f s1. processUserTry e pg rw
          \<lparr>res_username = username rw, res_rowIndex = rowIndex rw, success = False,
           skipped = False, error = None, message = None\<rparr> s = (Inl f, s1) \<longrightarrow>
        (\<forall>name m. f = Thrown name m \<longrightarrow>
           processUser e pg rw template s
             = (Inr \<lparr>res_username = username rw, res_rowIndex = rowIndex rw, success = False,
                     skipped = False, error = Some (if m \<noteq> [] then m else name),
                     message = None\<rparr>, s1))
        \<and> (\<forall>v. f = ThrownValue v \<and> v \<noteq> Undefined \<and> v \<noteq> Null \<longrightarrow>
           processUser e pg rw template s
             = (Inr \<lparr>res_username = username rw, res_rowIndex = rowIndex rw, success = False,
                     skipped = False, error = Some (toString v), message = None\<rparr>, s1))
        \<and> (\<forall>v. f = ThrownValue v \<and> (v = Undefined \<or> v = Null) \<longrightarrow>
           processUser e pg rw template s = (Inl (typeError v), s1)))
   \<and> (\<forall>d. outcomeOf \<lparr>res_username = username rw, res_rowIndex = rowIndex rw, success = False,
                       skipped = False, error = Some d, message = None\<rparr> = Failed)
   \<and> (\<forall>sa dm conv f s1.
        navigateToProfile pg (username rw) s = (Inr (), sa)
        \<and> on_openDMController pg = Inr dm \<and> dm_success dm
        \<and> on_detectExistingConversation pg = Inr conv \<and> \<not> hasConversation conv
        \<and> draftMessageTry e pg \<lparr>opt_firstName = None, opt_nameFound = None\<rparr>
             (sa\<lparr>log := log sa @ [OpenDMController, DetectExistingConversation, DraftMessage]\<rparr>)
           = (Inl f, s1) \<longrightarrow>
        processUser e pg rw template s
          = (Inr \<lparr>res_username = username rw, res_rowIndex = rowIndex rw, success = False,
                  skipped = False,
                  error = Some (if f = ThrownValue Undefined \<or> f = ThrownValue Null
                                then lit ''Cannot read properties of '' @ errorToString f
                                     @ lit '' (reading 'message')''
                                else lit ''Failed to draft message: Unknown error''),
                  message = None\<rparr>, s1))
   \<and> (\<forall>p s0 res s1 s2.
        newPage (world i) i s = (Inr p, s0)
        \<and> processUser e p (rows ! i) (draftMessageText cfg) s0 = (Inr res, s1)
        \<and> outcomeOf res = Failed
        \<and> s2 = snd (updateDraftData e (on_valuesUpdate (world i))
                 (Number (Integer (res_rowIndex res))) (String (now (world i)))
                 (String (orElse (error res) (lit ''Unknown error''))) (String (lit ''Failed'')) s1)
        \<longrightarrow>
        loopBody e cfg world rows i c s
          = (case closeFault (world i) of
               None \<Rightarrow> Inr (c\<lparr>errorCount := errorCount c + 1\<rparr>) | Some x \<Rightarrow> Inl x,
             s2\<lparr>tabs := removeAll i (tabs s2), log := log s2 @ [ClosePage i]\<rparr>))
   \<and> (\<forall>p s0 x s1. 
        newPage (world i) i s = (Inr p, s0)
        \<and> processUser e p (rows ! i) (draftMessageText cfg) s0 = (Inl x, s1) \<longrightarrow>
        (\<exists>name m s2.
           x = Thrown name m
           \<and> s2 = snd (updateDraftData e (on_valuesUpdate (world i))
                    (Number (Integer (rowIndex (rows ! i)))) (String (now (world i)))
                    (String (orElse (Some m) (lit ''Unexpected error''))) (String (lit ''Failed'')) s1)
           \<and> loopBody e cfg world rows i c s
             = (case closeFault (world i) of
                  None \<Rightarrow> Inr (c\<lparr>errorCount := errorCount c + 1\<rparr>) | Some x \<Rightarrow> Inl x,
                s2\<lparr>tabs := removeAll i (tabs s2), log := log s2 @ [ClosePage i]\<rparr>)))
   \<and> (\<forall>s'. i < length rows \<and> int (draftedCount c) < maxDraft cfg
        \<and> loopBody e cfg world rows i c s = (Inr (c\<lparr>errorCount := errorCount c + 1\<rparr>), s')
        \<longrightarrow>
        draftLoop e cfg world rows i c s
          = draftLoop e cfg world rows (i + 1) (c\<lparr>errorCount := errorCount c + 1\<rparr>) s')"
proof (intro conjI allI impI; (elim conjE)?)
  fix f s1 name m
  assume thrown: "processUserTry e pg rw
      \<lparr>res_username = username rw, res_rowIndex = rowIndex rw, success = False,
       skipped = False, error = None, message = None\<rparr> s = (Inl f, s1)"
    and f: "f = Thrown name m"
  have "messageOf f = Inr (Some m)" using f by (simp add: messageOf_def)
  from processUser_catches[OF thrown this, of template]
  show "processUser e pg rw template s
      = (Inr \<lparr>res_username = username rw, res_rowIndex = rowIndex rw, success = False,
              skipped = False, error = Some (if m \<noteq> [] then m else name), message = None\<rparr>, s1)"
    using f by (simp add: orElse_def errorToString_def)
next
  fix f s1 v
  assume thrown: "processUserTry e pg rw
      \<lparr>res_username = username rw, res_rowIndex = rowIndex rw, success = False,
       skipped = False, error = None, message = None\<rparr> s = (Inl f, s1)"
    and f: "f = ThrownValue v" "v \<noteq> Undefined" "v \<noteq> Null"
  have "messageOf f = Inr None" using f by (simp add: messageOf_def)
  from processUser_catches[OF thrown this, of template]
  show "processUser e pg rw template s
      = (Inr \<lparr>res_username = username rw, res_rowIndex = rowIndex rw, success = False,
              skipped = False, error = Some (toString v), message = None\<rparr>, s1)"
    using f by (simp add: orElse_def errorToString_def)
next
  fix f s1 v
  assume thrown: "processUserTry e pg rw
      \<lparr>res_username = username rw, res_rowIndex = rowIndex rw, success = False,
       skipped = False, error = None, message = None\<rparr> s = (Inl f, s1)"
    and f: "f = ThrownValue v" "v = Undefined \<or> v = Null"
  have "messageOf f = Inl (typeError v)" using f by (auto simp: messageOf_def)
  from processUser_rejects[OF thrown this, of template]
  show "processUser e pg rw template s = (Inl (typeError v), s1)" .
next
  fix d
  show "outcomeOf \<lparr>res_username = username rw, res_rowIndex = rowIndex rw, success = False,
                  skipped = False, error = Some d, message = None\<rparr> = Failed"
    by (simp add: outcomeOf_def)
next
  fix sa dm conv f s1
  assume "navigateToProfile pg (username rw) s = (Inr (), sa)"
    "on_openDMController pg = Inr dm" "dm_success dm"
    "on_detectExistingConversation pg = Inr conv" "\<not> hasConversation conv"
    "draftMessageTry e pg \<lparr>opt_firstName = None, opt_nameFound = None\<rparr>
        (sa\<lparr>log := log sa @ [OpenDMController, DetectExistingConversation, DraftMessage]\<rparr>)
      = (Inl f, s1)"
  then show "processUser e pg rw template s
      = (Inr \<lparr>res_username = username rw, res_rowIndex = rowIndex rw, success = False,
              skipped = False,
              error = Some (if f = ThrownValue Undefined \<or> f = ThrownValue Null
                            then lit ''Cannot read properties of '' @ errorToString f
                                 @ lit '' (reading 'message')''
                            else lit ''Failed to draft message: Unknown error''),
              message = None\<rparr>, s1)"
    by (rule processUser_draft_fault)
next
  fix p s0 res s1 s2
  assume "newPage (world i) i s = (Inr p, s0)"
    "processUser e p (rows ! i) (draftMessageText cfg) s0 = (Inr res, s1)"
    "outcomeOf res = Failed"
    "s2 = snd (updateDraftData e (on_valuesUpdate (world i))
                 (Number (Integer (res_rowIndex res))) (String (now (world i)))
                 (String (orElse (error res) (lit ''Unknown error''))) (String (lit ''Failed'')) s1)"
  then show "loopBody e cfg world rows i c s
      = (case closeFault (world i) of
           None \<Rightarrow> Inr (c\<lparr>errorCount := errorCount c + 1\<rparr>) | Some x \<Rightarrow> Inl x,
         s2\<lparr>tabs := removeAll i (tabs s2), log := log s2 @ [ClosePage i]\<rparr>)"
    by (rule loopBody_failed[where world=world and i=i])
next
  fix p s0 x s1
  assume tab: "newPage (world i) i s = (Inr p, s0)"
    and user: "processUser e p (rows ! i) (draftMessageText cfg) s0 = (Inl x, s1)"
  from processUser_fault[OF user] obtain name m where x: "x = Thrown name m" by blast
  from loopBody_rejected[where world=world and i=i, OF tab user[unfolded x] refl, of c] x
  show "\<exists>name m s2.
           x = Thrown name m
           \<and> s2 = snd (updateDraftData e (on_valuesUpdate (world i))
                    (Number (Integer (rowIndex (rows ! i)))) (String (now (world i)))
                    (String (orElse (Some m) (lit ''Unexpected error''))) (String (lit ''Failed'')) s1)
           \<and> loopBody e cfg world rows i c s
             = (case closeFault (world i) of
                  None \<Rightarrow> Inr (c\<lparr>errorCount := errorCount c + 1\<rparr>) | Some x \<Rightarrow> Inl x,
                s2\<lparr>tabs := removeAll i (tabs s2), log := log s2 @ [ClosePage i]\<rparr>)"
    by blast
next
  fix s'
  assume "i < length rows" "int (draftedCount c) < maxDraft cfg"
    "loopBody e cfg world rows i c s = (Inr (c\<lparr>errorCount := errorCount c + 1\<rparr>), s')"
  then show "draftLoop e cfg world rows i c s
      = draftLoop e cfg world rows (i + 1) (c\<lparr>errorCount := errorCount c + 1\<rparr>) s'"
    by (intro draftLoop_next) auto
qed

lemma nullRejectPage_try:
  "processUserTry e nullRejectPage rw r0 s =
     (Inl (ThrownValue Null), s\<lparr>log := log s @ [Goto (profileUrl (username rw))]\<rparr>)"
  by (simp add: processUserTry_def navigateToProfile_def nullRejectPage_def draftedPage_def io_defs)

lemma textRejectPage_try:
  "processUserTry e textRejectPage rw r0 s =
     (Inl (ThrownValue (String (lit ''net::ERR_ABORTED''))),
      s\<lparr>log := log s @ [Goto (profileUrl (username rw))]\<rparr>)"
  by (simp add: processUserTry_def navigateToProfile_def textRejectPage_def draftedPage_def io_defs)

lemma goodTab_closeFault: "closeFault (goodTab pg) = None"
  by (simp add: closeFault_def goodTab_def)

lemma stuckTab_closeFault: "closeFault (stuckTab pg) = Some (typeError Null)"
  by (simp add: closeFault_def stuckTab_def goodTab_def messageText_def messageOf_def)

lemma keyboardFaultPage_try:
  "fst (draftMessageTry exampleEnv keyboardFaultPage \<lparr>opt_firstName = None, opt_nameFound = None\<rparr> s)
     = Inl (Error (lit ''Target closed''))"
  by (simp add: draftMessageTry_def resolveName_def baseMessage_def buildMessage_def selectors_def
      keystrokes_def keyboardFaultPage_def exampleEnv_def draftedPage_def loginSelector_def
      io_defs string_defs)

theorem fault_isolation_witness:
  "processUserTry exampleEnv timeoutPage (exampleRows 2 ! 0)
       \<lparr>res_username = username (exampleRows 2 ! 0), res_rowIndex = rowIndex (exampleRows 2 ! 0),
        success = False, skipped = False, error = None, message = None\<rparr> emptyState
     = (Inl (Thrown (lit ''TimeoutError'') (lit ''Timeout 30000ms exceeded'')),
        emptyState\<lparr>log := [Goto (profileUrl (username (exampleRows 2 ! 0)))]\<rparr>)
   \<and> fst (processUser exampleEnv timeoutPage (exampleRows 2 ! 0) [] emptyState)
     = Inr \<lparr>res_username = username (exampleRows 2 ! 0), res_rowIndex = rowIndex (exampleRows 2 ! 0),
            success = False, skipped = False,
            error = Some (lit ''Timeout 30000ms exceeded''), message = None\<rparr>
   \<and> 0 < length (exampleRows 2)
   \<and> int (draftedCount noCounts) < maxDraft (exampleConfig 2)
   \<and> fst (newPage (goodTab timeoutPage) 0 emptyState) = Inr timeoutPage
   \<and> closeFault (goodTab timeoutPage) = None
   \<and> (\<exists>s'. loopBody exampleEnv (exampleConfig 2) (\<lambda>i. goodTab timeoutPage) (exampleRows 2) 0
               noCounts emptyState
             = (Inr \<lparr>draftedCount = 0, skippedCount = 0, errorCount = 1\<rparr>, s')
           \<and> ClosePage 0 \<in> set (log s') \<and> 0 \<notin> set (tabs s')
           \<and> draftLoop exampleEnv (exampleConfig 2) (\<lambda>i. goodTab timeoutPage) (exampleRows 2) 0
               noCounts emptyState
             = draftLoop exampleEnv (exampleConfig 2) (\<lambda>i. goodTab timeoutPage) (exampleRows 2) 1
                 \<lparr>draftedCount = 0, skippedCount = 0, errorCount = 1\<rparr> s')
   \<and> processUserTry exampleEnv nullRejectPage (exampleRows 2 ! 0)
       \<lparr>res_username = username (exampleRows 2 ! 0), res_rowIndex = rowIndex (exampleRows 2 ! 0),
        success = False, skipped = False, error = None, message = None\<rparr> emptyState
     = (Inl (ThrownValue Null),
        emptyState\<lparr>log := [Goto (profileUrl (username (exampleRows 2 ! 0)))]\<rparr>)
   \<and> fst (processUser exampleEnv nullRejectPage (exampleRows 2 ! 0) [] emptyState)
     = Inl (typeError Null)
   \<and> fst (newPage (goodTab nullRejectPage) 0 emptyState) = Inr nullRejectPage
   \<and> (\<exists>s'. loopBody exampleEnv (exampleConfig 2) (\<lambda>i. goodTab nullRejectPage) (exampleRows 2) 0
               noCounts emptyState
             = (Inr \<lparr>draftedCount = 0, skippedCount = 0, errorCount = 1\<rparr>, s')
           \<and> ClosePage 0 \<in> set (log s') \<and> 0 \<notin> set (tabs s')
           \<and> draftLoop exampleEnv (exampleConfig 2) (\<lambda>i. goodTab nullRejectPage) (exampleRows 2) 0
               noCounts emptyState
             = draftLoop exampleEnv (exampleConfig 2) (\<lambda>i. goodTab nullRejectPage) (exampleRows 2) 1
                 \<lparr>draftedCount = 0, skippedCount = 0, errorCount = 1\<rparr> s')
   \<and> fst (processUserTry exampleEnv textRejectPage (exampleRows 2 ! 0)
       \<lparr>res_username = username (exampleRows 2 ! 0), res_rowIndex = rowIndex (exampleRows 2 ! 0),
        success = False, skipped = False, error = None, message = None\<rparr> emptyState)
     = Inl (ThrownValue (String (lit ''net::ERR_ABORTED'')))
   \<and> fst (processUser exampleEnv textRejectPage (exampleRows 2 ! 0) [] emptyState)
     = Inr \<lparr>res_username = username (exampleRows 2 ! 0), res_rowIndex = rowIndex (exampleRows 2 ! 0),
            success = False, skipped = False,
            error = Some (lit ''net::ERR_ABORTED''), message = None\<rparr>
   \<and> fst (draftMessageTry exampleEnv keyboardFaultPage \<lparr>opt_firstName = None, opt_nameFound = None\<rparr>
        (emptyState\<lparr>log := [Goto (profileUrl (username (exampleRows 2 ! 0))), Query loginSelector,
           OpenDMController, DetectExistingConversation, DraftMessage]\<rparr>))
     = Inl (Error (lit ''Target closed''))
   \<and> fst (processUser exampleEnv keyboardFaultPage (exampleRows 2 ! 0) [] emptyState)
     = Inr \<lparr>res_username = username (exampleRows 2 ! 0), res_rowIndex = rowIndex (exampleRows 2 ! 0),
            success = False, skipped = False,
            error = Some (lit ''Failed to draft message: Unknown error''), message = None\<rparr>"
proof -
  let ?rw = "exampleRows 2 ! 0"
  let ?r0 = "\<lparr>res_username = username ?rw, res_rowIndex = rowIndex ?rw,
        success = False, skipped = False, error = None, message = None\<rparr>"
  let ?s0 = "emptyState\<lparr>tabs := tabs emptyState @ [0], log := log emptyState @ [NewPage 0]\<rparr>"
  let ?c1 = "noCounts\<lparr>errorCount := errorCount noCounts + 1\<rparr>"
  let ?f = "Thrown (lit ''TimeoutError'') (lit ''Timeout 30000ms exceeded'')"
  let ?opts = "\<lparr>opt_firstName = None, opt_nameFound = None\<rparr>"
  have len: "0 < length (exampleRows 2)" by (simp add: exampleRows_def)
  have cap: "int (draftedCount noCounts) < maxDraft (exampleConfig 2)"
    by (simp add: noCounts_def exampleConfig_def)
  have nonempty: "lit ''Timeout 30000ms exceeded'' \<noteq> []" by (simp add: lit_def)

  note timeout = fault_isolation[where e=exampleEnv and pg=timeoutPage and rw="?rw"
      and template="[]" and s=emptyState and world="\<lambda>i. goodTab timeoutPage" and i=0
      and cfg="exampleConfig 2" and rows="exampleRows 2" and c=noCounts]
  have thrown: "processUserTry exampleEnv timeoutPage ?rw ?r0 emptyState
      = (Inl ?f, emptyState\<lparr>log := log emptyState @ [Goto (profileUrl (username ?rw))]\<rparr>)"
    by (rule timeoutPage_try)
  have caught: "processUser exampleEnv timeoutPage ?rw [] emptyState
      = (Inr (?r0\<lparr>error := Some (lit ''Timeout 30000ms exceeded'')\<rparr>),
         emptyState\<lparr>log := log emptyState @ [Goto (profileUrl (username ?rw))]\<rparr>)"
    using timeout thrown nonempty by simp
  have tab: "newPage (goodTab timeoutPage) 0 emptyState = (Inr timeoutPage, ?s0)"
    by (rule goodTab_newPage)
  have thrown0: "processUserTry exampleEnv timeoutPage ?rw ?r0 ?s0
      = (Inl ?f, ?s0\<lparr>log := log ?s0 @ [Goto (profileUrl (username ?rw))]\<rparr>)"
    by (rule timeoutPage_try)
  have user0: "processUser exampleEnv timeoutPage ?rw (draftMessageText (exampleConfig 2)) ?s0
      = (Inr (?r0\<lparr>error := Some (lit ''Timeout 30000ms exceeded'')\<rparr>),
         ?s0\<lparr>log := log ?s0 @ [Goto (profileUrl (username ?rw))]\<rparr>)"
    using fault_isolation[where e=exampleEnv and pg=timeoutPage and rw="?rw"
        and template="draftMessageText (exampleConfig 2)" and s="?s0"
        and world="\<lambda>i. goodTab timeoutPage" and i=0
        and cfg="exampleConfig 2" and rows="exampleRows 2" and c=noCounts] thrown0 nonempty
    by simp
  have failed: "outcomeOf (?r0\<lparr>error := Some (lit ''Timeout 30000ms exceeded'')\<rparr>) = Failed"
    by (simp add: outcomeOf_def)
  obtain s2 where s2: "s2 = snd (updateDraftData exampleEnv (on_valuesUpdate (goodTab timeoutPage))
      (Number (Integer (res_rowIndex (?r0\<lparr>error := Some (lit ''Timeout 30000ms exceeded'')\<rparr>))))
      (String (now (goodTab timeoutPage)))
      (String (orElse (error (?r0\<lparr>error := Some (lit ''Timeout 30000ms exceeded'')\<rparr>))
         (lit ''Unknown error'')))
      (String (lit ''Failed'')) (?s0\<lparr>log := log ?s0 @ [Goto (profileUrl (username ?rw))]\<rparr>))"
    by blast
  have body: "loopBody exampleEnv (exampleConfig 2) (\<lambda>i. goodTab timeoutPage) (exampleRows 2) 0
      noCounts emptyState
      = (Inr ?c1, s2\<lparr>tabs := removeAll 0 (tabs s2), log := log s2 @ [ClosePage 0]\<rparr>)"
    using timeout tab user0 failed s2 goodTab_closeFault[of timeoutPage] by simp
  have step: "draftLoop exampleEnv (exampleConfig 2) (\<lambda>i. goodTab timeoutPage) (exampleRows 2) 0
      noCounts emptyState
      = draftLoop exampleEnv (exampleConfig 2) (\<lambda>i. goodTab timeoutPage) (exampleRows 2) (0 + 1)
          ?c1 (s2\<lparr>tabs := removeAll 0 (tabs s2), log := log s2 @ [ClosePage 0]\<rparr>)"
    using timeout len cap body by blast
  have first: "\<exists>s'. loopBody exampleEnv (exampleConfig 2) (\<lambda>i. goodTab timeoutPage) (exampleRows 2) 0
               noCounts emptyState
             = (Inr \<lparr>draftedCount = 0, skippedCount = 0, errorCount = 1\<rparr>, s')
           \<and> ClosePage 0 \<in> set (log s') \<and> 0 \<notin> set (tabs s')
           \<and> draftLoop exampleEnv (exampleConfig 2) (\<lambda>i. goodTab timeoutPage) (exampleRows 2) 0
               noCounts emptyState
             = draftLoop exampleEnv (exampleConfig 2) (\<lambda>i. goodTab timeoutPage) (exampleRows 2) 1
                 \<lparr>draftedCount = 0, skippedCount = 0, errorCount = 1\<rparr> s'"
    using body step by (simp add: noCounts_def)

  note null = fault_isolation[where e=exampleEnv and pg=nullRejectPage and rw="?rw"
      and template="[]" and s=emptyState and world="\<lambda>i. goodTab nullRejectPage" and i=0
      and cfg="exampleConfig 2" and rows="exampleRows 2" and c=noCounts]
  have nthrown: "processUserTry exampleEnv nullRejectPage ?rw ?r0 emptyState
      = (Inl (ThrownValue Null), emptyState\<lparr>log := log emptyState @ [Goto (profileUrl (username ?rw))]\<rparr>)"
    by (rule nullRejectPage_try)
  have rejected: "processUser exampleEnv nullRejectPage ?rw [] emptyState
      = (Inl (typeError Null), emptyState\<lparr>log := log emptyState @ [Goto (profileUrl (username ?rw))]\<rparr>)"
    using null nthrown by simp
  have ntab: "newPage (goodTab nullRejectPage) 0 emptyState = (Inr nullRejectPage, ?s0)"
    by (rule goodTab_newPage)
  have nthrown0: "processUserTry exampleEnv nullRejectPage ?rw ?r0 ?s0
      = (Inl (ThrownValue Null), ?s0\<lparr>log := log ?s0 @ [Goto (profileUrl (username ?rw))]\<rparr>)"
    by (rule nullRejectPage_try)
  have nuser0: "processUser exampleEnv nullRejectPage ?rw (draftMessageText (exampleConfig 2)) ?s0
      = (Inl (typeError Null), ?s0\<lparr>log := log ?s0 @ [Goto (profileUrl (username ?rw))]\<rparr>)"
    using fault_isolation[where e=exampleEnv and pg=nullRejectPage and rw="?rw"
        and template="draftMessageText (exampleConfig 2)" and s="?s0"
        and world="\<lambda>i. goodTab nullRejectPage" and i=0
        and cfg="exampleConfig 2" and rows="exampleRows 2" and c=noCounts] nthrown0
    by simp
  obtain n2 where nbody: "loopBody exampleEnv (exampleConfig 2) (\<lambda>i. goodTab nullRejectPage)
      (exampleRows 2) 0 noCounts emptyState
      = (Inr ?c1, n2\<lparr>tabs := removeAll 0 (tabs n2), log := log n2 @ [ClosePage 0]\<rparr>)"
    using null ntab nuser0 goodTab_closeFault[of nullRejectPage] by fastforce
  have nstep: "draftLoop exampleEnv (exampleConfig 2) (\<lambda>i. goodTab nullRejectPage) (exampleRows 2) 0
      noCounts emptyState
      = draftLoop exampleEnv (exampleConfig 2) (\<lambda>i. goodTab nullRejectPage) (exampleRows 2) (0 + 1)
          ?c1 (n2\<lparr>tabs := removeAll 0 (tabs n2), log := log n2 @ [ClosePage 0]\<rparr>)"
    using null len cap nbody by blast
  have second: "\<exists>s'. loopBody exampleEnv (exampleConfig 2) (\<lambda>i. goodTab nullRejectPage) (exampleRows 2) 0
               noCounts emptyState
             = (Inr \<lparr>draftedCount = 0, skippedCount = 0, errorCount = 1\<rparr>, s')
           \<and> ClosePage 0 \<in> set (log s') \<and> 0 \<notin> set (tabs s')
           \<and> draftLoop exampleEnv (exampleConfig 2) (\<lambda>i. goodTab nullRejectPage) (exampleRows 2) 0
               noCounts emptyState
             = draftLoop exampleEnv (exampleConfig 2) (\<lambda>i. goodTab nullRejectPage) (exampleRows 2) 1
                 \<lparr>draftedCount = 0, skippedCount = 0, errorCount = 1\<rparr> s'"
    using nbody nstep by (simp add: noCounts_def)

  have tthrown: "processUserTry exampleEnv textRejectPage ?rw ?r0 emptyState
      = (Inl (ThrownValue (String (lit ''net::ERR_ABORTED''))),
         emptyState\<lparr>log := log emptyState @ [Goto (profileUrl (username ?rw))]\<rparr>)"
    by (rule textRejectPage_try)
  have tcaught: "processUser exampleEnv textRejectPage ?rw [] emptyState
      = (Inr (?r0\<lparr>error := Some (lit ''net::ERR_ABORTED'')\<rparr>),
         emptyState\<lparr>log := log emptyState @ [Goto (profileUrl (username ?rw))]\<rparr>)"
    using fault_isolation[where e=exampleEnv and pg=textRejectPage and rw="?rw"
        and template="[]" and s=emptyState and world="\<lambda>i. goodTab textRejectPage" and i=0
        and cfg="exampleConfig 2" and rows="exampleRows 2" and c=noCounts] tthrown
    by simp

  note keys = fault_isolation[where e=exampleEnv and pg=keyboardFaultPage and rw="?rw"
      and template="[]" and s=emptyState and world="\<lambda>i. goodTab keyboardFaultPage" and i=0
      and cfg="exampleConfig 2" and rows="exampleRows 2" and c=noCounts]
  let ?sa = "emptyState\<lparr>log := log emptyState @ [Goto (profileUrl (username ?rw)), Query loginSelector]\<rparr>"
  let ?sd = "?sa\<lparr>log := log ?sa @ [OpenDMController, DetectExistingConversation, DraftMessage]\<rparr>"
  have knav: "navigateToProfile keyboardFaultPage (username ?rw) emptyState = (Inr (), ?sa)"
    by (simp add: navigateToProfile_def keyboardFaultPage_def draftedPage_def io_defs)
  have kopen: "on_openDMController keyboardFaultPage
      = Inr \<lparr>dm_success = True, dm_error = None, dm_used = lit ''button''\<rparr>"
    and kprobe: "on_detectExistingConversation keyboardFaultPage
      = Inr \<lparr>hasConversation = False, messageCount = Number (Integer 0)\<rparr>"
    by (simp_all add: keyboardFaultPage_def draftedPage_def)
  obtain k1 where kthrown: "draftMessageTry exampleEnv keyboardFaultPage ?opts ?sd
      = (Inl (Error (lit ''Target closed'')), k1)"
    using keyboardFaultPage_try[of ?sd]
    by (cases "draftMessageTry exampleEnv keyboardFaultPage ?opts ?sd") auto
  have kuser: "processUser exampleEnv keyboardFaultPage ?rw [] emptyState
      = (Inr (?r0\<lparr>error := Some (lit ''Failed to draft message: Unknown error'')\<rparr>), k1)"
    using keys knav kopen kprobe kthrown by (simp add: Error_def)
  have ktry: "fst (draftMessageTry exampleEnv keyboardFaultPage ?opts
        (emptyState\<lparr>log := [Goto (profileUrl (username ?rw)), Query loginSelector,
           OpenDMController, DetectExistingConversation, DraftMessage]\<rparr>))
     = Inl (Error (lit ''Target closed''))"
    by (rule keyboardFaultPage_try)
  show ?thesis
    using thrown caught len cap tab goodTab_closeFault[of timeoutPage] first nthrown rejected
      ntab second tthrown tcaught ktry kuser
    by (simp add: emptyState_def)
qed

lemma noTab_loop:
  "draftLoop exampleEnv (exampleConfig 2) (\<lambda>i. if i = 0 then noTab else goodTab draftedPage)
       (exampleRows 2) 0 noCounts emptyState
     = (Inl (Error (lit ''Target closed'')), emptyState\<lparr>log := [NewPage 0]\<rparr>)"
  by (subst draftLoop.simps)
    (simp add: loopBody_def newPage_def noTab_def goodTab_def exampleRows_def exampleConfig_def
      noCounts_def emptyState_def io_defs)

lemma stuckTab_loop:
  "fst (draftLoop exampleEnv (exampleConfig 2) (\<lambda>i. stuckTab timeoutPage) (exampleRows 2) 0
         noCounts emptyState) = Inl (typeError Null)
   \<and> NewPage 1 \<notin> set (log (snd (draftLoop exampleEnv (exampleConfig 2) (\<lambda>i. stuckTab timeoutPage)
         (exampleRows 2) 0 noCounts emptyState)))"
proof -
  let ?rw = "exampleRows 2 ! 0"
  let ?r0 = "\<lparr>res_username = username ?rw, res_rowIndex = rowIndex ?rw,
        success = False, skipped = False, error = None, message = None\<rparr>"
  let ?res = "?r0\<lparr>error := Some (orElse (Some (lit ''Timeout 30000ms exceeded''))
      (errorToString (Thrown (lit ''TimeoutError'') (lit ''Timeout 30000ms exceeded''))))\<rparr>"
  let ?s0 = "emptyState\<lparr>tabs := tabs emptyState @ [0], log := log emptyState @ [NewPage 0]\<rparr>"
  let ?s1 = "?s0\<lparr>log := log ?s0 @ [Goto (profileUrl (username ?rw))]\<rparr>"
  let ?w = "\<lambda>i::nat. stuckTab timeoutPage"
  let ?u = "updateDraftData exampleEnv (on_valuesUpdate (stuckTab timeoutPage))
      (Number (Integer (res_rowIndex ?res))) (String (now (stuckTab timeoutPage)))
      (String (orElse (error ?res) (lit ''Unknown error''))) (String (lit ''Failed'')) ?s1"
  have tab: "newPage (?w 0) 0 emptyState = (Inr timeoutPage, ?s0)"
    by (simp add: newPage_def stuckTab_def goodTab_def)
  have "messageOf (Thrown (lit ''TimeoutError'') (lit ''Timeout 30000ms exceeded''))
      = Inr (Some (lit ''Timeout 30000ms exceeded''))"
    by (simp add: messageOf_def)
  from processUser_catches[OF timeoutPage_try this]
  have user: "processUser exampleEnv timeoutPage ?rw (draftMessageText (exampleConfig 2)) ?s0
      = (Inr ?res, ?s1)"
    by simp
  have failed: "outcomeOf ?res = Failed" by (simp add: outcomeOf_def)
  have body: "loopBody exampleEnv (exampleConfig 2) ?w (exampleRows 2) 0 noCounts emptyState
      = (Inl (typeError Null),
         (snd ?u)\<lparr>tabs := removeAll 0 (tabs (snd ?u)), log := log (snd ?u) @ [ClosePage 0]\<rparr>)"
    using loopBody_failed[where world="?w" and i=0 and c=noCounts, OF tab user failed refl]
      stuckTab_closeFault[of timeoutPage]
    by simp
  have loop: "draftLoop exampleEnv (exampleConfig 2) ?w (exampleRows 2) 0 noCounts emptyState
      = (Inl (typeError Null),
         (snd ?u)\<lparr>tabs := removeAll 0 (tabs (snd ?u)), log := log (snd ?u) @ [ClosePage 0]\<rparr>)"
    using body
    by (subst draftLoop.simps) (simp add: exampleRows_def exampleConfig_def noCounts_def)
  have "?u = (fst ?u, snd ?u)" by simp
  from confinedD[OF confined_updateDraftData this] obtain new where
    new: "log (snd ?u) = log ?s1 @ new" "list_all isSheetCall new" by blast
  have "NewPage 1 \<notin> set new" using new(2) by (auto simp: list_all_iff)
  then have "NewPage 1 \<notin> set (log (snd ?u) @ [ClosePage 0])"
    using new(1) by (simp add: emptyState_def)
  then show ?thesis using loop by simp
qed

text \<open>
  Not every fault thrown while an account is processed ends in a Failed outcome that
  carries its description, and not every such fault stays inside \<open>processUser\<close> or
  leaves the later accounts their turn. A fault of the keyboard during drafting is
  caught inside \<open>draftMessage\<close>: the result is Failed, with another description. A
  navigation that rejects with \<open>null\<close> makes \<open>processUser\<close> reject. When the tab of the
  first of two accounts cannot be created, the loop ends there and the second account
  is not processed; and so it does when the first account fails and closing its tab
  rejects with \<open>null\<close>.
\<close>

theorem fault_isolation_counterexample:
  "on_action keyboardFaultPage 0 (Click (lit ''p[contenteditable=\"true\"]''))
     = Inl (Error (lit ''Target closed''))
   \<and> Act (Click (lit ''p[contenteditable=\"true\"]''))
       \<in> set (log (snd (processUser exampleEnv keyboardFaultPage (exampleRows 1 ! 0) [] emptyState)))
   \<and> fst (processUser exampleEnv keyboardFaultPage (exampleRows 1 ! 0) [] emptyState)
     = Inr \<lparr>res_username = username (exampleRows 1 ! 0), res_rowIndex = rowIndex (exampleRows 1 ! 0),
            success = False, skipped = False,
            error = Some (lit ''Failed to draft message: Unknown error''), message = None\<rparr>
   \<and> faultDescription (Error (lit ''Target closed'')) = Inr (lit ''Target closed'')
   \<and> lit ''Failed to draft message: Unknown error'' \<noteq> lit ''Target closed''
   \<and> on_goto nullRejectPage (profileUrl (username (exampleRows 1 ! 0))) = Inl (ThrownValue Null)
   \<and> fst (processUser exampleEnv nullRejectPage (exampleRows 1 ! 0) [] emptyState)
     = Inl (typeError Null)
   \<and> draftLoop exampleEnv (exampleConfig 2) (\<lambda>i. if i = 0 then noTab else goodTab draftedPage)
       (exampleRows 2) 0 noCounts emptyState
     = (Inl (Error (lit ''Target closed'')), emptyState\<lparr>log := [NewPage 0]\<rparr>)
   \<and> fst (draftLoop exampleEnv (exampleConfig 2) (\<lambda>i. stuckTab timeoutPage) (exampleRows 2) 0
         noCounts emptyState) = Inl (typeError Null)
   \<and> NewPage 1 \<notin> set (log (snd (draftLoop exampleEnv (exampleConfig 2) (\<lambda>i. stuckTab timeoutPage)
         (exampleRows 2) 0 noCounts emptyState)))"
proof -
  have keys: "on_action keyboardFaultPage 0 (Click (lit ''p[contenteditable=\"true\"]''))
       = Inl (Error (lit ''Target closed''))
     \<and> Act (Click (lit ''p[contenteditable=\"true\"]''))
         \<in> set (log (snd (processUser exampleEnv keyboardFaultPage (exampleRows 1 ! 0) [] emptyState)))
     \<and> fst (processUser exampleEnv keyboardFaultPage (exampleRows 1 ! 0) [] emptyState)
       = Inr \<lparr>res_username = username (exampleRows 1 ! 0), res_rowIndex = rowIndex (exampleRows 1 ! 0),
              success = False, skipped = False,
              error = Some (lit ''Failed to draft message: Unknown error''), message = None\<rparr>
     \<and> faultDescription (Error (lit ''Target closed'')) = Inr (lit ''Target closed'')
     \<and> lit ''Failed to draft message: Unknown error'' \<noteq> lit ''Target closed''"
    by (simp add: processUser_def processUserTry_def navigateToProfile_def draftMessage_def
        draftMessageTry_def resolveName_def baseMessage_def buildMessage_def selectors_def
        keystrokes_def keyboardFaultPage_def exampleEnv_def draftedPage_def loginSelector_def
        emptyState_def Error_def io_defs string_defs fault_defs)
  have null: "on_goto nullRejectPage (profileUrl (username (exampleRows 1 ! 0))) = Inl (ThrownValue Null)
     \<and> fst (processUser exampleEnv nullRejectPage (exampleRows 1 ! 0) [] emptyState)
       = Inl (typeError Null)"
    using processUser_rejects[OF nullRejectPage_try, where x="typeError Null" and e=exampleEnv
        and rw="exampleRows 1 ! 0" and s=emptyState and template="[]"]
    by (simp add: nullRejectPage_def draftedPage_def messageOf_def)
  show ?thesis
    using keys null noTab_loop stuckTab_loop by simp
qed

lemma yieldsDrafted_body:
  assumes "yieldsDrafted e cfg world rows j"
  shows "\<exists>s'. loopBody e cfg world rows j c s = (Inr (c\<lparr>draftedCount := draftedCount c + 1\<rparr>), s')
      \<and> tabs s' = tabs s @ [j]
      \<and> filter isNewPage (log s') = filter isNewPage (log s) @ [NewPage j]"
proof -
  from assms obtain pg s0 res s1 s2 where
    tab: "newPage (world j) j s = (Inr pg, s0)"
    and user: "processUser e pg (rows ! j) (draftMessageText cfg) s0 = (Inr res, s1)"
    and drafted: "outcomeOf res = Drafted"
    and written: "updateDraftData e (on_valuesUpdate (world j)) (Number (Integer (res_rowIndex res)))
             (String (now (world j))) (argOf (message res)) (String (lit ''Drafted'')) s1
           = (Inr (), s2)"
    unfolding yieldsDrafted_def by blast
  from loopBody_outcome[where world=world and i=j, OF tab user, of c] drafted written
  show ?thesis by auto
qed

lemma two_of_five:
  assumes cap: "maxDraft cfg = 2" and five: "length rows = 5"
    and all: "\<forall>j<5. yieldsDrafted e cfg world rows j"
  shows "\<exists>s'. draftLoop e cfg world rows 0 \<lparr>draftedCount = 0, skippedCount = 0, errorCount = 0\<rparr> s
        = (Inr \<lparr>draftedCount = 2, skippedCount = 0, errorCount = 0\<rparr>, s')
      \<and> tabs s' = tabs s @ [0, 1]
      \<and> filter isNewPage (log s') = filter isNewPage (log s) @ [NewPage 0, NewPage 1]"
proof -
  let ?c0 = "\<lparr>draftedCount = 0, skippedCount = 0, errorCount = 0\<rparr>"
  let ?c1 = "\<lparr>draftedCount = 1, skippedCount = 0, errorCount = 0\<rparr>"
  let ?c2 = "\<lparr>draftedCount = 2, skippedCount = 0, errorCount = 0\<rparr>"
  have y0: "yieldsDrafted e cfg world rows 0" and y1: "yieldsDrafted e cfg world rows 1"
    using all by auto
  from yieldsDrafted_body[OF y0, of ?c0 s] obtain s1 where
    b0: "loopBody e cfg world rows 0 ?c0 s = (Inr ?c1, s1)"
    and t0: "tabs s1 = tabs s @ [0]"
    and l0: "filter isNewPage (log s1) = filter isNewPage (log s) @ [NewPage 0]"
    by auto
  from yieldsDrafted_body[OF y1, of ?c1 s1] obtain s2 where
    b1: "loopBody e cfg world rows 1 ?c1 s1 = (Inr ?c2, s2)"
    and t1: "tabs s2 = tabs s1 @ [1]"
    and l1: "filter isNewPage (log s2) = filter isNewPage (log s1) @ [NewPage 1]"
    by auto
  have "draftLoop e cfg world rows 0 ?c0 s = draftLoop e cfg world rows (0 + 1) ?c1 s1"
    using cap five b0 by (intro draftLoop_next) auto
  also have "\<dots> = (Inr ?c2, s2)"
    using cap five b1 by (intro draftLoop_break) auto
  finally show ?thesis using t0 t1 l0 l1 by simp
qed

lemma draftedPage_yields:
  assumes "j < n" and "n \<le> 1000"
  shows "yieldsDrafted exampleEnv cfg (\<lambda>i. goodTab draftedPage) (exampleRows n) j"
  unfolding yieldsDrafted_def
proof (intro allI)
  fix s :: state
  define rw where "rw = exampleRows n ! j"
  define s0 where "s0 = s\<lparr>tabs := tabs s @ [j], log := log s @ [NewPage j]\<rparr>"
  define res where "res = \<lparr>res_username = username rw, res_rowIndex = rowIndex rw, success = True,
          skipped = False, error = None, message = Some (lit ''Hi Alex! Welcome'')\<rparr>"
  have tab: "newPage (goodTab draftedPage) j s = (Inr draftedPage, s0)"
    unfolding s0_def by (rule goodTab_newPage)
  obtain s1 where user: "processUser exampleEnv draftedPage rw (draftMessageText cfg) s0 = (Inr res, s1)"
    using draftedPage_user[of rw "draftMessageText cfg" s0] unfolding res_def
    by (cases "processUser exampleEnv draftedPage rw (draftMessageText cfg) s0") auto
  have "rowIndex rw = int j + 2"
    using assms by (simp add: rw_def exampleRows_nth)
  then have row: "2 \<le> res_rowIndex res" "res_rowIndex res < 10 ^ 21"
    using assms by (simp_all add: res_def)
  obtain s2 where written: "updateDraftData exampleEnv (Inr ()) (Number (Integer (res_rowIndex res)))
       (String (lit ''2025-01-01T00:00:00.000Z'')) (String (lit ''Hi Alex! Welcome''))
       (String (lit ''Drafted'')) s1 = (Inr (), s2)"
    using exampleEnv_written[OF row] by blast
  have drafted: "outcomeOf res = Drafted" by (simp add: res_def outcomeOf_def)
  have msg: "argOf (message res) = String (lit ''Hi Alex! Welcome'')"
    by (simp add: res_def argOf_def)
  show "\<exists>pg s0 res s1 s2.
        newPage (goodTab draftedPage) j s = (Inr pg, s0)
        \<and> processUser exampleEnv pg (exampleRows n ! j) (draftMessageText cfg) s0 = (Inr res, s1)
        \<and> outcomeOf res = Drafted
        \<and> updateDraftData exampleEnv (on_valuesUpdate (goodTab draftedPage))
             (Number (Integer (res_rowIndex res)))
             (String (now (goodTab draftedPage))) (argOf (message res))
             (String (lit ''Drafted'')) s1
           = (Inr (), s2)"
    using tab user drafted written msg unfolding rw_def by (auto simp: goodTab_def)
qed

text \<open>
  C4. At the head of the loop, when \<open>draftedCount\<close> has reached \<open>maxDraft\<close>, the loop
  returns at once: no tab is opened and no account is processed, whatever rows remain.
  A loop that returns never has a \<open>draftedCount\<close> above the larger of its start value and
  \<open>maxDraft\<close>. With \<open>maxDraft = 2\<close> and five accounts that all yield Drafted with a
  successful write, the loop ends with \<open>draftedCount = 2\<close>, having opened the tabs of
  accounts 0 and 1 only, both still open.
\<close>

theorem cap_enforcement:
  "(maxDraft cfg \<le> int (draftedCount c) \<longrightarrow> draftLoop e cfg world rows i c s = (Inr c, s))
   \<and> (\<forall>c' s'. draftLoop e cfg world rows i c s = (Inr c', s') \<longrightarrow>
         int (draftedCount c') \<le> max (int (draftedCount c)) (maxDraft cfg))
   \<and> (maxDraft cfg = 2 \<and> length rows = 5 \<and> (\<forall>j<5. yieldsDrafted e cfg world rows j) \<longrightarrow>
         (\<exists>s'. draftLoop e cfg world rows 0 \<lparr>draftedCount = 0, skippedCount = 0, errorCount = 0\<rparr> s
                 = (Inr \<lparr>draftedCount = 2, skippedCount = 0, errorCount = 0\<rparr>, s')
               \<and> tabs s' = tabs s @ [0, 1]
               \<and> filter isNewPage (log s') = filter isNewPage (log s) @ [NewPage 0, NewPage 1]))"
  using draftLoop_capped[of cfg c e world rows i s] draftLoop_bound[of e cfg world rows i c s]
    two_of_five[of cfg rows e world s]
  by blast

theorem cap_enforcement_witness:
  "maxDraft (exampleConfig 2) = 2 \<and> length (exampleRows 5) = 5
   \<and> draftLoop exampleEnv (exampleConfig 2) (\<lambda>i. goodTab draftedPage) (exampleRows 5) 2
        \<lparr>draftedCount = 2, skippedCount = 0, errorCount = 0\<rparr> emptyState
      = (Inr \<lparr>draftedCount = 2, skippedCount = 0, errorCount = 0\<rparr>, emptyState)
   \<and> (\<exists>s'. draftLoop exampleEnv (exampleConfig 2) (\<lambda>i. goodTab draftedPage) (exampleRows 5) 0
              \<lparr>draftedCount = 0, skippedCount = 0, errorCount = 0\<rparr> emptyState
            = (Inr \<lparr>draftedCount = 2, skippedCount = 0, errorCount = 0\<rparr>, s')
          \<and> int (draftedCount \<lparr>draftedCount = 2, skippedCount = 0, errorCount = 0\<rparr>)
              \<le> max (int (draftedCount \<lparr>draftedCount = 0, skippedCount = 0, errorCount = 0\<rparr>))
                    (maxDraft (exampleConfig 2))
          \<and> tabs s' = [0, 1]
          \<and> filter isNewPage (log s') = [NewPage 0, NewPage 1])"
proof -
  have cap: "maxDraft (exampleConfig 2) = 2" by (simp add: exampleConfig_def)
  have five: "length (exampleRows 5) = 5" by (simp add: exampleRows_def)
  have all: "\<forall>j<5. yieldsDrafted exampleEnv (exampleConfig 2) (\<lambda>i. goodTab draftedPage) (exampleRows 5) j"
    by (auto intro: draftedPage_yields)
  note inst = cap_enforcement[of "exampleConfig 2" _ exampleEnv "\<lambda>i. goodTab draftedPage"
      "exampleRows 5" _ emptyState]
  have stop: "draftLoop exampleEnv (exampleConfig 2) (\<lambda>i. goodTab draftedPage) (exampleRows 5) 2
        \<lparr>draftedCount = 2, skippedCount = 0, errorCount = 0\<rparr> emptyState
      = (Inr \<lparr>draftedCount = 2, skippedCount = 0, errorCount = 0\<rparr>, emptyState)"
    using inst[of "\<lparr>draftedCount = 2, skippedCount = 0, errorCount = 0\<rparr>" 2] cap by simp
  obtain s' where run: "draftLoop exampleEnv (exampleConfig 2) (\<lambda>i. goodTab draftedPage) (exampleRows 5) 0
              \<lparr>draftedCount = 0, skippedCount = 0, errorCount = 0\<rparr> emptyState
            = (Inr \<lparr>draftedCount = 2, skippedCount = 0, errorCount = 0\<rparr>, s')"
    and tabs: "tabs s' = tabs emptyState @ [0, 1]"
    and news: "filter isNewPage (log s') = filter isNewPage (log emptyState) @ [NewPage 0, NewPage 1]"
    using inst[of "\<lparr>draftedCount = 0, skippedCount = 0, errorCount = 0\<rparr>" 0] cap five all by blast
  have bound: "int (draftedCount \<lparr>draftedCount = 2, skippedCount = 0, errorCount = 0\<rparr>)
              \<le> max (int (draftedCount \<lparr>draftedCount = 0, skippedCount = 0, errorCount = 0\<rparr>))
                    (maxDraft (exampleConfig 2))"
    using inst[of "\<lparr>draftedCount = 0, skippedCount = 0, errorCount = 0\<rparr>" 0] run by blast
  show ?thesis
    using cap five stop run bound tabs news by (auto simp: emptyState_def)
qed

lemma run_dry:
  assumes "1 \<le> maxDraft cfg" and "rows \<noteq> []"
  shows "run e True cfg b world rows s = (Inr (WouldProcess (take (nat (maxDraft cfg)) rows)), s)"
  using assms by (simp add: run_def tryCatch_def ret_def slice_take)

lemma run_real:
  assumes "rows \<noteq> []"
    and "draftLoop e cfg world rows 0 \<lparr>draftedCount = 0, skippedCount = 0, errorCount = 0\<rparr> s
      = (Inr c, s')"
  shows "run e False cfg goodBrowser world rows s = (Inr (Summary (length rows) c), s')"
  using assms by (simp add: run_def initializeBrowser_def goodBrowser_def io_defs)

lemma conversation_body:
  "\<exists>s'. loopBody exampleEnv cfg (\<lambda>i. goodTab conversationPage) rows j c s
        = (Inr (c\<lparr>skippedCount := skippedCount c + 1\<rparr>), s')
      \<and> tabs s' = removeAll j (tabs s @ [j])
      \<and> filter isNewPage (log s') = filter isNewPage (log s) @ [NewPage j]"
proof -
  have tab: "newPage (goodTab conversationPage) j s
      = (Inr conversationPage, s\<lparr>tabs := tabs s @ [j], log := log s @ [NewPage j]\<rparr>)"
    by (rule goodTab_newPage)
  obtain res s1 where user: "processUser exampleEnv conversationPage (rows ! j) (draftMessageText cfg)
      (s\<lparr>tabs := tabs s @ [j], log := log s @ [NewPage j]\<rparr>) = (Inr res, s1)"
    and skipped: "skipped res"
    by (simp add: conversationPage_user)
  have "outcomeOf res = Skipped" using skipped by (simp add: outcomeOf_def)
  then show ?thesis
    using loopBody_outcome[where world="\<lambda>i. goodTab conversationPage" and i=j, OF tab user, of c]
      goodTab_closeFault[of conversationPage]
    by auto
qed

lemma conversation_run:
  "\<exists>s'. run exampleEnv False (exampleConfig 1) goodBrowser (\<lambda>i. goodTab conversationPage)
          (exampleRows 2) emptyState
        = (Inr (Summary 2 \<lparr>draftedCount = 0, skippedCount = 2, errorCount = 0\<rparr>), s')
      \<and> filter isNewPage (log s') = [NewPage 0, NewPage 1]"
proof -
  let ?w = "\<lambda>i::nat. goodTab conversationPage"
  let ?c0 = "\<lparr>draftedCount = 0, skippedCount = 0, errorCount = 0\<rparr>"
  let ?c1 = "\<lparr>draftedCount = 0, skippedCount = 1, errorCount = 0\<rparr>"
  let ?c2 = "\<lparr>draftedCount = 0, skippedCount = 2, errorCount = 0\<rparr>"
  have cap: "maxDraft (exampleConfig 1) = 1" by (simp add: exampleConfig_def)
  have two: "length (exampleRows 2) = 2" by (simp add: exampleRows_def)
  from conversation_body[of "exampleConfig 1" "exampleRows 2" 0 ?c0 emptyState] obtain s1 where
    b0: "loopBody exampleEnv (exampleConfig 1) ?w (exampleRows 2) 0 ?c0 emptyState = (Inr ?c1, s1)"
    and l0: "filter isNewPage (log s1) = filter isNewPage (log emptyState) @ [NewPage 0]"
    by auto
  from conversation_body[of "exampleConfig 1" "exampleRows 2" "Suc 0" ?c1 s1] obtain s2 where
    b1: "loopBody exampleEnv (exampleConfig 1) ?w (exampleRows 2) (Suc 0) ?c1 s1 = (Inr ?c2, s2)"
    and l1: "filter isNewPage (log s2) = filter isNewPage (log s1) @ [NewPage (Suc 0)]"
    by auto
  have st0: "draftLoop exampleEnv (exampleConfig 1) ?w (exampleRows 2) 0 ?c0 emptyState
      = draftLoop exampleEnv (exampleConfig 1) ?w (exampleRows 2) (Suc 0) ?c1 s1"
    using cap two b0 by (intro draftLoop_Suc) auto
  have st1: "draftLoop exampleEnv (exampleConfig 1) ?w (exampleRows 2) (Suc 0) ?c1 s1
      = draftLoop exampleEnv (exampleConfig 1) ?w (exampleRows 2) (Suc (Suc 0)) ?c2 s2"
    using cap two b1 by (intro draftLoop_Suc) auto
  have st2: "draftLoop exampleEnv (exampleConfig 1) ?w (exampleRows 2) (Suc (Suc 0)) ?c2 s2
      = (Inr ?c2, s2)"
    using two by (intro draftLoop_exhausted) auto
  have loop: "draftLoop exampleEnv (exampleConfig 1) ?w (exampleRows 2) 0 ?c0 emptyState
      = (Inr ?c2, s2)"
    using st0 st1 st2 by (simp only:)
  have "exampleRows 2 \<noteq> []" using two by auto
  from run_real[OF this loop] two l0 l1 show ?thesis
    by (auto simp: emptyState_def)
qed

text \<open>
  C9. A dry run with a \<open>maxDraft\<close> of at least 1 on a non-empty list reports the first
  \<open>maxDraft\<close> rows and has no effect. In a real run an iteration whose outcome is not
  Drafted leaves \<open>draftedCount\<close> as it was, so a real run can process more accounts: with
  \<open>maxDraft = 1\<close> and two accounts that both have a conversation, the real run opens a tab
  for both, and the dry run lists the first only.
\<close>

theorem dry_run_report:
  "(1 \<le> maxDraft cfg \<and> rows \<noteq> [] \<longrightarrow>
      run e True cfg b world rows s = (Inr (WouldProcess (take (nat (maxDraft cfg)) rows)), s))
   \<and> (\<forall>pg s0 res s1 c' s'.
        newPage (world i) i s = (Inr pg, s0)
        \<and> processUser e pg (rows ! i) (draftMessageText cfg) s0 = (Inr res, s1)
        \<and> outcomeOf res \<noteq> Drafted
        \<and> loopBody e cfg world rows i c s = (Inr c', s') \<longrightarrow>
        draftedCount c' = draftedCount c)
   \<and> (\<exists>s'. run exampleEnv False (exampleConfig 1) goodBrowser (\<lambda>i. goodTab conversationPage)
              (exampleRows 2) emptyState
            = (Inr (Summary 2 \<lparr>draftedCount = 0, skippedCount = 2, errorCount = 0\<rparr>), s')
          \<and> filter isNewPage (log s') = [NewPage 0, NewPage 1])
   \<and> run exampleEnv True (exampleConfig 1) goodBrowser (\<lambda>i. goodTab conversationPage)
        (exampleRows 2) emptyState
      = (Inr (WouldProcess [exampleRows 2 ! 0]), emptyState)"
proof -
  have dry: "run exampleEnv True (exampleConfig 1) goodBrowser (\<lambda>i. goodTab conversationPage)
        (exampleRows 2) emptyState
      = (Inr (WouldProcess [exampleRows 2 ! 0]), emptyState)"
    using run_dry[of "exampleConfig 1" "exampleRows 2" exampleEnv goodBrowser
        "\<lambda>i. goodTab conversationPage" emptyState]
    by (simp add: exampleConfig_def exampleRows_def upt_rec)
  show ?thesis
    using run_dry[of cfg rows e b world s] loopBody_not_drafted[where world=world and i=i]
      conversation_run dry
    by blast
qed

theorem dry_run_report_witness:
  "1 \<le> maxDraft (exampleConfig 1) \<and> exampleRows 2 \<noteq> []
   \<and> run exampleEnv True (exampleConfig 1) goodBrowser (\<lambda>i. goodTab conversationPage)
        (exampleRows 2) emptyState
      = (Inr (WouldProcess (take 1 (exampleRows 2))), emptyState)
   \<and> fst (newPage (goodTab conversationPage) 0 emptyState) = Inr conversationPage
   \<and> (\<exists>c' s'. loopBody exampleEnv (exampleConfig 1) (\<lambda>i. goodTab conversationPage)
                (exampleRows 2) 0 noCounts emptyState = (Inr c', s')
              \<and> draftedCount c' = draftedCount noCounts)"
proof -
  let ?s0 = "emptyState\<lparr>tabs := tabs emptyState @ [0], log := log emptyState @ [NewPage 0]\<rparr>"
  note inst = dry_run_report[of "exampleConfig 1" "exampleRows 2" exampleEnv goodBrowser
      "\<lambda>i. goodTab conversationPage" emptyState 0 noCounts]
  have cap: "1 \<le> maxDraft (exampleConfig 1)" by (simp add: exampleConfig_def)
  have rows: "exampleRows 2 \<noteq> []" by (simp add: exampleRows_def)
  have dry: "run exampleEnv True (exampleConfig 1) goodBrowser (\<lambda>i. goodTab conversationPage)
        (exampleRows 2) emptyState
      = (Inr (WouldProcess (take 1 (exampleRows 2))), emptyState)"
    using inst cap rows by (simp add: exampleConfig_def)
  have tab: "newPage (goodTab conversationPage) 0 emptyState = (Inr conversationPage, ?s0)"
    by (rule goodTab_newPage)
  obtain res s1 where user: "processUser exampleEnv conversationPage (exampleRows 2 ! 0)
      (draftMessageText (exampleConfig 1)) ?s0 = (Inr res, s1)" and skipped: "skipped res"
    by (simp add: conversationPage_user)
  have other: "outcomeOf res \<noteq> Drafted" using skipped by (simp add: outcomeOf_def)
  obtain c' s' where body: "loopBody exampleEnv (exampleConfig 1) (\<lambda>i. goodTab conversationPage)
      (exampleRows 2) 0 noCounts emptyState = (Inr c', s')"
    using conversation_body[of "exampleConfig 1" "exampleRows 2" 0 noCounts emptyState] by blast
  have "draftedCount c' = draftedCount noCounts"
    using inst tab user other body by blast
  then show ?thesis using cap rows dry tab body by simp
qed

lemma failedWrite_body:
  assumes "j < n"
  shows "\<exists>s'. loopBody exampleEnv cfg (\<lambda>i. failedWriteTab draftedPage) (exampleRows n) j c s
        = (Inr (c\<lparr>errorCount := errorCount c + 1\<rparr>), s')
      \<and> tabs s' = tabs s @ [j]
      \<and> filter isNewPage (log s') = filter isNewPage (log s) @ [NewPage j]"
proof -
  define rw where "rw = exampleRows n ! j"
  define s0 where "s0 = s\<lparr>tabs := tabs s @ [j], log := log s @ [NewPage j]\<rparr>"
  define res where "res = \<lparr>res_username = username rw, res_rowIndex = rowIndex rw, success = True,
          skipped = False, error = None, message = Some (lit ''Hi Alex! Welcome'')\<rparr>"
  have tab: "newPage (failedWriteTab draftedPage) j s = (Inr draftedPage, s0)"
    unfolding s0_def by (rule failedWriteTab_newPage)
  obtain s1 where user: "processUser exampleEnv draftedPage (exampleRows n ! j) (draftMessageText cfg) s0
      = (Inr res, s1)"
    using draftedPage_user[of rw "draftMessageText cfg" s0] unfolding res_def rw_def
    by (cases "processUser exampleEnv draftedPage (exampleRows n ! j) (draftMessageText cfg) s0") auto
  have "rowIndex rw = int j + 2"
    using assms by (simp add: rw_def exampleRows_nth)
  then have row: "2 \<le> res_rowIndex res" by (simp add: res_def)
  have drafted: "outcomeOf res = Drafted" by (simp add: res_def outcomeOf_def)
  obtain f where rejected: "fst (updateDraftData exampleEnv (on_valuesUpdate (failedWriteTab draftedPage))
      (Number (Integer (res_rowIndex res))) (String (now (failedWriteTab draftedPage)))
      (argOf (message res)) (String (lit ''Drafted'')) s1) = Inl f"
    using exampleEnv_rejected[OF row, of "lit ''Hi Alex! Welcome''" s1]
    by (auto simp: failedWriteTab_def goodTab_def res_def argOf_def)
  show ?thesis
    using loopBody_outcome[where world="\<lambda>i. failedWriteTab draftedPage" and i=j, OF tab user, of c]
      drafted rejected
    by auto
qed

lemma failedWrite_run:
  "\<exists>s'. run exampleEnv False (exampleConfig 1) goodBrowser (\<lambda>i. failedWriteTab draftedPage)
          (exampleRows 2) emptyState
        = (Inr (Summary 2 \<lparr>draftedCount = 0, skippedCount = 0, errorCount = 2\<rparr>), s')
      \<and> tabs s' = [0, 1]"
proof -
  let ?w = "\<lambda>i::nat. failedWriteTab draftedPage"
  let ?c0 = "\<lparr>draftedCount = 0, skippedCount = 0, errorCount = 0\<rparr>"
  let ?c1 = "\<lparr>draftedCount = 0, skippedCount = 0, errorCount = 1\<rparr>"
  let ?c2 = "\<lparr>draftedCount = 0, skippedCount = 0, errorCount = 2\<rparr>"
  have cap: "maxDraft (exampleConfig 1) = 1" by (simp add: exampleConfig_def)
  have two: "length (exampleRows 2) = 2" by (simp add: exampleRows_def)
  from failedWrite_body[of 0 2 "exampleConfig 1" ?c0 emptyState] obtain s1 where
    b0: "loopBody exampleEnv (exampleConfig 1) ?w (exampleRows 2) 0 ?c0 emptyState = (Inr ?c1, s1)"
    and t0: "tabs s1 = tabs emptyState @ [0]"
    by auto
  from failedWrite_body[of "Suc 0" 2 "exampleConfig 1" ?c1 s1] obtain s2 where
    b1: "loopBody exampleEnv (exampleConfig 1) ?w (exampleRows 2) (Suc 0) ?c1 s1 = (Inr ?c2, s2)"
    and t1: "tabs s2 = tabs s1 @ [Suc 0]"
    by auto
  have st0: "draftLoop exampleEnv (exampleConfig 1) ?w (exampleRows 2) 0 ?c0 emptyState
      = draftLoop exampleEnv (exampleConfig 1) ?w (exampleRows 2) (Suc 0) ?c1 s1"
    using cap two b0 by (intro draftLoop_Suc) auto
  have st1: "draftLoop exampleEnv (exampleConfig 1) ?w (exampleRows 2) (Suc 0) ?c1 s1
      = draftLoop exampleEnv (exampleConfig 1) ?w (exampleRows 2) (Suc (Suc 0)) ?c2 s2"
    using cap two b1 by (intro draftLoop_Suc) auto
  have st2: "draftLoop exampleEnv (exampleConfig 1) ?w (exampleRows 2) (Suc (Suc 0)) ?c2 s2
      = (Inr ?c2, s2)"
    using two by (intro draftLoop_exhausted) auto
  have loop: "draftLoop exampleEnv (exampleConfig 1) ?w (exampleRows 2) 0 ?c0 emptyState
      = (Inr ?c2, s2)"
    using st0 st1 st2 by (simp only:)
  have "exampleRows 2 \<noteq> []" using two by auto
  from run_real[OF this loop] two t0 t1 show ?thesis
    by (auto simp: emptyState_def)
qed

text \<open>
  C10. When an account was drafted and the update of the sheet then throws, the
  iteration adds one to \<open>errorCount\<close>, leaves \<open>draftedCount\<close> and \<open>skippedCount\<close> as they
  were, and keeps the tab; the loop goes on with the next account as long as the cap allows.
  With \<open>maxDraft = 1\<close> and two such accounts the run processes both, keeps both tabs, and
  its summary reports 0 drafted and 2 errors.
\<close>

theorem failed_write_not_counted:
  assumes tab: "newPage (world i) i s = (Inr pg, s0)"
    and user: "processUser e pg (rows ! i) (draftMessageText cfg) s0 = (Inr res, s1)"
    and drafted: "outcomeOf res = Drafted"
    and failed: "fst (updateDraftData e (on_valuesUpdate (world i))
        (Number (Integer (res_rowIndex res))) (String (now (world i)))
        (argOf (message res)) (String (lit ''Drafted'')) s1) = Inl f"
  shows "(\<exists>c' s'. loopBody e cfg world rows i c s = (Inr c', s')
            \<and> errorCount c' = errorCount c + 1
            \<and> draftedCount c' = draftedCount c
            \<and> skippedCount c' = skippedCount c
            \<and> i \<in> set (tabs s')
            \<and> (i < length rows \<and> int (draftedCount c) < maxDraft cfg \<longrightarrow>
                 draftLoop e cfg world rows i c s = draftLoop e cfg world rows (i + 1) c' s'))
       \<and> (\<exists>s'. run exampleEnv False (exampleConfig 1) goodBrowser (\<lambda>i. failedWriteTab draftedPage)
                  (exampleRows 2) emptyState
                = (Inr (Summary 2 \<lparr>draftedCount = 0, skippedCount = 0, errorCount = 2\<rparr>), s')
              \<and> tabs s' = [0, 1])"
proof -
  from loopBody_outcome[where world=world and i=i, OF tab user, of c] drafted failed
  obtain s' where body: "loopBody e cfg world rows i c s = (Inr (c\<lparr>errorCount := errorCount c + 1\<rparr>), s')"
    and tabs: "tabs s' = tabs s @ [i]"
    by auto
  have "i < length rows \<and> int (draftedCount c) < maxDraft cfg \<longrightarrow>
      draftLoop e cfg world rows i c s
        = draftLoop e cfg world rows (i + 1) (c\<lparr>errorCount := errorCount c + 1\<rparr>) s'"
  proof
    assume going: "i < length rows \<and> int (draftedCount c) < maxDraft cfg"
    show "draftLoop e cfg world rows i c s
        = draftLoop e cfg world rows (i + 1) (c\<lparr>errorCount := errorCount c + 1\<rparr>) s'"
      using going body by (intro draftLoop_next) auto
  qed
  then show ?thesis using body tabs failedWrite_run by auto
qed

theorem failed_write_not_counted_witness:
  "fst (newPage (failedWriteTab draftedPage) 0 emptyState) = Inr draftedPage
   \<and> 0 < length (exampleRows 2)
   \<and> int (draftedCount noCounts) < maxDraft (exampleConfig 1)
   \<and> (\<exists>c' s'. loopBody exampleEnv (exampleConfig 1) (\<lambda>i. failedWriteTab draftedPage)
                (exampleRows 2) 0 noCounts emptyState = (Inr c', s')
              \<and> errorCount c' = 1 \<and> draftedCount c' = 0 \<and> 0 \<in> set (tabs s')
              \<and> draftLoop exampleEnv (exampleConfig 1) (\<lambda>i. failedWriteTab draftedPage)
                   (exampleRows 2) 0 noCounts emptyState
                 = draftLoop exampleEnv (exampleConfig 1) (\<lambda>i. failedWriteTab draftedPage)
                     (exampleRows 2) 1 c' s')"
proof -
  let ?rw = "exampleRows 2 ! 0"
  let ?s0 = "emptyState\<lparr>tabs := tabs emptyState @ [0], log := log emptyState @ [NewPage 0]\<rparr>"
  let ?res = "\<lparr>res_username = username ?rw, res_rowIndex = rowIndex ?rw, success = True,
          skipped = False, error = None, message = Some (lit ''Hi Alex! Welcome'')\<rparr>"
  have tab: "newPage (failedWriteTab draftedPage) 0 emptyState = (Inr draftedPage, ?s0)"
    by (rule failedWriteTab_newPage)
  obtain s1 where user: "processUser exampleEnv draftedPage ?rw
      (draftMessageText (exampleConfig 1)) ?s0 = (Inr ?res, s1)"
    using draftedPage_user[of ?rw "draftMessageText (exampleConfig 1)" ?s0]
    by (cases "processUser exampleEnv draftedPage ?rw (draftMessageText (exampleConfig 1)) ?s0") auto
  have drafted: "outcomeOf ?res = Drafted" by (simp add: outcomeOf_def)
  have row: "2 \<le> res_rowIndex ?res" by (simp add: exampleRows_nth)
  obtain f where failed: "fst (updateDraftData exampleEnv (on_valuesUpdate (failedWriteTab draftedPage))
      (Number (Integer (res_rowIndex ?res))) (String (now (failedWriteTab draftedPage)))
      (argOf (message ?res)) (String (lit ''Drafted'')) s1) = Inl f"
    using exampleEnv_rejected[OF row, of "lit ''Hi Alex! Welcome''" s1]
    by (auto simp: failedWriteTab_def goodTab_def argOf_def)
  have len: "0 < length (exampleRows 2)" by (simp add: exampleRows_def)
  have cap: "int (draftedCount noCounts) < maxDraft (exampleConfig 1)"
    by (simp add: noCounts_def exampleConfig_def)
  note inst = failed_write_not_counted[where world="\<lambda>i. failedWriteTab draftedPage" and i=0
      and cfg="exampleConfig 1" and c=noCounts, OF tab user drafted failed]
  then obtain c' s' where
    "loopBody exampleEnv (exampleConfig 1) (\<lambda>i. failedWriteTab draftedPage)
        (exampleRows 2) 0 noCounts emptyState = (Inr c', s')"
    "errorCount c' = errorCount noCounts + 1" "draftedCount c' = draftedCount noCounts"
    "0 \<in> set (tabs s')"
    "0 < length (exampleRows 2) \<and> int (draftedCount noCounts) < maxDraft (exampleConfig 1) \<longrightarrow>
       draftLoop exampleEnv (exampleConfig 1) (\<lambda>i. failedWriteTab draftedPage)
                   (exampleRows 2) 0 noCounts emptyState
                 = draftLoop exampleEnv (exampleConfig 1) (\<lambda>i. failedWriteTab draftedPage)
                     (exampleRows 2) (0 + 1) c' s'"
    by blast
  then show ?thesis using tab len cap by (auto simp: noCounts_def)
qed

end
